theory Spec2Isabelle
  imports Complex_Main
begin

section \<open>Numbers, points and paths\<close>

text \<open>
  The TypeScript sources compute on \<^verbatim>\<open>number\<close>, the IEEE 754 double. Two embeddings of
  numbers are used.

  The vectorization engine, the hatcher, the line-weight simulator and the curve fit read a
  number as a \<^typ>\<open>real\<close>: there, rounding, infinities and NaN are outside the model.
  Where the source can divide zero by zero (a NaN that makes every comparison false) the
  model writes that branch out instead of relying on HOL's \<open>x / 0 = 0\<close>.

  The path optimizer and the arc conversion compare numbers that agree, or nearly agree,
  in exact arithmetic, so that rounding decides what they do. They are modelled on the
  type \<open>double\<close> of the next section, with every operation rounded as the machine rounds
  it.

  Array indices, loop counters and lengths are \<^typ>\<open>nat\<close>.
\<close>

datatype point = Point (px: real) (py: real)

type_synonym path = "point list"

text \<open>\<^verbatim>\<open>distance(p1, p2)\<close> in exact arithmetic.\<close>

definition distance :: "point \<Rightarrow> point \<Rightarrow> real" where
  "distance p1 p2 =
     (let dx = px p2 - px p1; dy = py p2 - py p1 in sqrt (dx * dx + dy * dy))"

section \<open>Double arithmetic\<close>

text \<open>
  A double is a finite number, one of the two infinities, or NaN. A finite double is given
  by its value; the two zeros are not told apart (they differ only as divisors and under
  \<^verbatim>\<open>Object.is\<close>, and the functions modelled below never divide by a zero: their divisors
  are the constants 10 and 11, a determinant whose absolute value is not below
  \<open>10\<^sup>-\<^sup>1\<^sup>0\<close>, and a distance tested to be positive).
\<close>

datatype double = Fin real | PInf | NInf | NaN

text \<open>
  Rounding to the nearest double, ties to the even significand. A double has a significand
  of 53 bits; the unit in the last place of \<open>x\<close> is \<open>2\<^bsup>e - 52\<^esup>\<close> where \<open>e\<close> is the binary
  exponent of \<open>x\<close>, not below \<open>-1022\<close> (below that the doubles are subnormal and equally
  spaced). A result that rounds to \<open>2\<^bsup>1024\<^esup>\<close> or beyond is an infinity.
\<close>

definition binade :: "real \<Rightarrow> int" where
  "binade x = max (- 1022) \<lfloor>log 2 \<bar>x\<bar>\<rfloor>"

definition ulp :: "real \<Rightarrow> real" where
  "ulp x = 2 powr real_of_int (binade x - 52)"

definition roundTiesToEven :: "real \<Rightarrow> int" where
  "roundTiesToEven y =
     (let n = \<lfloor>y\<rfloor>; f = y - real_of_int n
      in if f < 1/2 then n else if 1/2 < f then n + 1 else if even n then n else n + 1)"

definition rnd :: "real \<Rightarrow> double" where
  "rnd x =
     (if x = 0 then Fin 0
      else let r = real_of_int (roundTiesToEven (x / ulp x)) * ulp x
           in if 2 ^ 1024 \<le> \<bar>r\<bar> then (if 0 < x then PInf else NInf) else Fin r)"

text \<open>
  The operations of the language on doubles: \<^verbatim>\<open>+\<close>, \<^verbatim>\<open>-\<close>, \<^verbatim>\<open>*\<close>, \<^verbatim>\<open>/\<close>, \<^verbatim>\<open>Math.sqrt\<close>,
  \<^verbatim>\<open>Math.abs\<close>, \<^verbatim>\<open>Math.max\<close>, \<^verbatim>\<open><\<close> and \<^verbatim>\<open><=\<close>. On finite operands the exact result is
  rounded; NaN propagates and makes every comparison false.
\<close>

fun dneg :: "double \<Rightarrow> double" where
  "dneg (Fin x) = Fin (- x)"
| "dneg PInf = NInf"
| "dneg NInf = PInf"
| "dneg NaN = NaN"

fun dadd :: "double \<Rightarrow> double \<Rightarrow> double" where
  "dadd (Fin x) (Fin y) = rnd (x + y)"
| "dadd NaN b = NaN"
| "dadd a NaN = NaN"
| "dadd PInf NInf = NaN"
| "dadd NInf PInf = NaN"
| "dadd PInf b = PInf"
| "dadd a PInf = PInf"
| "dadd NInf b = NInf"
| "dadd a NInf = NInf"

definition dsub :: "double \<Rightarrow> double \<Rightarrow> double" where
  "dsub a b = dadd a (dneg b)"

text \<open>The sign of a double that is not NaN, and the infinity of a sign (NaN for sign 0).\<close>

fun dsgn :: "double \<Rightarrow> real" where
  "dsgn (Fin x) = sgn x"
| "dsgn PInf = 1"
| "dsgn NInf = - 1"
| "dsgn NaN = 0"

definition infOfSign :: "real \<Rightarrow> double" where
  "infOfSign s = (if s = 0 then NaN else if 0 < s then PInf else NInf)"

fun dmul :: "double \<Rightarrow> double \<Rightarrow> double" where
  "dmul (Fin x) (Fin y) = rnd (x * y)"
| "dmul NaN b = NaN"
| "dmul a NaN = NaN"
| "dmul a b = infOfSign (dsgn a * dsgn b)"

fun ddiv :: "double \<Rightarrow> double \<Rightarrow> double" where
  "ddiv (Fin x) (Fin y) = (if y = 0 then infOfSign (sgn x) else rnd (x / y))"
| "ddiv NaN b = NaN"
| "ddiv a NaN = NaN"
| "ddiv (Fin x) b = Fin 0"
| "ddiv a (Fin y) = infOfSign (dsgn a * (if y < 0 then - 1 else 1))"
| "ddiv a b = NaN"

fun dsqrt :: "double \<Rightarrow> double" where
  "dsqrt (Fin x) = (if x < 0 then NaN else rnd (sqrt x))"
| "dsqrt PInf = PInf"
| "dsqrt NInf = NaN"
| "dsqrt NaN = NaN"

fun dabs :: "double \<Rightarrow> double" where
  "dabs (Fin x) = Fin \<bar>x\<bar>"
| "dabs PInf = PInf"
| "dabs NInf = PInf"
| "dabs NaN = NaN"

fun dless :: "double \<Rightarrow> double \<Rightarrow> bool" where
  "dless (Fin x) (Fin y) = (x < y)"
| "dless NaN b = False"
| "dless a NaN = False"
| "dless NInf NInf = False"
| "dless NInf b = True"
| "dless PInf PInf = False"
| "dless a PInf = True"
| "dless a b = False"

fun dle :: "double \<Rightarrow> double \<Rightarrow> bool" where
  "dle (Fin x) (Fin y) = (x \<le> y)"
| "dle NaN b = False"
| "dle a NaN = False"
| "dle NInf b = True"
| "dle a PInf = True"
| "dle a b = False"

fun dmax :: "double \<Rightarrow> double \<Rightarrow> double" where
  "dmax NaN b = NaN"
| "dmax a NaN = NaN"
| "dmax a b = (if dless a b then b else a)"

text \<open>
  A point whose coordinates the code has computed, and \<^verbatim>\<open>distance(p1, p2)\<close> as the machine
  evaluates it. A point of the input has finite coordinates and enters through \<open>ofPoint\<close>.
\<close>

datatype dpoint = DPoint (dpx: double) (dpy: double)

definition ofPoint :: "point \<Rightarrow> dpoint" where
  "ofPoint p = DPoint (Fin (px p)) (Fin (py p))"

definition distanceD :: "dpoint \<Rightarrow> dpoint \<Rightarrow> double" where
  "distanceD p1 p2 =
     (let dx = dsub (dpx p2) (dpx p1); dy = dsub (dpy p2) (dpy p1)
      in dsqrt (dadd (dmul dx dx) (dmul dy dy)))"

section \<open>Path optimizer (\<^verbatim>\<open>PathOptimizer\<close>)\<close>

text \<open>
  The optimizer computes distances between the points it is given and compares sums of
  them; it makes no new point. Paths are lists of input points, the threshold is a finite
  number, and every distance and sum is a \<^typ>\<open>double\<close>.
\<close>

record OptimizationResult =
  paths :: "path list"
  totalDistance :: double
  improvement :: double

record OptimizeOptions =
  enablePathMerging :: bool
  enable2Opt :: bool
  mergeThreshold :: real
  maxIterations :: nat

text \<open>
  The body shared by the loops of \<^verbatim>\<open>calculateTotalTravelDistance\<close> and
  \<^verbatim>\<open>calculatePathOrderDistance\<close>: the pen travel from the end of one path to the start of
  the next is added to the running total, only when both paths are non-empty.
\<close>

definition addTravel :: "path \<Rightarrow> path \<Rightarrow> double \<Rightarrow> double" where
  "addTravel currentPath nextPath sofar =
     (if length currentPath > 0 \<and> length nextPath > 0
      then dadd sofar
             (distanceD (ofPoint (currentPath ! (length currentPath - 1)))
                (ofPoint (nextPath ! 0)))
      else sofar)"

definition calculateTotalTravelDistance :: "path list \<Rightarrow> double" where
  "calculateTotalTravelDistance ps =
     fold (\<lambda>i total. addTravel (ps ! i) (ps ! (i + 1)) total) [0..<length ps - 1] (Fin 0)"

definition calculatePathOrderDistance :: "path list \<Rightarrow> nat list \<Rightarrow> double" where
  "calculatePathOrderDistance ps order =
     fold (\<lambda>i total. addTravel (ps ! (order ! i)) (ps ! (order ! (i + 1))) total)
       [0..<length order - 1] (Fin 0)"

subsection \<open>Merging\<close>

text \<open>
  \<^verbatim>\<open>tryMergePaths\<close>: the four connections in source order, each with the path its
  \<^verbatim>\<open>merge()\<close> closure builds; \<^verbatim>\<open>reduce\<close> without an initial value starts from the first
  connection and keeps the earlier one on a tie.
\<close>

definition connections :: "path \<Rightarrow> path \<Rightarrow> (double \<times> path) list" where
  "connections path1 path2 =
     (let p1Start = ofPoint (path1 ! 0); p1End = ofPoint (path1 ! (length path1 - 1));
          p2Start = ofPoint (path2 ! 0); p2End = ofPoint (path2 ! (length path2 - 1))
      in [(distanceD p1End p2Start, path1 @ path2),
          (distanceD p1End p2End, path1 @ rev path2),
          (distanceD p1Start p2Start, rev path1 @ path2),
          (distanceD p1Start p2End, rev path1 @ rev path2)])"

definition tryMergePaths :: "path \<Rightarrow> path \<Rightarrow> real \<Rightarrow> path option" where
  "tryMergePaths path1 path2 threshold =
     (if length path1 = 0 \<or> length path2 = 0 then None
      else let cs = connections path1 path2;
               best = fold (\<lambda>conn mn. if dless (fst conn) (fst mn) then conn else mn)
                        (tl cs) (hd cs)
           in if dle (fst best) (Fin threshold) then Some (snd best) else None)"

text \<open>The inner \<^verbatim>\<open>for (j ...)\<close> scan: the first unused \<open>j\<close> that merges, if any.\<close>

fun scanMerge :: "path list \<Rightarrow> real \<Rightarrow> nat set \<Rightarrow> path \<Rightarrow> nat list \<Rightarrow> (nat \<times> path) option" where
  "scanMerge ps threshold used currentPath [] = None"
| "scanMerge ps threshold used currentPath (j # js) =
     (if j \<in> used then scanMerge ps threshold used currentPath js
      else case tryMergePaths currentPath (ps ! j) threshold of
             Some mergeResult \<Rightarrow> Some (j, mergeResult)
           | None \<Rightarrow> scanMerge ps threshold used currentPath js)"

lemma scanMerge_Some:
  "scanMerge ps threshold used currentPath js = Some (j, m) \<Longrightarrow> j \<in> set js \<and> j \<notin> used"
  by (induction js) (auto split: if_splits option.splits)

text \<open>The \<^verbatim>\<open>while (foundMerge)\<close> loop; every round marks one more index used.\<close>

function mergeLoop :: "path list \<Rightarrow> real \<Rightarrow> nat set \<Rightarrow> path \<Rightarrow> path \<times> nat set" where
  "mergeLoop ps threshold used currentPath =
     (case scanMerge ps threshold used currentPath [0..<length ps] of
        None \<Rightarrow> (currentPath, used)
      | Some (j, mergeResult) \<Rightarrow> mergeLoop ps threshold (insert j used) mergeResult)"
  by pat_completeness auto
termination
proof (relation "measure (\<lambda>(ps, threshold, used, currentPath). card ({0..<length ps} - used))")
  show "wf (measure (\<lambda>(ps, threshold, used, currentPath). card ({0..<length ps} - used)))"
    by simp
next
  fix ps :: "path list" and threshold :: real and used :: "nat set" and currentPath :: path
    and x2 :: "nat \<times> path" and j :: nat and mergeResult :: path
  assume "scanMerge ps threshold used currentPath [0..<length ps] = Some x2"
    and "(j, mergeResult) = x2"
  then have "scanMerge ps threshold used currentPath [0..<length ps] = Some (j, mergeResult)"
    by simp
  from scanMerge_Some [OF this] have jin: "j < length ps" and jnot: "j \<notin> used"
    by simp_all
  have "{0..<length ps} - insert j used \<subseteq> {0..<length ps} - used"
    by blast
  moreover have "j \<in> {0..<length ps} - used" "j \<notin> {0..<length ps} - insert j used"
    using jin jnot by simp_all
  ultimately have "{0..<length ps} - insert j used \<subset> {0..<length ps} - used"
    by blast
  then have "card ({0..<length ps} - insert j used) < card ({0..<length ps} - used)"
    by (rule psubset_card_mono [rotated]) simp
  then show "((ps, threshold, insert j used, mergeResult), (ps, threshold, used, currentPath))
      \<in> measure (\<lambda>(ps, threshold, used, currentPath). card ({0..<length ps} - used))"
    by simp
qed

declare mergeLoop.simps [simp del]

definition mergeOuter :: "path list \<Rightarrow> real \<Rightarrow> nat \<Rightarrow> path list \<times> nat set \<Rightarrow> path list \<times> nat set" where
  "mergeOuter ps threshold i st =
     (case st of (merged, used) \<Rightarrow>
        if i \<in> used then (merged, used)
        else case mergeLoop ps threshold (insert i used) (ps ! i) of
               (currentPath, used') \<Rightarrow>
                 (if length currentPath > 0 then merged @ [currentPath] else merged, used'))"

definition mergePaths :: "path list \<Rightarrow> real \<Rightarrow> path list" where
  "mergePaths ps threshold =
     (if length ps \<le> 1 then ps
      else fst (fold (mergeOuter ps threshold) [0..<length ps] ([], {})))"

subsection \<open>2-opt\<close>

function swap2Opt :: "nat list \<Rightarrow> nat \<Rightarrow> nat \<Rightarrow> nat list" where
  "swap2Opt order i j =
     (if i < j then swap2Opt (order[i := order ! j, j := order ! i]) (i + 1) (j - 1)
      else order)"
  by pat_completeness auto
termination
  by (relation "measure (\<lambda>(order, i, j). j - i)") auto

declare swap2Opt.simps [simp del]

text \<open>
  One candidate \<open>(i, j)\<close> of the double loop of \<^verbatim>\<open>apply2Opt\<close>, on the loop state
  \<open>(currentOrder, bestDistance, improved)\<close>.
\<close>

definition try2Opt :: "path list \<Rightarrow> nat \<Rightarrow> nat \<Rightarrow> nat list \<times> double \<times> bool \<Rightarrow> nat list \<times> double \<times> bool" where
  "try2Opt ps i j st =
     (case st of (currentOrder, bestDistance, improved) \<Rightarrow>
        if j - i = 1 then st
        else let newOrder = swap2Opt currentOrder i j;
                 newDistance = calculatePathOrderDistance ps newOrder
             in if dless newDistance bestDistance then (newOrder, newDistance, True) else st)"

text \<open>
  One round of the \<^verbatim>\<open>while\<close> loop: \<open>i\<close> from 1 below \<open>length - 2\<close>, \<open>j\<close> from \<open>i + 1\<close> below
  \<open>length\<close>. The order keeps the length of \<open>ps\<close> throughout, so the bounds are those of
  \<open>ps\<close>.
\<close>

definition pass2Opt :: "path list \<Rightarrow> nat list \<times> double \<times> bool \<Rightarrow> nat list \<times> double \<times> bool" where
  "pass2Opt ps st =
     fold (\<lambda>i. fold (\<lambda>j. try2Opt ps i j) [i + 1..<length ps]) [1..<length ps - 2] st"

function loop2Opt :: "path list \<Rightarrow> nat \<Rightarrow> nat list \<times> double \<times> bool \<Rightarrow> nat \<Rightarrow> nat list" where
  "loop2Opt ps maxIter st iteration =
     (case st of (currentOrder, bestDistance, improved) \<Rightarrow>
        if improved \<and> iteration < maxIter
        then loop2Opt ps maxIter (pass2Opt ps (currentOrder, bestDistance, False)) (iteration + 1)
        else currentOrder)"
  by pat_completeness auto
termination
  by (relation "measure (\<lambda>(ps, maxIter, st, iteration). maxIter - iteration)") auto

declare loop2Opt.simps [simp del]

definition apply2Opt :: "path list \<Rightarrow> nat \<Rightarrow> path list" where
  "apply2Opt ps maxIter =
     (if length ps < 4 then ps
      else let currentOrder = [0..<length ps];
               bestDistance = calculatePathOrderDistance ps currentOrder
           in map (\<lambda>index. ps ! index) (loop2Opt ps maxIter (currentOrder, bestDistance, True) 0))"

subsection \<open>Greedy adjacent swaps\<close>

definition calculateTravelBetween :: "path \<Rightarrow> path \<Rightarrow> path option \<Rightarrow> path option \<Rightarrow> double" where
  "calculateTravelBetween path1 path2 prevPath nextPath =
     (let d0 = Fin 0;
          d1 = (case prevPath of
                  Some prev \<Rightarrow>
                    if length prev > 0 \<and> length path1 > 0
                    then dadd d0 (distanceD (ofPoint (prev ! (length prev - 1)))
                                    (ofPoint (path1 ! 0)))
                    else d0
                | None \<Rightarrow> d0);
          d2 = (if length path1 > 0 \<and> length path2 > 0
                then dadd d1 (distanceD (ofPoint (path1 ! (length path1 - 1)))
                                (ofPoint (path2 ! 0)))
                else d1);
          d3 = (case nextPath of
                  Some nxt \<Rightarrow>
                    if length path2 > 0 \<and> length nxt > 0
                    then dadd d2 (distanceD (ofPoint (path2 ! (length path2 - 1)))
                                    (ofPoint (nxt ! 0)))
                    else d2
                | None \<Rightarrow> d2)
      in d3)"

definition localTravel :: "path list \<Rightarrow> nat \<Rightarrow> double" where
  "localTravel improved i =
     calculateTravelBetween (improved ! i) (improved ! (i + 1))
       (if i > 0 then Some (improved ! (i - 1)) else None)
       (if i + 2 < length improved then Some (improved ! (i + 2)) else None)"

text \<open>One index of the \<^verbatim>\<open>for\<close> loop of \<^verbatim>\<open>greedyImprovement\<close>: swap, test, swap back.\<close>

definition greedyStep :: "nat \<Rightarrow> path list \<times> bool \<Rightarrow> path list \<times> bool" where
  "greedyStep i st =
     (case st of (improved, madeImprovement) \<Rightarrow>
        let originalDistance = localTravel improved i;
            swapped = improved[i := improved ! (i + 1), i + 1 := improved ! i];
            newDistance = localTravel swapped i
        in if dless newDistance originalDistance then (swapped, True)
           else (swapped[i := swapped ! (i + 1), i + 1 := swapped ! i], madeImprovement))"

definition greedyPass :: "path list \<Rightarrow> path list \<times> bool" where
  "greedyPass improved = fold greedyStep [0..<length improved - 1] (improved, False)"

text \<open>
  The \<^verbatim>\<open>while (madeImprovement)\<close> loop has no iteration cap, and a swap is kept on the
  strength of a comparison between two rounded sums of three distances, which does not
  bound what the swap does to the sum of all distances. Nothing in the code says that the
  loop ends, so it is a partial function: \<open>None\<close> is a run that does not return.
\<close>

partial_function (option) greedyLoop :: "path list \<Rightarrow> path list option" where
  "greedyLoop improved =
     (case greedyPass improved of
        (improved', madeImprovement) \<Rightarrow>
          if madeImprovement then greedyLoop improved' else Some improved')"

definition greedyImprovement :: "path list \<Rightarrow> path list option" where
  "greedyImprovement ps = (if length ps \<le> 2 then Some ps else greedyLoop ps)"

definition optimizePaths :: "path list \<Rightarrow> OptimizeOptions \<Rightarrow> OptimizationResult option" where
  "optimizePaths ps options =
     (if length ps = 0 then Some \<lparr>paths = [], totalDistance = Fin 0, improvement = Fin 0\<rparr>
      else
        let originalDistance = calculateTotalTravelDistance ps;
            optimized0 = ps;
            optimized1 = (if enablePathMerging options
                          then mergePaths optimized0 (mergeThreshold options) else optimized0);
            optimized2 = (if enable2Opt options \<and> length optimized1 > 2
                          then apply2Opt optimized1 (maxIterations options) else optimized1)
        in case greedyImprovement optimized2 of
             None \<Rightarrow> None
           | Some optimized3 \<Rightarrow>
               let finalDistance = calculateTotalTravelDistance optimized3;
                   improvement = (if dless (Fin 0) originalDistance
                                  then dmul (ddiv (dsub originalDistance finalDistance)
                                               originalDistance) (Fin 100)
                                  else Fin 0)
               in Some \<lparr>paths = optimized3, totalDistance = finalDistance,
                         improvement = improvement\<rparr>)"

text \<open>
  The pen travel of a list of paths in exact arithmetic: what
  \<^verbatim>\<open>calculateTotalTravelDistance\<close> adds up, without rounding.
\<close>

fun exactTravel :: "path list \<Rightarrow> real" where
  "exactTravel (p # q # ps) =
     (if length p > 0 \<and> length q > 0 then distance (p ! (length p - 1)) (q ! 0) else 0)
     + exactTravel (q # ps)"
| "exactTravel ps = 0"

section \<open>Line-weight simulator (\<^verbatim>\<open>LineWeightSimulator\<close>)\<close>

datatype LineWeightStyle = PARALLEL_LINES | OUTLINE | SCRIBBLE | ZIGZAG

record WeightedPath =
  centerline :: path
  weight :: real
  style :: LineWeightStyle

text \<open>
  \<^verbatim>\<open>Array.prototype.slice(start, end)\<close> on integral arguments: a negative index counts from
  the end of the array, and both bounds are clamped to the array.
\<close>

definition jsSlice :: "'a list \<Rightarrow> int \<Rightarrow> int \<Rightarrow> 'a list" where
  "jsSlice xs start fin =
     (let len = int (length xs);
          k = (if start < 0 then max (len + start) 0 else min start len);
          final = (if fin < 0 then max (len + fin) 0 else min fin len)
      in take (nat (final - k)) (drop (nat k) xs))"

definition calculateNormal :: "point \<Rightarrow> point \<Rightarrow> point" where
  "calculateNormal p1 p2 =
     (let dx = px p2 - px p1; dy = py p2 - py p1; len = sqrt (dx * dx + dy * dy)
      in if len = 0 then Point 0 1 else Point (- dy / len) (dx / len))"

definition offsetNormal :: "path \<Rightarrow> nat \<Rightarrow> point" where
  "offsetNormal pth i =
     (let current = pth ! i
      in if i = 0 then calculateNormal current (pth ! 1)
         else if i = length pth - 1 then calculateNormal (pth ! (i - 1)) current
         else let normal1 = calculateNormal (pth ! (i - 1)) current;
                  normal2 = calculateNormal current (pth ! (i + 1));
                  nx = (px normal1 + px normal2) / 2;
                  ny = (py normal1 + py normal2) / 2;
                  len = sqrt (nx * nx + ny * ny)
              in if len > 0 then Point (nx / len) (ny / len) else Point nx ny)"

definition offsetPath :: "path \<Rightarrow> real \<Rightarrow> path" where
  "offsetPath pth offs =
     (if length pth < 2 then pth
      else if \<bar>offs\<bar> < 0.1 then pth
      else map (\<lambda>i. let current = pth ! i; normal = offsetNormal pth i
                    in Point (px current + px normal * offs) (py current + py normal * offs))
             [0..<length pth])"

definition shortenPath :: "path \<Rightarrow> real \<Rightarrow> path" where
  "shortenPath pth factor =
     (if length pth < 3 then pth
      else let removeCount = \<lfloor>real (length pth) * factor / 2\<rfloor>;
               startIndex = max 0 removeCount;
               endIndex = min (int (length pth)) (int (length pth) - removeCount)
           in jsSlice pth startIndex endIndex)"

definition createParallelLines :: "path \<Rightarrow> real \<Rightarrow> path list" where
  "createParallelLines cl w =
     (let thickness = (w - 1) * 2;
          numLines = max 1 \<lceil>w * 2\<rceil>
      in filter (\<lambda>offsetPth. length offsetPth > 1)
           (map (\<lambda>i. offsetPath cl
                    ((real i - (real_of_int numLines - 1) / 2)
                       * (thickness / max 1 (real_of_int numLines - 1))))
              [0..<nat numLines]))"

definition createOutlineFill :: "path \<Rightarrow> real \<Rightarrow> path list" where
  "createOutlineFill cl w =
     (let thickness = (w - 1) * 2;
          topOutline = offsetPath cl (thickness / 2);
          bottomOutline = offsetPath cl (- thickness / 2);
          outlines = (if length topOutline > 1 then [topOutline] else [])
                     @ (if length bottomOutline > 1 then [bottomOutline] else []);
          fillSpacing = max 0.5 (thickness / 8);
          numFillLines = \<lfloor>thickness / fillSpacing\<rfloor> - 1
      in outlines
         @ map (\<lambda>fillPath. shortenPath fillPath 0.1)
             (filter (\<lambda>fillPath. length fillPath > 1)
                (map (\<lambda>i. offsetPath cl (- thickness / 2 + real i * fillSpacing))
                   [1..<nat (numFillLines + 1)])))"

text \<open>
  \<^verbatim>\<open>seededRandom\<close>: the linear congruential generator. The products stay below \<open>2^53\<close>, so
  the source's double arithmetic is exact and the state is an integer.
\<close>

definition lcgNext :: "int \<Rightarrow> int" where
  "lcgNext state = (state * 1664525 + 1013904223) mod 4294967296"

definition lcgValue :: "int \<Rightarrow> real" where
  "lcgValue state = real_of_int state / 4294967296"

text \<open>
  The loop of \<^verbatim>\<open>createScribbleAroundPath\<close> over the indices \<open>ks\<close>, threading the generator
  state: two draws for the wobble, one for the test, two more when a midpoint is added.
\<close>

fun scribbleLoop :: "path \<Rightarrow> real \<Rightarrow> nat list \<Rightarrow> int \<Rightarrow> path \<Rightarrow> path" where
  "scribbleLoop cl wobbleAmount [] state scribble = scribble"
| "scribbleLoop cl wobbleAmount (i # ks) state scribble =
     (let pt = cl ! i;
          s1 = lcgNext state; wobbleX = (lcgValue s1 - 0.5) * wobbleAmount;
          s2 = lcgNext s1; wobbleY = (lcgValue s2 - 0.5) * wobbleAmount;
          scribble1 = scribble @ [Point (px pt + wobbleX) (py pt + wobbleY)];
          s3 = lcgNext s2
      in if lcgValue s3 < 0.3 \<and> i < length cl - 1
         then let nextPoint = cl ! (i + 1);
                  s4 = lcgNext s3;
                  midX = (px pt + px nextPoint) / 2 + (lcgValue s4 - 0.5) * wobbleAmount;
                  s5 = lcgNext s4;
                  midY = (py pt + py nextPoint) / 2 + (lcgValue s5 - 0.5) * wobbleAmount
              in scribbleLoop cl wobbleAmount ks s5 (scribble1 @ [Point midX midY])
         else scribbleLoop cl wobbleAmount ks s3 scribble1)"

definition createScribbleAroundPath :: "path \<Rightarrow> real \<Rightarrow> nat \<Rightarrow> path" where
  "createScribbleAroundPath cl thickness seed =
     scribbleLoop cl (thickness / 4) [0..<length cl] (int seed) []"

definition createScribbleFill :: "path \<Rightarrow> real \<Rightarrow> path list" where
  "createScribbleFill cl w =
     (let thickness = (w - 1) * 2;
          scribbleIntensity = min thickness 4;
          numScribbles = \<lceil>scribbleIntensity * 3\<rceil>
      in cl # filter (\<lambda>scribblePath. length scribblePath > 1)
                (map (\<lambda>i. createScribbleAroundPath cl thickness i) [0..<nat numScribbles]))"

definition createZigzagPattern :: "path \<Rightarrow> real \<Rightarrow> path" where
  "createZigzagPattern cl thickness =
     (let amplitude = thickness / 2;
          frequency = max 2 thickness
      in concat (map (\<lambda>i.
           let current = cl ! i; nxt = cl ! (i + 1);
               normal = calculateNormal current nxt;
               segmentLength = sqrt ((px nxt - px current)\<^sup>2 + (py nxt - py current)\<^sup>2);
               numZigs = max 1 \<lfloor>segmentLength / frequency\<rfloor>
           in map (\<lambda>j.
                let t = real j / real_of_int numZigs;
                    baseX = px current + (px nxt - px current) * t;
                    baseY = py current + (py nxt - py current) * t;
                    side = (if j mod 2 = 0 then 1 else - 1)
                in Point (baseX + px normal * amplitude * side)
                         (baseY + py normal * amplitude * side))
              [0..<nat numZigs + 1])
         [0..<length cl - 1]))"

definition createZigzagFill :: "path \<Rightarrow> real \<Rightarrow> path list" where
  "createZigzagFill cl w =
     (let thickness = (w - 1) * 2;
          zigzagPath = createZigzagPattern cl thickness;
          topOutline = offsetPath cl (thickness / 2);
          bottomOutline = offsetPath cl (- thickness / 2)
      in (if length zigzagPath > 1 then [zigzagPath] else [])
         @ (if length topOutline > 1 then [topOutline] else [])
         @ (if length bottomOutline > 1 then [bottomOutline] else []))"

definition simulateWeight :: "path \<Rightarrow> real \<Rightarrow> LineWeightStyle \<Rightarrow> path list" where
  "simulateWeight cl w st =
     (if length cl < 2 then [cl]
      else if w \<le> 1.0 then [cl]
      else case st of
             PARALLEL_LINES \<Rightarrow> createParallelLines cl w
           | OUTLINE \<Rightarrow> createOutlineFill cl w
           | SCRIBBLE \<Rightarrow> createScribbleFill cl w
           | ZIGZAG \<Rightarrow> createZigzagFill cl w)"

definition simulateVariableWeight :: "WeightedPath list \<Rightarrow> path list" where
  "simulateVariableWeight weightedPaths =
     fold (\<lambda>weightedPath outputPaths.
             outputPaths @ simulateWeight (centerline weightedPath) (weight weightedPath)
                             (style weightedPath))
       weightedPaths []"

section \<open>Vectorization engine (\<^verbatim>\<open>VectorizationEngine\<close>)\<close>

subsection \<open>Douglas--Peucker simplification\<close>

text \<open>
  \<^verbatim>\<open>perpendicularDistance\<close>. When the chord is a single point, \<open>A = B = C = 0\<close> and the source
  divides zero by zero: the result is NaN, written \<open>None\<close> here.
\<close>

definition perpendicularDistance :: "point \<Rightarrow> point \<Rightarrow> point \<Rightarrow> real option" where
  "perpendicularDistance pt lineStart lineEnd =
     (let A = py lineEnd - py lineStart;
          B = px lineStart - px lineEnd;
          C = px lineEnd * py lineStart - px lineStart * py lineEnd
      in if sqrt (A * A + B * B) = 0 then None
         else Some (\<bar>A * px pt + B * py pt + C\<bar> / sqrt (A * A + B * B)))"

text \<open>
  One index of the search loop on \<open>(maxDistance, maxIndex)\<close>; a NaN distance compares
  false and changes nothing.
\<close>

definition dpStep :: "path \<Rightarrow> nat \<Rightarrow> real \<times> nat \<Rightarrow> real \<times> nat" where
  "dpStep points i st =
     (case perpendicularDistance (points ! i) (points ! 0) (points ! (length points - 1)) of
        None \<Rightarrow> st
      | Some d \<Rightarrow> if d > fst st then (d, i) else st)"

definition dpFindMax :: "path \<Rightarrow> real \<times> nat" where
  "dpFindMax points = fold (dpStep points) [1..<length points - 1] (0, 0)"

text \<open>
  The recursion. With a negative \<open>epsilon\<close> a run whose interior points all lie on the chord
  splits at index 0 and calls itself on the same list, so the function is partial:
  \<open>None\<close> stands for a call that does not return.
\<close>

partial_function (option) douglasPeucker :: "path \<Rightarrow> real \<Rightarrow> path option" where
  "douglasPeucker points epsilon =
     (if length points \<le> 2 then Some points
      else if fst (dpFindMax points) > epsilon
           then Option.bind (douglasPeucker (take (snd (dpFindMax points) + 1) points) epsilon)
                  (\<lambda>left. Option.bind (douglasPeucker (drop (snd (dpFindMax points)) points) epsilon)
                     (\<lambda>right. Some (butlast left @ right)))
           else Some [points ! 0, points ! (length points - 1)])"

subsection \<open>Centerline tracing\<close>

text \<open>
  The canvas pixels: \<^verbatim>\<open>ImageData\<close> with its flat RGBA array. A read past the end of the
  array gives \<^verbatim>\<open>undefined\<close>, the grey value is then NaN and the test \<^verbatim>\<open>gray < threshold\<close>
  is false.
\<close>

record ImageData =
  imgWidth :: nat
  imgHeight :: nat
  imgData :: "nat list"

text \<open>
  A row segment. The source keeps a mutable \<^verbatim>\<open>used\<close> flag in each segment object and puts
  the objects themselves into the paths; the model names a segment object by its row and
  its position in the row, keeps the flags as the set of used names, and builds paths of
  names.
\<close>

record Segment =
  segY :: nat
  segX1 :: nat
  segX2 :: nat
  segMidX :: real

type_synonym segId = "nat \<times> nat"

definition mkSegment :: "nat \<Rightarrow> nat \<Rightarrow> nat \<Rightarrow> Segment" where
  "mkSegment y x1 x2 = \<lparr>segY = y, segX1 = x1, segX2 = x2, segMidX = (real x1 + real x2) / 2\<rparr>"

definition isBlack :: "ImageData \<Rightarrow> real \<Rightarrow> nat \<Rightarrow> nat \<Rightarrow> bool" where
  "isBlack img threshold x y =
     (let i = (y * imgWidth img + x) * 4
      in if i + 2 < length (imgData img)
         then real (imgData img ! i + imgData img ! (i + 1) + imgData img ! (i + 2)) / 3 < threshold
         else False)"

definition scanStep :: "ImageData \<Rightarrow> real \<Rightarrow> nat \<Rightarrow> nat \<Rightarrow> bool \<times> nat \<times> Segment list
    \<Rightarrow> bool \<times> nat \<times> Segment list" where
  "scanStep img threshold y x st =
     (case st of (inSegment, x1, row) \<Rightarrow>
        if isBlack img threshold x y \<and> \<not> inSegment then (True, x, row)
        else if \<not> isBlack img threshold x y \<and> inSegment
             then (False, x1, row @ [mkSegment y x1 (x - 1)])
             else st)"

definition scanRow :: "ImageData \<Rightarrow> real \<Rightarrow> nat \<Rightarrow> Segment list" where
  "scanRow img threshold y =
     (case fold (scanStep img threshold y) [0..<imgWidth img] (False, 0, []) of
        (inSegment, x1, row) \<Rightarrow>
          if inSegment then row @ [mkSegment y x1 (imgWidth img - 1)] else row)"

definition extractSegments :: "ImageData \<Rightarrow> real \<Rightarrow> Segment list list" where
  "extractSegments img threshold = map (scanRow img threshold) [0..<imgHeight img]"

text \<open>
  \<^verbatim>\<open>findClosestUnusedSegment\<close> over the candidates of row \<open>y\<close>. The loop state
  \<open>(bestMatch, minDistance)\<close> starts as \<open>(null, Infinity)\<close>, written \<open>None\<close>.
\<close>

definition closestStep :: "Segment \<Rightarrow> Segment list \<Rightarrow> nat \<Rightarrow> segId set \<Rightarrow> real \<Rightarrow> nat
    \<Rightarrow> (nat \<times> real) option \<Rightarrow> (nat \<times> real) option" where
  "closestStep frm candidates y used proximity k best =
     (let cand = candidates ! k
      in if (y, k) \<in> used then best
         else let horizontalDistance =
                    max 0 (max (real (segX1 frm)) (real (segX1 cand))
                           - min (real (segX2 frm)) (real (segX2 cand)))
              in if horizontalDistance \<le> proximity * 2
                 then let midPointDistance = \<bar>segMidX frm - segMidX cand\<bar>;
                          totalDistance = midPointDistance + horizontalDistance * 0.5
                      in (case best of
                            None \<Rightarrow> Some (k, totalDistance)
                          | Some (bestMatch, minDistance) \<Rightarrow>
                              if totalDistance < minDistance then Some (k, totalDistance)
                              else best)
                 else best)"

definition findClosestUnusedSegment :: "Segment \<Rightarrow> Segment list \<Rightarrow> nat \<Rightarrow> segId set \<Rightarrow> real
    \<Rightarrow> nat option" where
  "findClosestUnusedSegment frm candidates y used proximity =
     map_option fst
       (fold (closestStep frm candidates y used proximity) [0..<length candidates] None)"

definition segAt :: "Segment list list \<Rightarrow> segId \<Rightarrow> Segment" where
  "segAt segmentsByRow sid = segmentsByRow ! fst sid ! snd sid"

text \<open>
  Tracing upwards from row \<open>y\<close>: the first argument counts the rows above, so \<open>Suc prevY\<close>
  looks at row \<open>prevY\<close>. The state is the path so far and the used set.
\<close>

fun traceUp :: "Segment list list \<Rightarrow> real \<Rightarrow> nat \<Rightarrow> segId \<Rightarrow> segId list \<times> segId set
    \<Rightarrow> segId list \<times> segId set" where
  "traceUp segmentsByRow proximity 0 currentSegment st = st"
| "traceUp segmentsByRow proximity (Suc prevY) currentSegment st =
     (case findClosestUnusedSegment (segAt segmentsByRow currentSegment)
             (segmentsByRow ! prevY) prevY (snd st) proximity of
        Some k \<Rightarrow>
          traceUp segmentsByRow proximity prevY (prevY, k)
            ((prevY, k) # fst st, insert (prevY, k) (snd st))
      | None \<Rightarrow> st)"

fun traceDown :: "Segment list list \<Rightarrow> real \<Rightarrow> nat list \<Rightarrow> segId \<Rightarrow> segId list \<times> segId set
    \<Rightarrow> segId list \<times> segId set" where
  "traceDown segmentsByRow proximity [] currentSegment st = st"
| "traceDown segmentsByRow proximity (nextY # ys) currentSegment st =
     (case findClosestUnusedSegment (segAt segmentsByRow currentSegment)
             (segmentsByRow ! nextY) nextY (snd st) proximity of
        Some k \<Rightarrow>
          traceDown segmentsByRow proximity ys (nextY, k)
            (fst st @ [(nextY, k)], insert (nextY, k) (snd st))
      | None \<Rightarrow> st)"

text \<open>The body of the double loop for the segment \<open>k\<close> of row \<open>y\<close>, on \<open>(allPaths, used)\<close>.\<close>

definition stitchSegment :: "Segment list list \<Rightarrow> real \<Rightarrow> nat \<Rightarrow> nat
    \<Rightarrow> segId list list \<times> segId set \<Rightarrow> segId list list \<times> segId set" where
  "stitchSegment segmentsByRow proximity y k st =
     (case st of (allPaths, used) \<Rightarrow>
        if (y, k) \<in> used then st
        else let up = traceUp segmentsByRow proximity y (y, k) ([(y, k)], insert (y, k) used);
                 down = traceDown segmentsByRow proximity [y + 1..<length segmentsByRow] (y, k) up
             in (if length (fst down) \<ge> 3 then allPaths @ [fst down] else allPaths, snd down))"

definition stitchSegments :: "Segment list list \<Rightarrow> real \<Rightarrow> segId list list" where
  "stitchSegments segmentsByRow proximity =
     fst (fold (\<lambda>y. fold (stitchSegment segmentsByRow proximity y)
                      [0..<length (segmentsByRow ! y)])
            [0..<length segmentsByRow] ([], {}))"

definition traceCenterlineSegments :: "ImageData \<Rightarrow> real \<Rightarrow> real \<Rightarrow> segId list list" where
  "traceCenterlineSegments img threshold proximity =
     stitchSegments (extractSegments img threshold) proximity"

definition traceCenterlines :: "ImageData \<Rightarrow> real \<Rightarrow> real \<Rightarrow> path list" where
  "traceCenterlines img threshold proximity =
     map (map (\<lambda>sid. let seg = segAt (extractSegments img threshold) sid
                      in Point (segMidX seg) (real (segY seg))))
       (traceCenterlineSegments img threshold proximity)"

section \<open>Curve fitting (\<^verbatim>\<open>CurveFitter\<close>)\<close>

record BezierCurve =
  bzStart :: point
  control1 :: point
  control2 :: point
  bzEnd :: point

text \<open>
  The start and the end of an arc are copied from the curve it replaces; its center and
  radius are computed by the arc conversion below, in double arithmetic.
\<close>

record Arc =
  arcStart :: point
  arcEnd :: point
  center :: dpoint
  radius :: double
  clockwise :: bool

datatype CurveSegment = Bezier BezierCurve | ArcSegment Arc

definition evaluateBezier :: "BezierCurve \<Rightarrow> real \<Rightarrow> point" where
  "evaluateBezier curve t =
     (let u = 1 - t; tt = t * t; uu = u * u; uuu = uu * u; ttt = tt * t
      in Point (uuu * px (bzStart curve) + 3 * uu * t * px (control1 curve)
                + 3 * u * tt * px (control2 curve) + ttt * px (bzEnd curve))
               (uuu * py (bzStart curve) + 3 * uu * t * py (control1 curve)
                + 3 * u * tt * py (control2 curve) + ttt * py (bzEnd curve)))"

definition createSimpleBezier :: "point \<Rightarrow> point \<Rightarrow> point \<Rightarrow> BezierCurve" where
  "createSimpleBezier p0 p1 p2 =
     \<lparr>bzStart = p0,
      control1 = Point (px p0 + (px p1 - px p0) * 0.5) (py p0 + (py p1 - py p0) * 0.5),
      control2 = Point (px p1 + (px p2 - px p1) * 0.5) (py p1 + (py p2 - py p1) * 0.5),
      bzEnd = p2\<rparr>"

text \<open>
  \<^verbatim>\<open>calculateCurveError\<close>: the RMS distance between the points and the curve at the
  parameters \<open>i / (n - 1)\<close>. It is only called on at least three points.
\<close>

definition calculateCurveError :: "path \<Rightarrow> BezierCurve \<Rightarrow> real" where
  "calculateCurveError points curve =
     (let n = length points;
          totalError = fold (\<lambda>i total.
              let t = real i / (real n - 1);
                  curvePoint = evaluateBezier curve t;
                  err = distance (points ! i) curvePoint
              in total + err * err) [0..<n] 0
      in sqrt (totalError / real n))"

definition calculateTangent :: "path \<Rightarrow> nat \<Rightarrow> point" where
  "calculateTangent points index =
     (let n = length points;
          tangent = (if index = 0
                     then Point (px (points ! 1) - px (points ! 0)) (py (points ! 1) - py (points ! 0))
                     else if index = n - 1
                     then Point (px (points ! (n - 1)) - px (points ! (n - 2)))
                                (py (points ! (n - 1)) - py (points ! (n - 2)))
                     else Point (px (points ! (index + 1)) - px (points ! (index - 1)))
                                (py (points ! (index + 1)) - py (points ! (index - 1))));
          len = sqrt (px tangent * px tangent + py tangent * py tangent)
      in if len > 0 then Point (px tangent / len) (py tangent / len) else tangent)"

text \<open>The eight perturbations of \<^verbatim>\<open>optimizeControlPoints\<close>, in source order (\<open>step = 0.5\<close>).\<close>

definition perturbations :: "(real \<times> real) list" where
  "perturbations =
     [(0.5, 0), (- 0.5, 0), (0, 0.5), (0, - 0.5),
      (0.5, 0.5), (- 0.5, - 0.5), (0.5, - 0.5), (- 0.5, 0.5)]"

text \<open>One pair \<open>(p1, p2)\<close> of the double loop, on the state \<open>(bestC1, bestC2, bestError)\<close>.\<close>

definition perturbStep :: "path \<Rightarrow> point \<Rightarrow> point \<Rightarrow> (real \<times> real) \<Rightarrow> (real \<times> real)
    \<Rightarrow> point \<times> point \<times> real \<Rightarrow> point \<times> point \<times> real" where
  "perturbStep points start fin p1 p2 st =
     (case st of (bestC1, bestC2, bestError) \<Rightarrow>
        let newC1 = Point (px bestC1 + fst p1) (py bestC1 + snd p1);
            newC2 = Point (px bestC2 + fst p2) (py bestC2 + snd p2);
            curve = \<lparr>bzStart = start, control1 = newC1, control2 = newC2, bzEnd = fin\<rparr>;
            err = calculateCurveError points curve
        in if err < bestError then (newC1, newC2, err) else st)"

definition optimizeControlPoints :: "path \<Rightarrow> point \<Rightarrow> point \<Rightarrow> point \<Rightarrow> point \<Rightarrow> point \<times> point" where
  "optimizeControlPoints points start c1 c2 fin =
     (let bestError = calculateCurveError points
                        \<lparr>bzStart = start, control1 = c1, control2 = c2, bzEnd = fin\<rparr>;
          final = fold (\<lambda>iter.
                     fold (\<lambda>p1. fold (\<lambda>p2. perturbStep points start fin p1 p2) perturbations)
                       perturbations)
                    [0..<5] (c1, c2, bestError)
      in (fst final, fst (snd final)))"

text \<open>
  \<^verbatim>\<open>fitBezierToPoints\<close>. The branch for fewer than three points (never taken from
  \<^verbatim>\<open>findBestCurveFit\<close>) replaces a missing point by the previous one.
\<close>

definition fitBezierToPoints :: "path \<Rightarrow> BezierCurve" where
  "fitBezierToPoints points =
     (let n = length points
      in if n < 3
         then createSimpleBezier (points ! 0) (if n > 1 then points ! 1 else points ! 0)
                (if n > 1 then points ! 1 else points ! 0)
         else let start = points ! 0; fin = points ! (n - 1);
                  startTangent = calculateTangent points 0;
                  endTangent = calculateTangent points (n - 1);
                  alpha = 0.3;
                  startLength = distance start fin * alpha;
                  endLength = distance start fin * alpha;
                  c1 = Point (px start + px startTangent * startLength)
                             (py start + py startTangent * startLength);
                  c2 = Point (px fin - px endTangent * endLength)
                             (py fin - py endTangent * endLength);
                  optimized = optimizeControlPoints points start c1 c2 fin
              in \<lparr>bzStart = start, control1 = fst optimized, control2 = snd optimized,
                  bzEnd = fin\<rparr>)"

text \<open>
  The loop of \<^verbatim>\<open>findBestCurveFit\<close> over the candidate lengths, longest first; the first
  fit within tolerance is returned with its end index.
\<close>

fun findBestLoop :: "path \<Rightarrow> nat \<Rightarrow> real \<Rightarrow> nat list \<Rightarrow> (BezierCurve \<times> nat) option" where
  "findBestLoop points startIndex tolerance [] = None"
| "findBestLoop points startIndex tolerance (len # lens) =
     (let endIndex = startIndex + len - 1
      in if endIndex \<ge> length points then findBestLoop points startIndex tolerance lens
         else let segment = take (endIndex + 1 - startIndex) (drop startIndex points);
                  curve = fitBezierToPoints segment;
                  err = calculateCurveError segment curve
              in if err \<le> tolerance then Some (curve, endIndex)
                 else findBestLoop points startIndex tolerance lens)"

definition findBestCurveFit :: "path \<Rightarrow> nat \<Rightarrow> real \<Rightarrow> (BezierCurve \<times> nat) option" where
  "findBestCurveFit points startIndex tolerance =
     findBestLoop points startIndex tolerance
       (rev [3..<min (length points - startIndex) 20 + 1])"

lemma findBestLoop_endIndex:
  "findBestLoop points startIndex tolerance lens = Some (curve, endIndex) \<Longrightarrow>
     \<exists>len \<in> set lens. endIndex = startIndex + len - 1"
  by (induction lens) (auto simp: Let_def split: if_splits)

lemma findBestCurveFit_endIndex:
  assumes "findBestCurveFit points startIndex tolerance = Some (curve, endIndex)"
  shows "startIndex < endIndex"
proof -
  from findBestLoop_endIndex [OF assms [unfolded findBestCurveFit_def]]
  obtain len where len: "len \<in> set (rev [3..<min (length points - startIndex) 20 + 1])"
    and e: "endIndex = startIndex + len - 1" by blast
  from len have "3 \<le> len" by (simp del: upt_Suc)
  with e show ?thesis by simp
qed

text \<open>The \<^verbatim>\<open>while\<close> loop of \<^verbatim>\<open>fitCurves\<close> on \<open>(i, curves)\<close>; every round moves \<open>i\<close> forward.\<close>

function fitLoop :: "path \<Rightarrow> real \<Rightarrow> nat \<Rightarrow> CurveSegment list \<Rightarrow> CurveSegment list" where
  "fitLoop points tolerance i curves =
     (if i < length points - 1
      then (case findBestCurveFit points i tolerance of
              Some bestFit \<Rightarrow> fitLoop points tolerance (snd bestFit) (curves @ [Bezier (fst bestFit)])
            | None \<Rightarrow>
                if i < length points - 2
                then fitLoop points tolerance (i + 2)
                       (curves @ [Bezier (createSimpleBezier (points ! i) (points ! (i + 1))
                                            (points ! (i + 2)))])
                else fitLoop points tolerance (i + 1) curves)
      else curves)"
  by pat_completeness auto
termination
proof (relation "measure (\<lambda>(points, tolerance, i, curves). length points - i)")
  show "wf (measure (\<lambda>(points, tolerance, i, curves). length points - i))"
    by simp
next
  fix points :: path and tolerance :: real and i :: nat and curves :: "CurveSegment list"
    and bestFit :: "BezierCurve \<times> nat"
  assume i: "i < length points - 1"
    and "findBestCurveFit points i tolerance = Some bestFit"
  then have "findBestCurveFit points i tolerance = Some (fst bestFit, snd bestFit)" by simp
  from findBestCurveFit_endIndex [OF this] i
  show "((points, tolerance, snd bestFit, curves @ [Bezier (fst bestFit)]),
         (points, tolerance, i, curves))
        \<in> measure (\<lambda>(points, tolerance, i, curves). length points - i)"
    by simp
qed auto

declare fitLoop.simps [simp del]

definition fitCurves :: "path \<Rightarrow> real \<Rightarrow> CurveSegment list" where
  "fitCurves points tolerance =
     (if length points < 3 then [] else fitLoop points tolerance 0 [])"

subsection \<open>Arc conversion\<close>

text \<open>
  \<^verbatim>\<open>convertToArcs\<close> decides by two comparisons of computed numbers: the determinant of the
  circle fit against \<open>10\<^sup>-\<^sup>1\<^sup>0\<close> and the largest radial error against the tolerance. For a
  nearly straight curve the determinant is a difference of nearly equal products and the
  radius is huge, so both comparisons are decided by rounding. The conversion is therefore
  modelled on doubles. The control points of the curve and the tolerance are finite
  numbers; the samples, the sums, the center and the radius are doubles.

  \<^verbatim>\<open>evaluateBezier\<close> as the machine evaluates it; products and sums associate to the left.
\<close>

definition evaluateBezierD :: "BezierCurve \<Rightarrow> double \<Rightarrow> dpoint" where
  "evaluateBezierD curve t =
     (let u = dsub (Fin 1) t; tt = dmul t t; uu = dmul u u; uuu = dmul uu u; ttt = dmul tt t
      in DPoint
           (dadd (dadd (dadd (dmul uuu (Fin (px (bzStart curve))))
                             (dmul (dmul (dmul (Fin 3) uu) t) (Fin (px (control1 curve)))))
                       (dmul (dmul (dmul (Fin 3) u) tt) (Fin (px (control2 curve)))))
                 (dmul ttt (Fin (px (bzEnd curve)))))
           (dadd (dadd (dadd (dmul uuu (Fin (py (bzStart curve))))
                             (dmul (dmul (dmul (Fin 3) uu) t) (Fin (py (control1 curve)))))
                       (dmul (dmul (dmul (Fin 3) u) tt) (Fin (py (control2 curve)))))
                 (dmul ttt (Fin (py (bzEnd curve))))))"

text \<open>
  The sums of \<^verbatim>\<open>fitCircleToPoints\<close>, each accumulated from 0 in the order of the points, and
  the coefficients \<open>A\<close> to \<open>E\<close> of its normal equations.
\<close>

definition circleSums :: "dpoint list \<Rightarrow> double \<times> double \<times> double \<times> double \<times> double" where
  "circleSums points =
     (let n = Fin (real (length points));
          sumX = fold (\<lambda>p s. dadd s (dpx p)) points (Fin 0);
          sumY = fold (\<lambda>p s. dadd s (dpy p)) points (Fin 0);
          sumX2 = fold (\<lambda>p s. dadd s (dmul (dpx p) (dpx p))) points (Fin 0);
          sumY2 = fold (\<lambda>p s. dadd s (dmul (dpy p) (dpy p))) points (Fin 0);
          sumXY = fold (\<lambda>p s. dadd s (dmul (dpx p) (dpy p))) points (Fin 0);
          sumX3 = fold (\<lambda>p s. dadd s (dmul (dmul (dpx p) (dpx p)) (dpx p))) points (Fin 0);
          sumY3 = fold (\<lambda>p s. dadd s (dmul (dmul (dpy p) (dpy p)) (dpy p))) points (Fin 0);
          sumX2Y = fold (\<lambda>p s. dadd s (dmul (dmul (dpx p) (dpx p)) (dpy p))) points (Fin 0);
          sumXY2 = fold (\<lambda>p s. dadd s (dmul (dpx p) (dmul (dpy p) (dpy p)))) points (Fin 0);
          A = dsub (dmul n sumX2) (dmul sumX sumX);
          B = dsub (dmul n sumXY) (dmul sumX sumY);
          C = dsub (dmul n sumY2) (dmul sumY sumY);
          D = dmul (Fin (1/2))
                (dsub (dadd (dsub (dmul n sumX2Y) (dmul sumX sumXY)) (dmul n sumX3))
                   (dmul sumX sumX2));
          E = dmul (Fin (1/2))
                (dsub (dadd (dsub (dmul n sumXY2) (dmul sumY sumXY)) (dmul n sumY3))
                   (dmul sumY sumY2))
      in (A, B, C, D, E))"

definition circleDet :: "dpoint list \<Rightarrow> double" where
  "circleDet points =
     (case circleSums points of (A, B, C, D, E) \<Rightarrow> dsub (dmul A C) (dmul B B))"

text \<open>The literal \<^verbatim>\<open>1e-10\<close> is the double nearest to \<open>10\<^sup>-\<^sup>1\<^sup>0\<close>.\<close>

definition fitCircleToPoints :: "dpoint list \<Rightarrow> (dpoint \<times> double) option" where
  "fitCircleToPoints points =
     (if length points < 3 then None
      else case circleSums points of (A, B, C, D, E) \<Rightarrow>
        let n = Fin (real (length points));
            det = circleDet points
        in if dless (dabs det) (rnd (1 / 10 ^ 10)) then None
           else let centerX = ddiv (dsub (dmul D C) (dmul B E)) det;
                    centerY = ddiv (dsub (dmul A E) (dmul B D)) det;
                    sumDist = fold (\<lambda>p s. dadd s (distanceD p (DPoint centerX centerY)))
                                points (Fin 0);
                    radius = ddiv sumDist n
                in Some (DPoint centerX centerY, radius))"

definition bezierSamples :: "BezierCurve \<Rightarrow> dpoint list" where
  "bezierSamples bezier =
     map (\<lambda>i. evaluateBezierD bezier (ddiv (Fin (real i)) (Fin 10))) [0..<11]"

definition tryConvertBezierToArc :: "BezierCurve \<Rightarrow> real \<Rightarrow> Arc option" where
  "tryConvertBezierToArc bezier tolerance =
     (let points = bezierSamples bezier
      in case fitCircleToPoints points of
           None \<Rightarrow> None
         | Some circle \<Rightarrow>
             let maxError = fold (\<lambda>pt maxError.
                                    dmax maxError
                                      (dabs (dsub (distanceD pt (fst circle)) (snd circle))))
                              points (Fin 0)
             in if dle maxError (Fin tolerance)
                then let midPoint = evaluateBezierD bezier (Fin (1/2));
                         startToMidX = dsub (dpx midPoint) (Fin (px (bzStart bezier)));
                         startToMidY = dsub (dpy midPoint) (Fin (py (bzStart bezier)));
                         startToEndX = dsub (Fin (px (bzEnd bezier))) (Fin (px (bzStart bezier)));
                         startToEndY = dsub (Fin (py (bzEnd bezier))) (Fin (py (bzStart bezier)));
                         cross = dsub (dmul startToMidX startToEndY)
                                   (dmul startToMidY startToEndX)
                     in Some \<lparr>arcStart = bzStart bezier, arcEnd = bzEnd bezier,
                              center = fst circle, radius = snd circle,
                              clockwise = dless cross (Fin 0)\<rparr>
                else None)"

definition convertToArcs :: "CurveSegment list \<Rightarrow> real \<Rightarrow> CurveSegment list" where
  "convertToArcs curves tolerance =
     map (\<lambda>curve. case curve of
            ArcSegment a \<Rightarrow> curve
          | Bezier b \<Rightarrow> (case tryConvertBezierToArc b tolerance of
                          Some arc \<Rightarrow> ArcSegment arc
                        | None \<Rightarrow> curve))
       curves"

text \<open>
  The exact distance of a computed point from the circle of an arc,
  \<open>| |p - center| - radius |\<close>, when the numbers involved are finite.
\<close>

fun radialDeviation :: "dpoint \<Rightarrow> dpoint \<Rightarrow> double \<Rightarrow> real option" where
  "radialDeviation (DPoint (Fin x) (Fin y)) (DPoint (Fin cx) (Fin cy)) (Fin r) =
     Some \<bar>sqrt ((x - cx)\<^sup>2 + (y - cy)\<^sup>2) - r\<bar>"
| "radialDeviation p c r = None"

section \<open>Advanced hatcher (\<^verbatim>\<open>AdvancedHatcher\<close>)\<close>

text \<open>
  A mask is a single-channel 8-bit OpenCV matrix, stored row by row. \<^verbatim>\<open>Math.random()\<close> is a
  hidden global generator: the model passes the sequence of values that the coming calls
  will return (\<open>rng 0\<close> is the next one) and every function that draws returns the rest of
  the sequence. A result \<open>None\<close> means that the call does not return normally: a loop that
  never ends or an exception that the hatcher does not catch.
\<close>

datatype HatchingStyle = PARALLEL | CONTOUR | CROSS | STIPPLING

record Mask =
  maskCols :: nat
  maskRows :: nat
  maskData :: "nat list"

type_synonym rng = "nat \<Rightarrow> real"

definition rngDrop :: "nat \<Rightarrow> rng \<Rightarrow> rng" where
  "rngDrop k r = (\<lambda>n. r (n + k))"

definition isPointInMask :: "point \<Rightarrow> Mask \<Rightarrow> bool" where
  "isPointInMask pt msk =
     (let x = \<lfloor>px pt\<rfloor>; y = \<lfloor>py pt\<rfloor>
      in if x < 0 \<or> x \<ge> int (maskCols msk) \<or> y < 0 \<or> y \<ge> int (maskRows msk) then False
         else if nat y * maskCols msk + nat x < length (maskData msk)
              then maskData msk ! (nat y * maskCols msk + nat x) > 0
              else False)"

subsection \<open>Parallel hatching\<close>

text \<open>One sample of a hatch line, on the state \<open>(path, inRegion, paths)\<close>.\<close>

definition hatchSample :: "Mask \<Rightarrow> nat \<Rightarrow> nat \<Rightarrow> int \<Rightarrow> int \<Rightarrow> path \<times> bool \<times> path list
    \<Rightarrow> path \<times> bool \<times> path list" where
  "hatchSample msk width height x y st =
     (case st of (pth, inRegion, pths) \<Rightarrow>
        if x \<ge> 0 \<and> x < int width \<and> y \<ge> 0 \<and> y < int height
        then let isInMask = isPointInMask (Point (of_int x) (of_int y)) msk
             in if isInMask \<and> \<not> inRegion then (pth @ [Point (of_int x) (of_int y)], True, pths)
                else if \<not> isInMask \<and> inRegion
                     then ([], False, if length pth > 1 then pths @ [pth] else pths)
                     else if isInMask \<and> inRegion
                          then (pth @ [Point (of_int x) (of_int y)], inRegion, pths)
                          else st
        else st)"

text \<open>
  One hatch line at \<open>offset\<close>: \<open>\<lfloor>2 diagonal\<rfloor> + 1\<close> samples, rounded as \<^verbatim>\<open>Math.round\<close> does
  (\<open>\<lfloor>x + 1/2\<rfloor>\<close>). With zero steps the parameter is \<open>0/0\<close> and the NaN coordinates fail the
  bounds test.
\<close>

definition hatchLine :: "Mask \<Rightarrow> nat \<Rightarrow> nat \<Rightarrow> real \<Rightarrow> real \<Rightarrow> real \<Rightarrow> real \<Rightarrow> path list
    \<Rightarrow> path list" where
  "hatchLine msk width height diagonal c s offset pths =
     (let startX = - diagonal * c + offset * (- s);
          startY = - diagonal * s + offset * c;
          endX = diagonal * c + offset * (- s);
          endY = diagonal * s + offset * c;
          steps = \<lfloor>diagonal * 2\<rfloor>;
          final = fold (\<lambda>step st.
                    if steps = 0 then st
                    else let t = real step / real_of_int steps
                         in hatchSample msk width height
                              (round (startX + (endX - startX) * t))
                              (round (startY + (endY - startY) * t)) st)
                   [0..<nat (steps + 1)] ([], False, pths)
      in if length (fst final) > 1 then snd (snd final) @ [fst final] else snd (snd final))"

text \<open>The loop over the offsets; it does not end when the spacing is not positive.\<close>

partial_function (option) hatchLoop :: "Mask \<Rightarrow> nat \<Rightarrow> nat \<Rightarrow> real \<Rightarrow> real \<Rightarrow> real \<Rightarrow> real
    \<Rightarrow> real \<Rightarrow> path list \<Rightarrow> path list option" where
  "hatchLoop msk width height diagonal c s spacing offset pths =
     (if offset < diagonal
      then hatchLoop msk width height diagonal c s spacing (offset + spacing)
             (hatchLine msk width height diagonal c s offset pths)
      else Some pths)"

definition generateParallelHatching :: "Mask \<Rightarrow> real \<Rightarrow> real \<Rightarrow> real \<Rightarrow> nat \<Rightarrow> nat
    \<Rightarrow> path list option" where
  "generateParallelHatching msk intensity baseSpacing angle width height =
     (let radians = (angle * pi) / 180;
          c = cos radians;
          s = sin radians;
          spacing = baseSpacing / max 0.3 intensity;
          diagonal = sqrt (real width * real width + real height * real height)
      in hatchLoop msk width height diagonal c s spacing (- diagonal) [])"

subsection \<open>Cross hatching\<close>

definition varyLineLength :: "path \<Rightarrow> real \<Rightarrow> path" where
  "varyLineLength pth factor =
     (if length pth < 2 then pth
      else let newLength = \<lfloor>real (length pth) * factor\<rfloor>
           in if newLength < 2 then [pth ! 0, pth ! 1]
              else let startIndex = \<lfloor>real_of_int (int (length pth) - newLength) / 2\<rfloor>
                   in jsSlice pth startIndex (startIndex + newLength))"

text \<open>\<^verbatim>\<open>layerPaths.map(path => varyLineLength(path, 0.8 + Math.random() * 0.4))\<close>.\<close>

fun varyAll :: "path list \<Rightarrow> rng \<Rightarrow> path list \<times> rng" where
  "varyAll [] r = ([], r)"
| "varyAll (pth # pths) r =
     (let v = varyLineLength pth (0.8 + r 0 * 0.4);
          rest = varyAll pths (rngDrop 1 r)
      in (v # fst rest, snd rest))"

fun crossLayers :: "Mask \<Rightarrow> real \<Rightarrow> real \<Rightarrow> nat \<Rightarrow> nat \<Rightarrow> nat list \<Rightarrow> rng \<Rightarrow> path list
    \<Rightarrow> (path list \<times> rng) option" where
  "crossLayers msk baseSpacing primaryAngle width height [] r pths = Some (pths, r)"
| "crossLayers msk baseSpacing primaryAngle width height (layer # layers) r pths =
     (let angles = [primaryAngle, primaryAngle + 90, primaryAngle + 45, primaryAngle + 135];
          layerAngle = angles ! (layer mod length angles);
          layerSpacing = baseSpacing * (1 + real layer * 0.3)
      in case generateParallelHatching msk 1.0 layerSpacing layerAngle width height of
           None \<Rightarrow> None
         | Some layerPaths \<Rightarrow>
             if layer > 0
             then let modified = varyAll layerPaths r
                  in crossLayers msk baseSpacing primaryAngle width height layers (snd modified)
                       (pths @ fst modified)
             else crossLayers msk baseSpacing primaryAngle width height layers r
                    (pths @ layerPaths))"

definition generateCrossHatching :: "Mask \<Rightarrow> real \<Rightarrow> real \<Rightarrow> real \<Rightarrow> nat \<Rightarrow> nat \<Rightarrow> rng
    \<Rightarrow> (path list \<times> rng) option" where
  "generateCrossHatching msk intensity baseSpacing primaryAngle width height r =
     (let maxLayers = 4;
          numLayers = \<lceil>intensity * maxLayers\<rceil>
      in crossLayers msk baseSpacing primaryAngle width height [0..<nat numLayers] r [])"

subsection \<open>Stippling\<close>

text \<open>
  The grid of \<^verbatim>\<open>poissonDiskSampling\<close> is a partial map from cell coordinates to the sample
  in the cell. The neighbourhood test reads the 25 cells around the candidate's cell that
  lie inside the grid.
\<close>

type_synonym grid = "int \<times> int \<Rightarrow> point option"

definition neighbourOffsets :: "(int \<times> int) list" where
  "neighbourOffsets = concat (map (\<lambda>dx. map (\<lambda>dy. (dx, dy)) [- 2, - 1, 0, 1, 2]) [- 2, - 1, 0, 1, 2])"

definition candidateValid :: "grid \<Rightarrow> int \<Rightarrow> int \<Rightarrow> real \<Rightarrow> point \<Rightarrow> int \<Rightarrow> int \<Rightarrow> bool" where
  "candidateValid g gridWidth gridHeight minDist candidate gridX gridY =
     list_all (\<lambda>d.
        let nx = gridX + fst d; ny = gridY + snd d
        in if nx \<ge> 0 \<and> nx < gridWidth \<and> ny \<ge> 0 \<and> ny < gridHeight
           then (case g (nx, ny) of
                   None \<Rightarrow> True
                 | Some neighbor \<Rightarrow>
                     \<not> sqrt ((px candidate - px neighbor)\<^sup>2 + (py candidate - py neighbor)\<^sup>2)
                         < minDist)
           else True)
       neighbourOffsets"

text \<open>
  The \<^verbatim>\<open>for (i < k)\<close> loop: up to \<open>n\<close> candidates around \<open>current\<close>, two draws each; the first
  valid candidate ends the loop.
\<close>

fun tryCandidates :: "nat \<Rightarrow> nat \<Rightarrow> real \<Rightarrow> real \<Rightarrow> real \<Rightarrow> int \<Rightarrow> int \<Rightarrow> grid \<Rightarrow> point \<Rightarrow> nat
    \<Rightarrow> rng \<Rightarrow> point option \<times> rng" where
  "tryCandidates width height minDist maxDist cellSize gridWidth gridHeight g current 0 r =
     (None, r)"
| "tryCandidates width height minDist maxDist cellSize gridWidth gridHeight g current (Suc n) r =
     (let angle = r 0 * 2 * pi;
          dist = minDist + r 1 * (maxDist - minDist);
          candidate = Point (px current + cos angle * dist) (py current + sin angle * dist);
          r' = rngDrop 2 r
      in if px candidate \<ge> 0 \<and> px candidate < real width
            \<and> py candidate \<ge> 0 \<and> py candidate < real height
            \<and> candidateValid g gridWidth gridHeight minDist candidate
                 \<lfloor>px candidate / cellSize\<rfloor> \<lfloor>py candidate / cellSize\<rfloor>
         then (Some candidate, r')
         else tryCandidates width height minDist maxDist cellSize gridWidth gridHeight g current
                n r')"

text \<open>
  The \<^verbatim>\<open>while\<close> loop on \<open>(points, active, grid)\<close> and the generator. An index outside
  \<open>active\<close> (possible only for a draw outside \<open>[0, 1)\<close>) makes the source read a field of
  \<^verbatim>\<open>undefined\<close>, which throws.
\<close>

partial_function (option) poissonLoop :: "nat \<Rightarrow> nat \<Rightarrow> real \<Rightarrow> real \<Rightarrow> real \<Rightarrow> int \<Rightarrow> int
    \<Rightarrow> real \<Rightarrow> path \<Rightarrow> path \<Rightarrow> grid \<Rightarrow> rng \<Rightarrow> (path \<times> rng) option" where
  "poissonLoop width height minDist maxDist cellSize gridWidth gridHeight target points active
       g r =
     (if length active > 0 \<and> real (length points) < target
      then (if \<lfloor>r 0 * real (length active)\<rfloor> < 0
               \<or> \<lfloor>r 0 * real (length active)\<rfloor> \<ge> int (length active)
            then None
            else (if fst (tryCandidates width height minDist maxDist cellSize gridWidth
                            gridHeight g (active ! nat \<lfloor>r 0 * real (length active)\<rfloor>) 30
                            (rngDrop 1 r)) = None
                  then poissonLoop width height minDist maxDist cellSize gridWidth gridHeight
                         target points
                         (take (nat \<lfloor>r 0 * real (length active)\<rfloor>) active
                          @ drop (nat \<lfloor>r 0 * real (length active)\<rfloor> + 1) active)
                         g
                         (snd (tryCandidates width height minDist maxDist cellSize gridWidth
                                 gridHeight g (active ! nat \<lfloor>r 0 * real (length active)\<rfloor>) 30
                                 (rngDrop 1 r)))
                  else poissonLoop width height minDist maxDist cellSize gridWidth gridHeight
                         target
                         (points @ [the (fst (tryCandidates width height minDist maxDist cellSize
                             gridWidth gridHeight g
                             (active ! nat \<lfloor>r 0 * real (length active)\<rfloor>) 30 (rngDrop 1 r)))])
                         (active @ [the (fst (tryCandidates width height minDist maxDist cellSize
                             gridWidth gridHeight g
                             (active ! nat \<lfloor>r 0 * real (length active)\<rfloor>) 30 (rngDrop 1 r)))])
                         (let cand = the (fst (tryCandidates width height minDist maxDist cellSize
                                gridWidth gridHeight g
                                (active ! nat \<lfloor>r 0 * real (length active)\<rfloor>) 30 (rngDrop 1 r)))
                          in g((\<lfloor>px cand / cellSize\<rfloor>, \<lfloor>py cand / cellSize\<rfloor>) \<mapsto> cand))
                         (snd (tryCandidates width height minDist maxDist cellSize gridWidth
                                 gridHeight g (active ! nat \<lfloor>r 0 * real (length active)\<rfloor>) 30
                                 (rngDrop 1 r)))))
      else Some (points, r))"

text \<open>
  \<^verbatim>\<open>poissonDiskSampling\<close>. A cell size that is not positive makes the source throw: the
  grid gets an invalid length, or has no column to put the first sample in; so does a
  first sample outside the columns of the grid.
\<close>

definition poissonDiskSampling :: "nat \<Rightarrow> nat \<Rightarrow> real \<Rightarrow> real \<Rightarrow> real \<Rightarrow> rng
    \<Rightarrow> (path \<times> rng) option" where
  "poissonDiskSampling width height minDist maxDist density r =
     (let cellSize = minDist / sqrt 2
      in if cellSize \<le> 0 then None
         else let gridWidth = \<lceil>real width / cellSize\<rceil>;
                  gridHeight = \<lceil>real height / cellSize\<rceil>;
                  first = Point (r 0 * real width) (r 1 * real height);
                  firstGridX = \<lfloor>px first / cellSize\<rfloor>;
                  firstGridY = \<lfloor>py first / cellSize\<rfloor>
              in if firstGridX < 0 \<or> firstGridX \<ge> gridWidth then None
                 else poissonLoop width height minDist maxDist cellSize gridWidth gridHeight
                        (real width * real height * density / (minDist * minDist))
                        [first] [first] (Map.empty((firstGridX, firstGridY) \<mapsto> first))
                        (rngDrop 2 r))"

text \<open>The loop over the dots of \<^verbatim>\<open>generateStippling\<close>; a dot inside the mask draws its size.\<close>

fun stippleDots :: "Mask \<Rightarrow> path \<Rightarrow> rng \<Rightarrow> path list \<Rightarrow> path list \<times> rng" where
  "stippleDots msk [] r pths = (pths, r)"
| "stippleDots msk (dot # dots) r pths =
     (if isPointInMask dot msk
      then let dotSize = 0.5 + r 0 * 1
           in stippleDots msk dots (rngDrop 1 r)
                (pths @ [[dot, Point (px dot + dotSize) (py dot)]])
      else stippleDots msk dots r pths)"

definition generateStippling :: "Mask \<Rightarrow> real \<Rightarrow> real \<Rightarrow> nat \<Rightarrow> nat \<Rightarrow> rng
    \<Rightarrow> (path list \<times> rng) option" where
  "generateStippling msk intensity baseSpacing width height r =
     (let dotDensity = intensity * 0.3;
          minSpacing = baseSpacing * 0.5;
          maxSpacing = baseSpacing * 2
      in case poissonDiskSampling width height minSpacing maxSpacing dotDensity r of
           None \<Rightarrow> None
         | Some dots \<Rightarrow> Some (stippleDots msk (fst dots) (snd dots) []))"

subsection \<open>Contour hatching\<close>

text \<open>
  The contours come from OpenCV's \<^verbatim>\<open>findContours\<close>, which is not part of the repository:
  they are a parameter, lists of integer points. An exception inside the \<^verbatim>\<open>try\<close> block only
  cuts the list of paths short; the model has none.
\<close>

definition offsetContour :: "(int \<times> int) list \<Rightarrow> real \<Rightarrow> path option" where
  "offsetContour contour offset =
     (if length contour < 3 then None
      else let points = map (\<lambda>c. Point (of_int (fst c)) (of_int (snd c))) contour;
               n = length points
           in Some (map (\<lambda>i.
                let prev = points ! ((i + n - 1) mod n);
                    curr = points ! i;
                    nxt = points ! ((i + 1) mod n);
                    v1x = px curr - px prev; v1y = py curr - py prev;
                    v2x = px nxt - px curr; v2y = py nxt - py curr;
                    nx = - (v1y + v2y); ny = v1x + v2x;
                    len = sqrt (nx * nx + ny * ny)
                in if len > 0
                   then Point (px curr + nx / len * offset) (py curr + ny / len * offset)
                   else curr) [0..<n]))"

definition smoothOnce :: "path \<Rightarrow> path" where
  "smoothOnce smoothed =
     map (\<lambda>i. let n = length smoothed;
                   prev = smoothed ! ((i + n - 1) mod n);
                   curr = smoothed ! i;
                   nxt = smoothed ! ((i + 1) mod n)
               in Point ((px prev + 2 * px curr + px nxt) / 4)
                        ((py prev + 2 * py curr + py nxt) / 4))
       [0..<length smoothed]"

definition smoothContour :: "path \<Rightarrow> path" where
  "smoothContour points = smoothOnce (smoothOnce points)"

definition generateContourHatching :: "(int \<times> int) list list \<Rightarrow> real \<Rightarrow> real \<Rightarrow> path list" where
  "generateContourHatching contours intensity baseSpacing =
     (if length contours = 0 then []
      else let spacing = baseSpacing / (0.3 + intensity * 0.7);
               numLayers = \<lceil>intensity * 8\<rceil>
           in concat (map (\<lambda>layer.
                concat (map (\<lambda>contour.
                  case offsetContour contour (- real layer * spacing) of
                    None \<Rightarrow> []
                  | Some offsetPts \<Rightarrow>
                      if length offsetPts > 3
                      then (let smoothed = smoothContour offsetPts
                            in if length smoothed > 2 then [smoothed] else [])
                      else []) contours)) [0..<nat numLayers]))"

subsection \<open>Dispatch\<close>

definition generateHatching :: "(Mask \<Rightarrow> (int \<times> int) list list) \<Rightarrow> Mask \<Rightarrow> real \<Rightarrow> HatchingStyle
    \<Rightarrow> real \<Rightarrow> real \<Rightarrow> nat \<Rightarrow> nat \<Rightarrow> rng \<Rightarrow> (path list \<times> rng) option" where
  "generateHatching findContours msk intensity hstyle baseSpacing angle width height r =
     (case hstyle of
        CONTOUR \<Rightarrow> Some (generateContourHatching (findContours msk) intensity baseSpacing, r)
      | CROSS \<Rightarrow> generateCrossHatching msk intensity baseSpacing angle width height r
      | STIPPLING \<Rightarrow> generateStippling msk intensity baseSpacing width height r
      | PARALLEL \<Rightarrow>
          map_option (\<lambda>pths. (pths, r))
            (generateParallelHatching msk intensity baseSpacing angle width height))"

section \<open>Hatching mode of the vectorization engine\<close>

text \<open>
  \<^verbatim>\<open>generateAdvancedHatching\<close> works on the grey image that OpenCV's \<^verbatim>\<open>cvtColor\<close> makes of the
  canvas, an 8-bit matrix; the model starts from its pixel values (0 to 255). Storing a
  number into the 8-bit matrix truncates it and keeps it modulo 256.
\<close>

definition toUint8 :: "real \<Rightarrow> nat" where
  "toUint8 v = nat (\<lfloor>v\<rfloor> mod 256)"

definition quantizePixel :: "real \<Rightarrow> nat \<Rightarrow> nat" where
  "quantizePixel step intensity =
     (let level = \<lfloor>real intensity / step\<rfloor> in toUint8 (real_of_int level * step))"

text \<open>
  OpenCV's \<^verbatim>\<open>threshold\<close> with type \<^verbatim>\<open>THRESH_BINARY_INV\<close>, from its documentation (the library
  is not part of the repository): a pixel above the threshold becomes 0, every other pixel
  becomes \<open>maxval\<close>.
\<close>

definition thresholdBinaryInv :: "nat list \<Rightarrow> real \<Rightarrow> nat \<Rightarrow> nat list" where
  "thresholdBinaryInv src thresh maxval =
     map (\<lambda>v. if real v > thresh then 0 else maxval) src"

text \<open>
  What the loop body computes for one \<open>level\<close> before it calls the hatcher: the normalized
  intensity and the data of the mask.
\<close>

definition levelIntensity :: "nat \<Rightarrow> nat \<Rightarrow> real" where
  "levelIntensity numColors level = 1 - real level / (real numColors - 1)"

definition levelMaskData :: "nat list \<Rightarrow> nat \<Rightarrow> nat \<Rightarrow> nat list" where
  "levelMaskData gray numColors level =
     (let step = 255 / real numColors;
          quantized = map (quantizePixel step) gray;
          targetIntensity = real level * step
      in thresholdBinaryInv quantized (targetIntensity + step / 2) 255)"

text \<open>
  The loop over the levels, with the hatcher as a parameter: it receives the mask, the
  intensity, style, spacing, angle, width and height, and the state of the random
  generator. A hatcher call that does not return ends the run.
\<close>

fun hatchLevels :: "(nat list \<Rightarrow> real \<Rightarrow> 's \<Rightarrow> (path list \<times> 's) option) \<Rightarrow> nat list \<Rightarrow> nat
    \<Rightarrow> nat list \<Rightarrow> 's \<Rightarrow> path list \<Rightarrow> (path list \<times> 's) option" where
  "hatchLevels hatcher gray numColors [] r acc = Some (acc, r)"
| "hatchLevels hatcher gray numColors (level # levels) r acc =
     (case hatcher (levelMaskData gray numColors level) (levelIntensity numColors level) r of
        None \<Rightarrow> None
      | Some hatchPaths \<Rightarrow>
          hatchLevels hatcher gray numColors levels (snd hatchPaths) (acc @ fst hatchPaths))"

definition generateAdvancedHatching :: "(Mask \<Rightarrow> (int \<times> int) list list) \<Rightarrow> nat list \<Rightarrow> nat \<Rightarrow> nat
    \<Rightarrow> nat \<Rightarrow> real \<Rightarrow> real \<Rightarrow> HatchingStyle \<Rightarrow> rng \<Rightarrow> (path list \<times> rng) option" where
  "generateAdvancedHatching findContours gray width height numColors hatchSpacing hatchAngle
       hatchingStyle r =
     hatchLevels
       (\<lambda>mdata intensity r'.
          generateHatching findContours
            \<lparr>maskCols = width, maskRows = height, maskData = mdata\<rparr>
            intensity hatchingStyle hatchSpacing hatchAngle width height r')
       gray numColors [0..<numColors - 1] r []"

section \<open>Evaluating double arithmetic\<close>

text \<open>
  The rounding of a given number is found by naming its significand \<open>m\<close> and the exponent
  of its last place: \<open>rnd x = m / 2\<^sup>n\<close> (or \<open>m 2\<^sup>n\<close>) when \<open>x\<close> lies in the binade of that
  exponent and within half a unit of the last place of \<open>m\<close>, the tie going to the even
  \<open>m\<close>. The premises are comparisons of rational numbers.
\<close>

lemma roundTiesToEven_eq:
  assumes "\<bar>y - real_of_int m\<bar> < 1/2 \<or> (\<bar>y - real_of_int m\<bar> = 1/2 \<and> even m)"
  shows "roundTiesToEven y = m"
proof -
  consider (up) "real_of_int m \<le> y" "y - real_of_int m < 1/2"
    | (down) "y < real_of_int m" "real_of_int m - y < 1/2"
    | (tieup) "y = real_of_int m + 1/2" "even m"
    | (tiedown) "y = real_of_int m - 1/2" "even m"
    using assms by (auto simp: abs_if split: if_splits) 
  then show ?thesis
  proof cases
    case up
    then have "\<lfloor>y\<rfloor> = m" by linarith
    with up show ?thesis by (simp add: roundTiesToEven_def Let_def)
  next
    case down
    then have "\<lfloor>y\<rfloor> = m - 1" by linarith
    with down show ?thesis by (simp add: roundTiesToEven_def Let_def)
  next
    case tieup
    then have "\<lfloor>y\<rfloor> = m" by linarith
    with tieup show ?thesis by (simp add: roundTiesToEven_def Let_def)
  next
    case tiedown
    then have "\<lfloor>y\<rfloor> = m - 1" by linarith
    with tiedown show ?thesis by (simp add: roundTiesToEven_def Let_def)
  qed
qed

lemma binade_eq:
  assumes lo: "2 powr real_of_int (k + 52) \<le> \<bar>x\<bar> \<or> k = - 1074"
    and hi: "\<bar>x\<bar> < 2 powr real_of_int (k + 53)"
    and k: "- 1074 \<le> k" and nz: "x \<noteq> 0"
  shows "binade x = k + 52"
proof -
  have pos: "0 < \<bar>x\<bar>" using nz by simp
  have up: "log 2 \<bar>x\<bar> < real_of_int (k + 53)"
    using hi pos by (simp add: log_less_iff)
  then have fl: "\<lfloor>log 2 \<bar>x\<bar>\<rfloor> \<le> k + 52" by linarith
  from lo show ?thesis
  proof
    assume "2 powr real_of_int (k + 52) \<le> \<bar>x\<bar>"
    then have "real_of_int (k + 52) \<le> log 2 \<bar>x\<bar>"
      using pos by (simp add: le_log_iff)
    then have "k + 52 \<le> \<lfloor>log 2 \<bar>x\<bar>\<rfloor>" by linarith
    with fl k show ?thesis by (simp add: binade_def)
  next
    assume "k = - 1074"
    with fl show ?thesis by (simp add: binade_def)
  qed
qed

lemma rnd_eval:
  assumes nz: "x \<noteq> 0"
    and lo: "2 powr real_of_int (k + 52) \<le> \<bar>x\<bar> \<or> k = - 1074"
    and hi: "\<bar>x\<bar> < 2 powr real_of_int (k + 53)"
    and k: "- 1074 \<le> k"
    and near: "\<bar>x / 2 powr real_of_int k - real_of_int m\<bar> < 1/2
       \<or> (\<bar>x / 2 powr real_of_int k - real_of_int m\<bar> = 1/2 \<and> even m)"
    and fin: "\<bar>real_of_int m * 2 powr real_of_int k\<bar> < 2 ^ 1024"
  shows "rnd x = Fin (real_of_int m * 2 powr real_of_int k)"
proof -
  have "binade x = k + 52" by (rule binade_eq [OF lo hi k nz])
  then have u: "ulp x = 2 powr real_of_int k" by (simp add: ulp_def)
  have "roundTiesToEven (x / ulp x) = m"
    unfolding u by (rule roundTiesToEven_eq [OF near])
  with u fin nz show ?thesis by (simp add: rnd_def Let_def)
qed


lemma powr_neg_nat: "2 powr real_of_int (- int n + j) = 2 powr real_of_int j / 2 ^ n"
proof -
  have "2 powr real_of_int (- int n + j) = 2 powr (- real n) * 2 powr real_of_int j"
    by (simp add: powr_add [symmetric])
  also have "2 powr (- real n) = 1 / 2 ^ n"
    by (simp add: powr_minus powr_realpow inverse_eq_divide)
  finally show ?thesis by simp
qed

lemma powr_pos_nat: "2 powr real_of_int (int n + j) = 2 powr real_of_int j * 2 ^ n"
proof -
  have "2 powr real_of_int (int n + j) = 2 powr (real n) * 2 powr real_of_int j"
    by (simp add: powr_add [symmetric])
  also have "2 powr (real n) = 2 ^ n"
    by (simp add: powr_realpow)
  finally show ?thesis by simp
qed

lemma powr_52: "2 powr real_of_int 52 = 2 ^ 52" "2 powr real_of_int 53 = 2 ^ 53"
  "2 powr real_of_int 0 = 1"
  using powr_realpow [of 2 52] powr_realpow [of 2 53] by simp_all

lemma rnd_frac:
  assumes nz: "x \<noteq> 0"
    and lo: "2 ^ 52 \<le> \<bar>x\<bar> * 2 ^ n \<or> n = 1074"
    and hi: "\<bar>x\<bar> * 2 ^ n < 2 ^ 53"
    and n: "n \<le> 1074"
    and near: "\<bar>x * 2 ^ n - real_of_int m\<bar> < 1/2
       \<or> (\<bar>x * 2 ^ n - real_of_int m\<bar> = 1/2 \<and> even m)"
    and r: "r = real_of_int m / 2 ^ n"
  shows "rnd x = Fin r"
proof -
  let ?k = "- int n"
  have u: "2 powr real_of_int ?k = 1 / 2 ^ n"
    using powr_neg_nat [of n 0] by (simp add: powr_52)
  have p52: "2 powr real_of_int (?k + 52) = 2 ^ 52 / 2 ^ n"
    by (simp only: powr_neg_nat powr_52)
  have p53: "2 powr real_of_int (?k + 53) = 2 ^ 53 / 2 ^ n"
    by (simp only: powr_neg_nat powr_52)
  have lo': "2 powr real_of_int (?k + 52) \<le> \<bar>x\<bar> \<or> ?k = - 1074"
    unfolding p52 using lo by (auto simp: field_simps)
  have hi': "\<bar>x\<bar> < 2 powr real_of_int (?k + 53)"
    unfolding p53 using hi by (simp add: field_simps)
  have k: "- 1074 \<le> ?k" using n by simp
  have near': "\<bar>x / 2 powr real_of_int ?k - real_of_int m\<bar> < 1/2
       \<or> (\<bar>x / 2 powr real_of_int ?k - real_of_int m\<bar> = 1/2 \<and> even m)"
    using near unfolding u by simp
  have "\<bar>real_of_int m\<bar> \<le> \<bar>x * 2 ^ n\<bar> + 1/2" using near by linarith
  also have "\<bar>x * 2 ^ n\<bar> = \<bar>x\<bar> * 2 ^ n" by (simp add: abs_mult)
  finally have mb: "\<bar>real_of_int m\<bar> < 2 ^ 54" using hi by simp
  have "\<bar>real_of_int m * 2 powr real_of_int ?k\<bar> = \<bar>real_of_int m\<bar> / 2 ^ n"
    unfolding u by (simp add: abs_mult)
  also have "\<dots> \<le> \<bar>real_of_int m\<bar>"
    by (simp add: divide_le_eq mult_le_cancel_left1)
  also have "\<dots> < 2 ^ 54" by (rule mb)
  also have "(2::real) ^ 54 \<le> 2 ^ 1024" by (rule power_increasing) simp_all
  finally have fin: "\<bar>real_of_int m * 2 powr real_of_int ?k\<bar> < 2 ^ 1024" .
  from rnd_eval [OF nz lo' hi' k near' fin] show ?thesis
    unfolding u r by simp
qed

lemma rnd_int:
  assumes nz: "x \<noteq> 0"
    and lo: "2 ^ 52 * 2 ^ n \<le> \<bar>x\<bar>"
    and hi: "\<bar>x\<bar> < 2 ^ 53 * 2 ^ n"
    and n: "n \<le> 960"
    and near: "\<bar>x / 2 ^ n - real_of_int m\<bar> < 1/2
       \<or> (\<bar>x / 2 ^ n - real_of_int m\<bar> = 1/2 \<and> even m)"
    and r: "r = real_of_int m * 2 ^ n"
  shows "rnd x = Fin r"
proof -
  let ?k = "int n"
  have u: "2 powr real_of_int ?k = 2 ^ n"
    by (simp add: powr_realpow)
  have p52: "2 powr real_of_int (?k + 52) = 2 ^ 52 * 2 ^ n"
    by (simp only: powr_pos_nat powr_52)
  have p53: "2 powr real_of_int (?k + 53) = 2 ^ 53 * 2 ^ n"
    by (simp only: powr_pos_nat powr_52)
  have lo': "2 powr real_of_int (?k + 52) \<le> \<bar>x\<bar> \<or> ?k = - 1074"
    unfolding p52 using lo by simp
  have hi': "\<bar>x\<bar> < 2 powr real_of_int (?k + 53)"
    unfolding p53 using hi by simp
  have k: "- 1074 \<le> ?k" by simp
  have near': "\<bar>x / 2 powr real_of_int ?k - real_of_int m\<bar> < 1/2
       \<or> (\<bar>x / 2 powr real_of_int ?k - real_of_int m\<bar> = 1/2 \<and> even m)"
    using near unfolding u by simp
  have "\<bar>real_of_int m\<bar> \<le> \<bar>x / 2 ^ n\<bar> + 1/2" using near by linarith
  also have "\<bar>x / 2 ^ n\<bar> = \<bar>x\<bar> / 2 ^ n" by (simp add: abs_divide)
  also have "\<bar>x\<bar> / 2 ^ n < 2 ^ 53" using hi by (simp add: field_simps)
  finally have mb: "\<bar>real_of_int m\<bar> < 2 ^ 54" by simp
  have "\<bar>real_of_int m * 2 powr real_of_int ?k\<bar> = \<bar>real_of_int m\<bar> * 2 ^ n"
    unfolding u by (simp add: abs_mult)
  also have "\<dots> < 2 ^ 54 * 2 ^ n" using mb by simp
  also have "\<dots> = (2::real) ^ (54 + n)" by (simp add: power_add)
  also have "\<dots> \<le> 2 ^ 1024" using n by (intro power_increasing) simp_all
  finally have fin: "\<bar>real_of_int m * 2 powr real_of_int ?k\<bar> < 2 ^ 1024" .
  from rnd_eval [OF nz lo' hi' k near' fin] show ?thesis
    unfolding u r by simp
qed

lemma rnd_sqrt_frac:
  assumes q: "0 < q"
    and lo: "2 ^ 104 \<le> q * 4 ^ n"
    and hi: "q * 4 ^ n < 2 ^ 106"
    and n: "n \<le> 1074"
    and m: "0 < m"
    and below: "(2 * real_of_int m - 1)\<^sup>2 < 4 * (q * 4 ^ n)"
    and above: "4 * (q * 4 ^ n) < (2 * real_of_int m + 1)\<^sup>2"
    and r: "r = real_of_int m / 2 ^ n"
  shows "rnd (sqrt q) = Fin r"
proof -
  have e: "sqrt q * 2 ^ n = sqrt (q * 4 ^ n)"
  proof -
    have "(4::real) ^ n = (2 ^ n)\<^sup>2" by (simp add: power_mult [symmetric] power2_eq_square power_mult_distrib [symmetric])
    then show ?thesis by (simp add: real_sqrt_mult)
  qed
  have s52: "sqrt (2 ^ 104) = (2::real) ^ 52"
    by (rule real_sqrt_unique) (simp_all add: power2_eq_square)
  have s53: "sqrt (2 ^ 106) = (2::real) ^ 53"
    by (rule real_sqrt_unique) (simp_all add: power2_eq_square)
  have nz: "sqrt q \<noteq> 0" using q by simp
  have a: "\<bar>sqrt q\<bar> = sqrt q" using q by simp
  have lo': "2 ^ 52 \<le> \<bar>sqrt q\<bar> * 2 ^ n \<or> n = 1074"
    unfolding a e using lo real_sqrt_le_mono [of "2 ^ 104" "q * 4 ^ n"] by (simp add: s52)
  have hi': "\<bar>sqrt q\<bar> * 2 ^ n < 2 ^ 53"
    unfolding a e using hi real_sqrt_less_mono [of "q * 4 ^ n" "2 ^ 106"] by (simp add: s53)
  have b1: "2 * real_of_int m - 1 < 2 * sqrt (q * 4 ^ n)"
  proof -
    have "sqrt ((2 * real_of_int m - 1)\<^sup>2) < sqrt (4 * (q * 4 ^ n))"
      using below by (rule real_sqrt_less_mono)
    moreover have "0 \<le> 2 * real_of_int m - 1" using m by simp
    ultimately show ?thesis by (simp add: real_sqrt_mult)
  qed
  have b2: "2 * sqrt (q * 4 ^ n) < 2 * real_of_int m + 1"
  proof -
    have "sqrt (4 * (q * 4 ^ n)) < sqrt ((2 * real_of_int m + 1)\<^sup>2)"
      using above by (rule real_sqrt_less_mono)
    moreover have "0 \<le> 2 * real_of_int m + 1" using m by simp
    ultimately show ?thesis by (simp add: real_sqrt_mult)
  qed
  have near: "\<bar>sqrt q * 2 ^ n - real_of_int m\<bar> < 1/2
       \<or> (\<bar>sqrt q * 2 ^ n - real_of_int m\<bar> = 1/2 \<and> even m)"
    unfolding e using b1 b2 by (simp add: abs_if)
  from rnd_frac [OF nz lo' hi' n near r] show ?thesis .
qed

lemma dadd_eval: "rnd (x + y) = Fin r \<Longrightarrow> dadd (Fin x) (Fin y) = Fin r"
  by simp

lemma dsub_eval: "rnd (x - y) = Fin r \<Longrightarrow> dsub (Fin x) (Fin y) = Fin r"
  by (simp add: dsub_def)

lemma dmul_eval: "rnd (x * y) = Fin r \<Longrightarrow> dmul (Fin x) (Fin y) = Fin r"
  by simp

lemma ddiv_eval: "y \<noteq> 0 \<Longrightarrow> rnd (x / y) = Fin r \<Longrightarrow> ddiv (Fin x) (Fin y) = Fin r"
  by simp

lemma dsqrt_eval: "0 \<le> x \<Longrightarrow> rnd (sqrt x) = Fin r \<Longrightarrow> dsqrt (Fin x) = Fin r"
  by simp

lemma rnd_0: "rnd 0 = Fin 0"
  by (simp add: rnd_def)

text \<open>
  From here on sums, products, quotients and roots of finite doubles are rewritten only by
  the evaluations proved for them.
\<close>

declare dadd.simps(1) [simp del] dmul.simps(1) [simp del] ddiv.simps(1) [simp del]
  dsqrt.simps(1) [simp del]

section \<open>The optimizer on a route with a tie\<close>

text \<open>
  Six one-point paths. In exact arithmetic the pen travels \<open>\<surd>2 + 0 + \<surd>2 + \<surd>8\<close> and then a
  little less than \<open>\<surd>10\<close> along \<open>tiePaths\<close>; exchanging the fourth and the fifth path gives
  \<open>tieResult\<close>, whose travel is \<open>\<surd>2 + 0 + \<surd>10 + \<surd>8\<close> and then a little more than \<open>\<surd>2\<close>. The
  last ordinate is the double next below 1.
\<close>

definition tiePaths :: "path list" where
  "tiePaths = [[Point 1 4], [Point 2 3], [Point 2 3], [Point 3 2], [Point 1 0],
               [Point 4 (9007199254740991 / 9007199254740992)]]"

definition tieResult :: "path list" where
  "tieResult = [[Point 1 4], [Point 2 3], [Point 2 3], [Point 1 0], [Point 3 2],
                [Point 4 (9007199254740991 / 9007199254740992)]]"

text \<open>Every operation on doubles of the run, and the distances between the points.\<close>

lemma tie_op_1: "dsub (Fin 2) (Fin 1) = Fin 1"
  by (rule dsub_eval, rule rnd_frac [where n = 52 and m = "4503599627370496"], simp_all)

lemma tie_op_2: "dsub (Fin 3) (Fin 4) = Fin (- 1)"
  by (rule dsub_eval, rule rnd_frac [where n = 52 and m = "- 4503599627370496"], simp_all)

lemma tie_op_3: "dmul (Fin 1) (Fin 1) = Fin 1"
  by (rule dmul_eval, rule rnd_frac [where n = 52 and m = "4503599627370496"], simp_all)

lemma tie_op_4: "dmul (Fin (- 1)) (Fin (- 1)) = Fin 1"
  by (rule dmul_eval, rule rnd_frac [where n = 52 and m = "4503599627370496"], simp_all)

lemma tie_op_5: "dadd (Fin 1) (Fin 1) = Fin 2"
  by (rule dadd_eval, rule rnd_frac [where n = 51 and m = "4503599627370496"], simp_all)

lemma tie_op_6: "dsqrt (Fin 2) = Fin (6369051672525773 / 4503599627370496)"
  by (rule dsqrt_eval, simp, rule rnd_sqrt_frac [where n = 52 and m = "6369051672525773"], simp_all)

lemma tie_op_7: "dadd (Fin 0) (Fin (6369051672525773 / 4503599627370496)) = Fin (6369051672525773 / 4503599627370496)"
  by (rule dadd_eval, rule rnd_frac [where n = 52 and m = "6369051672525773"], simp_all)

lemma tie_op_8: "dsub (Fin 2) (Fin 2) = Fin 0"
  by (rule dsub_eval, simp add: rnd_0)

lemma tie_op_9: "dsub (Fin 3) (Fin 3) = Fin 0"
  by (rule dsub_eval, simp add: rnd_0)

lemma tie_op_10: "dmul (Fin 0) (Fin 0) = Fin 0"
  by (rule dmul_eval, simp add: rnd_0)

lemma tie_op_11: "dadd (Fin 0) (Fin 0) = Fin 0"
  by (rule dadd_eval, simp add: rnd_0)

lemma tie_op_12: "dsqrt (Fin 0) = Fin 0"
  by (rule dsqrt_eval, simp, simp add: rnd_0)

lemma tie_op_13: "dadd (Fin (6369051672525773 / 4503599627370496)) (Fin 0) = Fin (6369051672525773 / 4503599627370496)"
  by (rule dadd_eval, rule rnd_frac [where n = 52 and m = "6369051672525773"], simp_all)

lemma tie_op_14: "dsub (Fin 3) (Fin 2) = Fin 1"
  by (rule dsub_eval, rule rnd_frac [where n = 52 and m = "4503599627370496"], simp_all)

lemma tie_op_15: "dsub (Fin 2) (Fin 3) = Fin (- 1)"
  by (rule dsub_eval, rule rnd_frac [where n = 52 and m = "- 4503599627370496"], simp_all)

lemma tie_op_16: "dadd (Fin (6369051672525773 / 4503599627370496)) (Fin (6369051672525773 / 4503599627370496)) = Fin (6369051672525773 / 2251799813685248)"
  by (rule dadd_eval, rule rnd_frac [where n = 51 and m = "6369051672525773"], simp_all)

lemma tie_op_17: "dsub (Fin 1) (Fin 3) = Fin (- 2)"
  by (rule dsub_eval, rule rnd_frac [where n = 51 and m = "- 4503599627370496"], simp_all)

lemma tie_op_18: "dsub (Fin 0) (Fin 2) = Fin (- 2)"
  by (rule dsub_eval, rule rnd_frac [where n = 51 and m = "- 4503599627370496"], simp_all)

lemma tie_op_19: "dmul (Fin (- 2)) (Fin (- 2)) = Fin 4"
  by (rule dmul_eval, rule rnd_frac [where n = 50 and m = "4503599627370496"], simp_all)

lemma tie_op_20: "dadd (Fin 4) (Fin 4) = Fin 8"
  by (rule dadd_eval, rule rnd_frac [where n = 49 and m = "4503599627370496"], simp_all)

lemma tie_op_21: "dsqrt (Fin 8) = Fin (6369051672525773 / 2251799813685248)"
  by (rule dsqrt_eval, simp, rule rnd_sqrt_frac [where n = 51 and m = "6369051672525773"], simp_all)

lemma tie_op_22: "dadd (Fin (6369051672525773 / 2251799813685248)) (Fin (6369051672525773 / 2251799813685248)) = Fin (6369051672525773 / 1125899906842624)"
  by (rule dadd_eval, rule rnd_frac [where n = 50 and m = "6369051672525773"], simp_all)

lemma tie_op_23: "dsub (Fin 4) (Fin 1) = Fin 3"
  by (rule dsub_eval, rule rnd_frac [where n = 51 and m = "6755399441055744"], simp_all)

lemma tie_op_24: "dsub (Fin (9007199254740991 / 9007199254740992)) (Fin 0) = Fin (9007199254740991 / 9007199254740992)"
  by (rule dsub_eval, rule rnd_frac [where n = 53 and m = "9007199254740991"], simp_all)

lemma tie_op_25: "dmul (Fin 3) (Fin 3) = Fin 9"
  by (rule dmul_eval, rule rnd_frac [where n = 49 and m = "5066549580791808"], simp_all)

lemma tie_op_26: "dmul (Fin (9007199254740991 / 9007199254740992)) (Fin (9007199254740991 / 9007199254740992)) = Fin (4503599627370495 / 4503599627370496)"
  by (rule dmul_eval, rule rnd_frac [where n = 53 and m = "9007199254740990"], simp_all)

lemma tie_op_27: "dadd (Fin 9) (Fin (4503599627370495 / 4503599627370496)) = Fin 10"
  by (rule dadd_eval, rule rnd_frac [where n = 49 and m = "5629499534213120"], simp_all)

lemma tie_op_28: "dsqrt (Fin 10) = Fin (7120816245988179 / 2251799813685248)"
  by (rule dsqrt_eval, simp, rule rnd_sqrt_frac [where n = 51 and m = "7120816245988179"], simp_all)

lemma tie_op_29: "dadd (Fin (6369051672525773 / 1125899906842624)) (Fin (7120816245988179 / 2251799813685248)) = Fin (4964729897759931 / 562949953421312)"
  by (rule dadd_eval, rule rnd_frac [where n = 49 and m = "4964729897759931"], simp_all)

lemma tie_op_30: "dsub (Fin 3) (Fin 1) = Fin 2"
  by (rule dsub_eval, rule rnd_frac [where n = 51 and m = "4503599627370496"], simp_all)

lemma tie_op_31: "dsub (Fin 2) (Fin 4) = Fin (- 2)"
  by (rule dsub_eval, rule rnd_frac [where n = 51 and m = "- 4503599627370496"], simp_all)

lemma tie_op_32: "dmul (Fin 2) (Fin 2) = Fin 4"
  by (rule dmul_eval, rule rnd_frac [where n = 50 and m = "4503599627370496"], simp_all)

lemma tie_op_33: "dadd (Fin 0) (Fin (6369051672525773 / 2251799813685248)) = Fin (6369051672525773 / 2251799813685248)"
  by (rule dadd_eval, rule rnd_frac [where n = 51 and m = "6369051672525773"], simp_all)

lemma tie_op_34: "dadd (Fin (6369051672525773 / 2251799813685248)) (Fin (6369051672525773 / 4503599627370496)) = Fin (2388394377197165 / 562949953421312)"
  by (rule dadd_eval, rule rnd_frac [where n = 50 and m = "4776788754394330"], simp_all)

lemma tie_op_35: "dadd (Fin (2388394377197165 / 562949953421312)) (Fin 0) = Fin (2388394377197165 / 562949953421312)"
  by (rule dadd_eval, rule rnd_frac [where n = 50 and m = "4776788754394330"], simp_all)

lemma tie_op_36: "dsub (Fin 1) (Fin 2) = Fin (- 1)"
  by (rule dsub_eval, rule rnd_frac [where n = 52 and m = "- 4503599627370496"], simp_all)

lemma tie_op_37: "dsub (Fin 0) (Fin 3) = Fin (- 3)"
  by (rule dsub_eval, rule rnd_frac [where n = 51 and m = "- 6755399441055744"], simp_all)

lemma tie_op_38: "dmul (Fin (- 3)) (Fin (- 3)) = Fin 9"
  by (rule dmul_eval, rule rnd_frac [where n = 49 and m = "5066549580791808"], simp_all)

lemma tie_op_39: "dadd (Fin 1) (Fin 9) = Fin 10"
  by (rule dadd_eval, rule rnd_frac [where n = 49 and m = "5629499534213120"], simp_all)

lemma tie_op_40: "dadd (Fin (2388394377197165 / 562949953421312)) (Fin (7120816245988179 / 2251799813685248)) = Fin (2084299219347105 / 281474976710656)"
  by (rule dadd_eval, rule rnd_frac [where n = 50 and m = "8337196877388420"], simp_all)

lemma tie_op_41: "dadd (Fin (2084299219347105 / 281474976710656)) (Fin (7120816245988179 / 2251799813685248)) = Fin (5948802500191255 / 562949953421312)"
  by (rule dadd_eval, rule rnd_frac [where n = 49 and m = "5948802500191255"], simp_all)

lemma tie_op_42: "dsub (Fin 1) (Fin 1) = Fin 0"
  by (rule dsub_eval, simp add: rnd_0)

lemma tie_op_43: "dsub (Fin 0) (Fin 4) = Fin (- 4)"
  by (rule dsub_eval, rule rnd_frac [where n = 50 and m = "- 4503599627370496"], simp_all)

lemma tie_op_44: "dmul (Fin (- 4)) (Fin (- 4)) = Fin 16"
  by (rule dmul_eval, rule rnd_frac [where n = 48 and m = "4503599627370496"], simp_all)

lemma tie_op_45: "dadd (Fin 0) (Fin 16) = Fin 16"
  by (rule dadd_eval, rule rnd_frac [where n = 48 and m = "4503599627370496"], simp_all)

lemma tie_op_46: "dsqrt (Fin 16) = Fin 4"
  by (rule dsqrt_eval, simp, rule rnd_sqrt_frac [where n = 50 and m = "4503599627370496"], simp_all)

lemma tie_op_47: "dadd (Fin 0) (Fin 4) = Fin 4"
  by (rule dadd_eval, rule rnd_frac [where n = 50 and m = "4503599627370496"], simp_all)

lemma tie_op_48: "dsub (Fin 2) (Fin 0) = Fin 2"
  by (rule dsub_eval, rule rnd_frac [where n = 51 and m = "4503599627370496"], simp_all)

lemma tie_op_49: "dadd (Fin 4) (Fin (6369051672525773 / 2251799813685248)) = Fin (3844062731816691 / 562949953421312)"
  by (rule dadd_eval, rule rnd_frac [where n = 50 and m = "7688125463633382"], simp_all)

lemma tie_op_50: "dadd (Fin (3844062731816691 / 562949953421312)) (Fin (6369051672525773 / 4503599627370496)) = Fin (4640194190882413 / 562949953421312)"
  by (rule dadd_eval, rule rnd_frac [where n = 49 and m = "4640194190882413"], simp_all)

lemma tie_op_51: "dadd (Fin (4640194190882413 / 562949953421312)) (Fin 0) = Fin (4640194190882413 / 562949953421312)"
  by (rule dadd_eval, rule rnd_frac [where n = 49 and m = "4640194190882413"], simp_all)

lemma tie_op_52: "dsub (Fin 4) (Fin 2) = Fin 2"
  by (rule dsub_eval, rule rnd_frac [where n = 51 and m = "4503599627370496"], simp_all)

lemma tie_op_53: "dsub (Fin (9007199254740991 / 9007199254740992)) (Fin 3) = Fin (- 2)"
  by (rule dsub_eval, rule rnd_frac [where n = 51 and m = "- 4503599627370496"], simp_all)

lemma tie_op_54: "dadd (Fin (4640194190882413 / 562949953421312)) (Fin (6369051672525773 / 2251799813685248)) = Fin (194764284656683 / 17592186044416)"
  by (rule dadd_eval, rule rnd_frac [where n = 49 and m = "6232457109013856"], simp_all)

lemma tie_op_55: "dsub (Fin (9007199254740991 / 9007199254740992)) (Fin 4) = Fin (- 3)"
  by (rule dsub_eval, rule rnd_frac [where n = 51 and m = "- 6755399441055744"], simp_all)

lemma tie_op_56: "dadd (Fin 9) (Fin 9) = Fin 18"
  by (rule dadd_eval, rule rnd_frac [where n = 48 and m = "5066549580791808"], simp_all)

lemma tie_op_57: "dsqrt (Fin 18) = Fin (4776788754394329 / 1125899906842624)"
  by (rule dsqrt_eval, simp, rule rnd_sqrt_frac [where n = 50 and m = "4776788754394329"], simp_all)

lemma tie_op_58: "dadd (Fin 0) (Fin (4776788754394329 / 1125899906842624)) = Fin (4776788754394329 / 1125899906842624)"
  by (rule dadd_eval, rule rnd_frac [where n = 50 and m = "4776788754394329"], simp_all)

lemma tie_op_59: "dsub (Fin 1) (Fin 4) = Fin (- 3)"
  by (rule dsub_eval, rule rnd_frac [where n = 51 and m = "- 6755399441055744"], simp_all)

lemma tie_op_60: "dsub (Fin 0) (Fin (9007199254740991 / 9007199254740992)) = Fin (- (9007199254740991 / 9007199254740992))"
  by (rule dsub_eval, rule rnd_frac [where n = 53 and m = "- 9007199254740991"], simp_all)

lemma tie_op_61: "dmul (Fin (- (9007199254740991 / 9007199254740992))) (Fin (- (9007199254740991 / 9007199254740992))) = Fin (4503599627370495 / 4503599627370496)"
  by (rule dmul_eval, rule rnd_frac [where n = 53 and m = "9007199254740990"], simp_all)

lemma tie_op_62: "dadd (Fin (4776788754394329 / 1125899906842624)) (Fin (7120816245988179 / 2251799813685248)) = Fin (4168598438694209 / 562949953421312)"
  by (rule dadd_eval, rule rnd_frac [where n = 50 and m = "8337196877388418"], simp_all)

lemma tie_op_63: "dadd (Fin (4168598438694209 / 562949953421312)) (Fin (6369051672525773 / 2251799813685248)) = Fin (1440215339206413 / 140737488355328)"
  by (rule dadd_eval, rule rnd_frac [where n = 49 and m = "5760861356825652"], simp_all)

lemma tie_op_64: "dadd (Fin (1440215339206413 / 140737488355328)) (Fin (6369051672525773 / 4503599627370496)) = Fin (3278496407945687 / 281474976710656)"
  by (rule dadd_eval, rule rnd_frac [where n = 49 and m = "6556992815891374"], simp_all)

lemma tie_op_65: "dadd (Fin (3278496407945687 / 281474976710656)) (Fin 0) = Fin (3278496407945687 / 281474976710656)"
  by (rule dadd_eval, rule rnd_frac [where n = 49 and m = "6556992815891374"], simp_all)

lemma tie_op_66: "dadd (Fin (6369051672525773 / 4503599627370496)) (Fin (7120816245988179 / 2251799813685248)) = Fin (5152671041125533 / 1125899906842624)"
  by (rule dadd_eval, rule rnd_frac [where n = 50 and m = "5152671041125533"], simp_all)

lemma tie_op_67: "dadd (Fin (5152671041125533 / 1125899906842624)) (Fin (6369051672525773 / 2251799813685248)) = Fin (2084299219347105 / 281474976710656)"
  by (rule dadd_eval, rule rnd_frac [where n = 50 and m = "8337196877388420"], simp_all)

lemma tie_op_68: "dadd (Fin (2084299219347105 / 281474976710656)) (Fin (6369051672525773 / 4503599627370496)) = Fin (1241182474439983 / 140737488355328)"
  by (rule dadd_eval, rule rnd_frac [where n = 49 and m = "4964729897759932"], simp_all)

lemma tie_op_69: "dadd (Fin (1241182474439983 / 140737488355328)) (Fin (6369051672525773 / 2251799813685248)) = Fin (6556992815891375 / 562949953421312)"
  by (rule dadd_eval, rule rnd_frac [where n = 49 and m = "6556992815891375"], simp_all)

lemma tie_op_70: "dadd (Fin (6369051672525773 / 4503599627370496)) (Fin (6369051672525773 / 2251799813685248)) = Fin (2388394377197165 / 562949953421312)"
  by (rule dadd_eval, rule rnd_frac [where n = 50 and m = "4776788754394330"], simp_all)

lemma tie_op_71: "dadd (Fin (2084299219347105 / 281474976710656)) (Fin (6369051672525773 / 2251799813685248)) = Fin (5760861356825653 / 562949953421312)"
  by (rule dadd_eval, rule rnd_frac [where n = 49 and m = "5760861356825653"], simp_all)

lemma tie_op_72: "dadd (Fin (5760861356825653 / 562949953421312)) (Fin (6369051672525773 / 4503599627370496)) = Fin (6556992815891375 / 562949953421312)"
  by (rule dadd_eval, rule rnd_frac [where n = 49 and m = "6556992815891375"], simp_all)

lemma tie_op_73: "dsub (Fin 4) (Fin 3) = Fin 1"
  by (rule dsub_eval, rule rnd_frac [where n = 52 and m = "4503599627370496"], simp_all)

lemma tie_op_74: "dadd (Fin (6369051672525773 / 2251799813685248)) (Fin (7120816245988179 / 2251799813685248)) = Fin (421558372453561 / 70368744177664)"
  by (rule dadd_eval, rule rnd_frac [where n = 50 and m = "6744933959256976"], simp_all)

lemma tie_op_75: "dadd (Fin 0) (Fin (7120816245988179 / 2251799813685248)) = Fin (7120816245988179 / 2251799813685248)"
  by (rule dadd_eval, rule rnd_frac [where n = 51 and m = "7120816245988179"], simp_all)

lemma tie_op_76: "dadd (Fin (7120816245988179 / 2251799813685248)) (Fin (6369051672525773 / 2251799813685248)) = Fin (421558372453561 / 70368744177664)"
  by (rule dadd_eval, rule rnd_frac [where n = 50 and m = "6744933959256976"], simp_all)

lemma tie_op_77: "dsub (Fin (9007199254740991 / 9007199254740992)) (Fin 2) = Fin (- 1)"
  by (rule dsub_eval, rule rnd_frac [where n = 52 and m = "- 4503599627370496"], simp_all)

lemma tie_op_78: "dadd (Fin (421558372453561 / 70368744177664)) (Fin (6369051672525773 / 4503599627370496)) = Fin (8337196877388419 / 1125899906842624)"
  by (rule dadd_eval, rule rnd_frac [where n = 50 and m = "8337196877388419"], simp_all)

lemma tie_op_79: "dsub (Fin 2) (Fin (9007199254740991 / 9007199254740992)) = Fin 1"
  by (rule dsub_eval, rule rnd_frac [where n = 52 and m = "4503599627370496"], simp_all)

lemma tie_op_80: "dadd (Fin (7120816245988179 / 2251799813685248)) (Fin (6369051672525773 / 4503599627370496)) = Fin (5152671041125533 / 1125899906842624)"
  by (rule dadd_eval, rule rnd_frac [where n = 50 and m = "5152671041125533"], simp_all)

lemma tie_op_81: "dsub (Fin 3) (Fin 0) = Fin 3"
  by (rule dsub_eval, rule rnd_frac [where n = 51 and m = "6755399441055744"], simp_all)

lemma tie_op_82: "dadd (Fin (7120816245988179 / 2251799813685248)) (Fin (7120816245988179 / 2251799813685248)) = Fin (7120816245988179 / 1125899906842624)"
  by (rule dadd_eval, rule rnd_frac [where n = 50 and m = "7120816245988179"], simp_all)

lemma tie_op_83: "dadd (Fin (7120816245988179 / 1125899906842624)) (Fin (6369051672525773 / 4503599627370496)) = Fin (4356539582059811 / 562949953421312)"
  by (rule dadd_eval, rule rnd_frac [where n = 50 and m = "8713079164119622"], simp_all)

lemma tie_op_84: "dsub (Fin (4964729897759931 / 562949953421312)) (Fin (1241182474439983 / 140737488355328)) = Fin (- (1 / 562949953421312))"
  by (rule dsub_eval, rule rnd_frac [where n = 101 and m = "- 4503599627370496"], simp_all)

lemma tie_op_85: "ddiv (Fin (- (1 / 562949953421312))) (Fin (4964729897759931 / 562949953421312)) = Fin (- (4085299708409721 / 20282409603651670423947251286016))"
  by (rule ddiv_eval, simp, rule rnd_frac [where n = 105 and m = "- 8170599416819442"], simp_all)

lemma tie_op_86: "dmul (Fin (- (4085299708409721 / 20282409603651670423947251286016))) (Fin 100) = Fin (- (6383280794390189 / 316912650057057350374175801344))"
  by (rule dmul_eval, rule rnd_frac [where n = 98 and m = "- 6383280794390189"], simp_all)

lemmas tie_ops = tie_op_1 tie_op_2 tie_op_3 tie_op_4 tie_op_5 tie_op_6 tie_op_7 tie_op_8
  tie_op_9 tie_op_10 tie_op_11 tie_op_12 tie_op_13 tie_op_14 tie_op_15 tie_op_16 tie_op_17
  tie_op_18 tie_op_19 tie_op_20 tie_op_21 tie_op_22 tie_op_23 tie_op_24 tie_op_25 tie_op_26
  tie_op_27 tie_op_28 tie_op_29 tie_op_30 tie_op_31 tie_op_32 tie_op_33 tie_op_34 tie_op_35
  tie_op_36 tie_op_37 tie_op_38 tie_op_39 tie_op_40 tie_op_41 tie_op_42 tie_op_43 tie_op_44
  tie_op_45 tie_op_46 tie_op_47 tie_op_48 tie_op_49 tie_op_50 tie_op_51 tie_op_52 tie_op_53
  tie_op_54 tie_op_55 tie_op_56 tie_op_57 tie_op_58 tie_op_59 tie_op_60 tie_op_61 tie_op_62
  tie_op_63 tie_op_64 tie_op_65 tie_op_66 tie_op_67 tie_op_68 tie_op_69 tie_op_70 tie_op_71
  tie_op_72 tie_op_73 tie_op_74 tie_op_75 tie_op_76 tie_op_77 tie_op_78 tie_op_79 tie_op_80
  tie_op_81 tie_op_82 tie_op_83 tie_op_84 tie_op_85 tie_op_86

lemma tie_dist_1:
  "distanceD (DPoint (Fin 1) (Fin 4)) (DPoint (Fin 2) (Fin 3)) = Fin (6369051672525773 / 4503599627370496)"
  by (simp add: distanceD_def Let_def tie_op_1 tie_op_2 tie_op_3 tie_op_4 tie_op_5 tie_op_6)

lemma tie_dist_2:
  "distanceD (DPoint (Fin 2) (Fin 3)) (DPoint (Fin 2) (Fin 3)) = Fin 0"
  by (simp add: distanceD_def Let_def tie_op_8 tie_op_9 tie_op_10 tie_op_11 tie_op_12)

lemma tie_dist_3:
  "distanceD (DPoint (Fin 2) (Fin 3)) (DPoint (Fin 3) (Fin 2)) = Fin (6369051672525773 / 4503599627370496)"
  by (simp add: distanceD_def Let_def tie_op_3 tie_op_4 tie_op_5 tie_op_6 tie_op_14 tie_op_15)

lemma tie_dist_4:
  "distanceD (DPoint (Fin 3) (Fin 2)) (DPoint (Fin 1) (Fin 0)) = Fin (6369051672525773 / 2251799813685248)"
  by (simp add: distanceD_def Let_def tie_op_17 tie_op_18 tie_op_19 tie_op_20 tie_op_21)

lemma tie_dist_5:
  "distanceD (DPoint (Fin 1) (Fin 0)) (DPoint (Fin 4) (Fin (9007199254740991 / 9007199254740992))) = Fin (7120816245988179 / 2251799813685248)"
  by (simp add: distanceD_def Let_def tie_op_23 tie_op_24 tie_op_25 tie_op_26 tie_op_27 tie_op_28)

lemma tie_dist_6:
  "distanceD (DPoint (Fin 1) (Fin 4)) (DPoint (Fin 3) (Fin 2)) = Fin (6369051672525773 / 2251799813685248)"
  by (simp add: distanceD_def Let_def tie_op_19 tie_op_20 tie_op_21 tie_op_30 tie_op_31 tie_op_32)

lemma tie_dist_7:
  "distanceD (DPoint (Fin 3) (Fin 2)) (DPoint (Fin 2) (Fin 3)) = Fin (6369051672525773 / 4503599627370496)"
  by (simp add: distanceD_def Let_def tie_op_3 tie_op_4 tie_op_5 tie_op_6 tie_op_14 tie_op_15)

lemma tie_dist_8:
  "distanceD (DPoint (Fin 2) (Fin 3)) (DPoint (Fin 1) (Fin 0)) = Fin (7120816245988179 / 2251799813685248)"
  by (simp add: distanceD_def Let_def tie_op_4 tie_op_28 tie_op_36 tie_op_37 tie_op_38 tie_op_39)

lemma tie_dist_9:
  "distanceD (DPoint (Fin 1) (Fin 4)) (DPoint (Fin 1) (Fin 0)) = Fin 4"
  by (simp add: distanceD_def Let_def tie_op_10 tie_op_42 tie_op_43 tie_op_44 tie_op_45 tie_op_46)

lemma tie_dist_10:
  "distanceD (DPoint (Fin 1) (Fin 0)) (DPoint (Fin 3) (Fin 2)) = Fin (6369051672525773 / 2251799813685248)"
  by (simp add: distanceD_def Let_def tie_op_20 tie_op_21 tie_op_30 tie_op_32 tie_op_48)

lemma tie_dist_11:
  "distanceD (DPoint (Fin 2) (Fin 3)) (DPoint (Fin 4) (Fin (9007199254740991 / 9007199254740992))) = Fin (6369051672525773 / 2251799813685248)"
  by (simp add: distanceD_def Let_def tie_op_19 tie_op_20 tie_op_21 tie_op_32 tie_op_52 tie_op_53)

lemma tie_dist_12:
  "distanceD (DPoint (Fin 1) (Fin 4)) (DPoint (Fin 4) (Fin (9007199254740991 / 9007199254740992))) = Fin (4776788754394329 / 1125899906842624)"
  by (simp add: distanceD_def Let_def tie_op_23 tie_op_25 tie_op_38 tie_op_55 tie_op_56 tie_op_57)

lemma tie_dist_13:
  "distanceD (DPoint (Fin 4) (Fin (9007199254740991 / 9007199254740992))) (DPoint (Fin 1) (Fin 0)) = Fin (7120816245988179 / 2251799813685248)"
  by (simp add: distanceD_def Let_def tie_op_27 tie_op_28 tie_op_38 tie_op_59 tie_op_60 tie_op_61)

lemma tie_dist_14:
  "distanceD (DPoint (Fin 2) (Fin 3)) (DPoint (Fin 1) (Fin 4)) = Fin (6369051672525773 / 4503599627370496)"
  by (simp add: distanceD_def Let_def tie_op_3 tie_op_4 tie_op_5 tie_op_6 tie_op_36 tie_op_73)

lemma tie_dist_15:
  "distanceD (DPoint (Fin 3) (Fin 2)) (DPoint (Fin 4) (Fin (9007199254740991 / 9007199254740992))) = Fin (6369051672525773 / 4503599627370496)"
  by (simp add: distanceD_def Let_def tie_op_3 tie_op_4 tie_op_5 tie_op_6 tie_op_73 tie_op_77)

lemma tie_dist_16:
  "distanceD (DPoint (Fin 4) (Fin (9007199254740991 / 9007199254740992))) (DPoint (Fin 3) (Fin 2)) = Fin (6369051672525773 / 4503599627370496)"
  by (simp add: distanceD_def Let_def tie_op_2 tie_op_3 tie_op_4 tie_op_5 tie_op_6 tie_op_79)

lemma tie_dist_17:
  "distanceD (DPoint (Fin 1) (Fin 0)) (DPoint (Fin 2) (Fin 3)) = Fin (7120816245988179 / 2251799813685248)"
  by (simp add: distanceD_def Let_def tie_op_1 tie_op_3 tie_op_25 tie_op_28 tie_op_39 tie_op_81)

lemmas tie_dists = tie_dist_1 tie_dist_2 tie_dist_3 tie_dist_4 tie_dist_5 tie_dist_6 tie_dist_7
  tie_dist_8 tie_dist_9 tie_dist_10 tie_dist_11 tie_dist_12 tie_dist_13 tie_dist_14 tie_dist_15
  tie_dist_16 tie_dist_17


text \<open>
  The travel of the two lists as \<^verbatim>\<open>calculateTotalTravelDistance\<close> computes it: the second is
  one unit in the last place above the first.
\<close>

lemma tie_total_in:
  "calculateTotalTravelDistance tiePaths = Fin (4964729897759931 / 562949953421312)"
  by (simp add: calculateTotalTravelDistance_def tiePaths_def addTravel_def ofPoint_def upt_rec
      tie_dists tie_ops)

lemma tie_total_out:
  "calculateTotalTravelDistance tieResult = Fin (1241182474439983 / 140737488355328)"
  by (simp add: calculateTotalTravelDistance_def tieResult_def addTravel_def ofPoint_def upt_rec
      tie_dists tie_ops)


text \<open>
  2-opt: none of the six candidate orders has a smaller computed travel, so the order is
  kept.
\<close>

lemma tie_order_0:
  "calculatePathOrderDistance tiePaths [0, 1, 2, 3, 4, 5] = Fin (4964729897759931 / 562949953421312)"
  by (simp add: calculatePathOrderDistance_def tiePaths_def addTravel_def ofPoint_def upt_rec
      tie_dists tie_ops)

lemma tie_swap_1: "swap2Opt [0, 1, 2, 3, 4, 5] 1 3 = [0, 3, 2, 1, 4, 5]"
  by (simp add: swap2Opt.simps)

lemma tie_order_1:
  "calculatePathOrderDistance tiePaths [0, 3, 2, 1, 4, 5] = Fin (5948802500191255 / 562949953421312)"
  by (simp add: calculatePathOrderDistance_def tiePaths_def addTravel_def ofPoint_def upt_rec
      tie_dists tie_ops)

lemma tie_try_1:
  "try2Opt tiePaths 1 3 ([0, 1, 2, 3, 4, 5], Fin (4964729897759931 / 562949953421312), False)
     = ([0, 1, 2, 3, 4, 5], Fin (4964729897759931 / 562949953421312), False)"
  unfolding try2Opt_def prod.case Let_def tie_swap_1 tie_order_1 by simp

lemma tie_swap_2: "swap2Opt [0, 1, 2, 3, 4, 5] 1 4 = [0, 4, 3, 2, 1, 5]"
  by (simp add: swap2Opt.simps)

lemma tie_order_2:
  "calculatePathOrderDistance tiePaths [0, 4, 3, 2, 1, 5] = Fin (194764284656683 / 17592186044416)"
  by (simp add: calculatePathOrderDistance_def tiePaths_def addTravel_def ofPoint_def upt_rec
      tie_dists tie_ops)

lemma tie_try_2:
  "try2Opt tiePaths 1 4 ([0, 1, 2, 3, 4, 5], Fin (4964729897759931 / 562949953421312), False)
     = ([0, 1, 2, 3, 4, 5], Fin (4964729897759931 / 562949953421312), False)"
  unfolding try2Opt_def prod.case Let_def tie_swap_2 tie_order_2 by simp

lemma tie_swap_3: "swap2Opt [0, 1, 2, 3, 4, 5] 1 5 = [0, 5, 4, 3, 2, 1]"
  by (simp add: swap2Opt.simps)

lemma tie_order_3:
  "calculatePathOrderDistance tiePaths [0, 5, 4, 3, 2, 1] = Fin (3278496407945687 / 281474976710656)"
  by (simp add: calculatePathOrderDistance_def tiePaths_def addTravel_def ofPoint_def upt_rec
      tie_dists tie_ops)

lemma tie_try_3:
  "try2Opt tiePaths 1 5 ([0, 1, 2, 3, 4, 5], Fin (4964729897759931 / 562949953421312), False)
     = ([0, 1, 2, 3, 4, 5], Fin (4964729897759931 / 562949953421312), False)"
  unfolding try2Opt_def prod.case Let_def tie_swap_3 tie_order_3 by simp

lemma tie_swap_4: "swap2Opt [0, 1, 2, 3, 4, 5] 2 4 = [0, 1, 4, 3, 2, 5]"
  by (simp add: swap2Opt.simps)

lemma tie_order_4:
  "calculatePathOrderDistance tiePaths [0, 1, 4, 3, 2, 5] = Fin (6556992815891375 / 562949953421312)"
  by (simp add: calculatePathOrderDistance_def tiePaths_def addTravel_def ofPoint_def upt_rec
      tie_dists tie_ops)

lemma tie_try_4:
  "try2Opt tiePaths 2 4 ([0, 1, 2, 3, 4, 5], Fin (4964729897759931 / 562949953421312), False)
     = ([0, 1, 2, 3, 4, 5], Fin (4964729897759931 / 562949953421312), False)"
  unfolding try2Opt_def prod.case Let_def tie_swap_4 tie_order_4 by simp

lemma tie_swap_5: "swap2Opt [0, 1, 2, 3, 4, 5] 2 5 = [0, 1, 5, 4, 3, 2]"
  by (simp add: swap2Opt.simps)

lemma tie_order_5:
  "calculatePathOrderDistance tiePaths [0, 1, 5, 4, 3, 2] = Fin (6556992815891375 / 562949953421312)"
  by (simp add: calculatePathOrderDistance_def tiePaths_def addTravel_def ofPoint_def upt_rec
      tie_dists tie_ops)

lemma tie_try_5:
  "try2Opt tiePaths 2 5 ([0, 1, 2, 3, 4, 5], Fin (4964729897759931 / 562949953421312), False)
     = ([0, 1, 2, 3, 4, 5], Fin (4964729897759931 / 562949953421312), False)"
  unfolding try2Opt_def prod.case Let_def tie_swap_5 tie_order_5 by simp

lemma tie_swap_6: "swap2Opt [0, 1, 2, 3, 4, 5] 3 5 = [0, 1, 2, 5, 4, 3]"
  by (simp add: swap2Opt.simps)

lemma tie_order_6:
  "calculatePathOrderDistance tiePaths [0, 1, 2, 5, 4, 3] = Fin (5760861356825653 / 562949953421312)"
  by (simp add: calculatePathOrderDistance_def tiePaths_def addTravel_def ofPoint_def upt_rec
      tie_dists tie_ops)

lemma tie_try_6:
  "try2Opt tiePaths 3 5 ([0, 1, 2, 3, 4, 5], Fin (4964729897759931 / 562949953421312), False)
     = ([0, 1, 2, 3, 4, 5], Fin (4964729897759931 / 562949953421312), False)"
  unfolding try2Opt_def prod.case Let_def tie_swap_6 tie_order_6 by simp

lemma try2Opt_adjacent: "j - i = 1 \<Longrightarrow> try2Opt ps i j st = st"
  by (simp add: try2Opt_def split: prod.splits)

lemma loop2Opt_done: "loop2Opt ps maxIter (order, best, False) iteration = order"
  by (subst loop2Opt.simps) simp

lemma tie_pass2Opt:
  "pass2Opt tiePaths ([0, 1, 2, 3, 4, 5], Fin (4964729897759931 / 562949953421312), False)
     = ([0, 1, 2, 3, 4, 5], Fin (4964729897759931 / 562949953421312), False)"
proof -
  have l: "length tiePaths = 6" by (simp add: tiePaths_def)
  have u: "[1..<6 - 2] = [1, 2, 3]" "[1 + 1..<6] = [2, 3, 4, 5]" "[2 + 1..<6] = [3, 4, 5]"
    "[3 + 1..<6] = [4, 5]"
    by (simp_all add: upt_rec)
  have a: "try2Opt tiePaths 1 2 st = st" "try2Opt tiePaths 2 3 st = st"
    "try2Opt tiePaths 3 4 st = st" for st
    by (simp_all add: try2Opt_adjacent)
  show ?thesis
    unfolding pass2Opt_def l u fold_simps o_apply id_apply a
      tie_try_1 tie_try_2 tie_try_3 tie_try_4 tie_try_5 tie_try_6
    by (rule refl)
qed

lemma tie_2opt: "apply2Opt tiePaths 100 = tiePaths"
proof -
  have l: "length tiePaths = 6" by (simp add: tiePaths_def)
  have u: "[0..<6] = [0, 1, 2, 3, 4, 5]" by (simp add: upt_rec)
  have lp: "loop2Opt tiePaths 100 ([0, 1, 2, 3, 4, 5], Fin (4964729897759931 / 562949953421312), True) 0
      = [0, 1, 2, 3, 4, 5]"
    apply (subst loop2Opt.simps)
    unfolding prod.case tie_pass2Opt loop2Opt_done
    apply simp
    done
  show ?thesis
    unfolding apply2Opt_def Let_def l u tie_order_0 lp by (simp add: tiePaths_def)
qed


text \<open>
  The greedy pass. At index 3 the travel around the pair is, before the swap,
  \<open>(\<surd>2 + \<surd>8) + \<surd>10\<close> and after it \<open>(\<surd>10 + \<surd>8) + \<surd>2\<close>, the distances being the computed
  ones: the same three doubles added in another order. The second sum rounds one unit
  in the last place below the first, the swap is kept, and the next pass changes
  nothing.
\<close>

lemma tie_pass1: "greedyPass tiePaths = (tieResult, True)"
  by (simp add: greedyPass_def greedyStep_def localTravel_def calculateTravelBetween_def
      tiePaths_def tieResult_def ofPoint_def Let_def upt_rec tie_dists tie_ops)

lemma tie_pass2: "greedyPass tieResult = (tieResult, False)"
  by (simp add: greedyPass_def greedyStep_def localTravel_def calculateTravelBetween_def
      tieResult_def ofPoint_def Let_def upt_rec tie_dists tie_ops)

lemma tie_greedy: "greedyImprovement tiePaths = Some tieResult"
proof -
  have "greedyLoop tieResult = Some tieResult"
    by (subst greedyLoop.simps) (simp add: tie_pass2)
  then have "greedyLoop tiePaths = Some tieResult"
    by (subst greedyLoop.simps) (simp add: tie_pass1)
  then show ?thesis by (simp add: greedyImprovement_def tiePaths_def)
qed

lemma tie_exact: "exactTravel tiePaths < exactTravel tieResult"
proof -
  have a: "sqrt (9 + (9007199254740991 / 9007199254740992)\<^sup>2) < sqrt 10"
    by (rule real_sqrt_less_mono) (simp add: power2_eq_square)
  have b: "sqrt 2 < sqrt (1 + (9007199254740991 / 9007199254740992 - 2)\<^sup>2)"
    by (rule real_sqrt_less_mono) (simp add: power2_eq_square)
  have i: "exactTravel tiePaths
      = sqrt 2 + sqrt 2 + sqrt 8 + sqrt (9 + (9007199254740991 / 9007199254740992)\<^sup>2)"
    by (simp add: tiePaths_def distance_def power2_eq_square)
  have r: "exactTravel tieResult
      = sqrt 2 + sqrt 10 + sqrt 8 + sqrt (1 + (9007199254740991 / 9007199254740992 - 2)\<^sup>2)"
    by (simp add: tieResult_def distance_def power2_eq_square)
  show ?thesis unfolding i r using a b by linarith
qed


text \<open>
  Claim C1 says that with merging disabled the list returned by \<^verbatim>\<open>optimizePaths\<close> has a
  total pen travel not above that of the input. On \<open>tiePaths\<close> the code returns
  \<open>tieResult\<close>: the travel it reports for the result, 8.819131909660761, is above the
  8.81913190966076 it computes for the input, the improvement it reports is negative, and
  the travel of the result is also the larger one in exact arithmetic.
\<close>

theorem C1_greedy_swap_lengthens_route:
  "optimizePaths tiePaths
     \<lparr>enablePathMerging = False, enable2Opt = True, mergeThreshold = 5, maxIterations = 100\<rparr>
   = Some \<lparr>paths = tieResult,
            totalDistance = Fin (1241182474439983 / 140737488355328),
            improvement = Fin (- (6383280794390189 / 316912650057057350374175801344))\<rparr>
   \<and> calculateTotalTravelDistance tiePaths = Fin (4964729897759931 / 562949953421312)
   \<and> dless (calculateTotalTravelDistance tiePaths) (Fin (1241182474439983 / 140737488355328))
   \<and> exactTravel tiePaths < exactTravel tieResult"
proof -
  have l: "length tiePaths = 6" by (simp add: tiePaths_def)
  show ?thesis
    by (simp add: optimizePaths_def Let_def l tie_2opt tie_greedy tie_total_in tie_total_out
        tie_exact tie_ops)
qed

section \<open>The merge of scenario S2\<close>

text \<open>
  The four endpoint distances of the scenario, in double arithmetic. All the numbers are
  small integers, so every operation is exact.
\<close>

lemma s2_op_1: "dsub (Fin 11) (Fin 10) = Fin 1"
  by (rule dsub_eval, rule rnd_frac [where n = 52 and m = "4503599627370496"], simp_all)

lemma s2_op_2: "dsub (Fin 0) (Fin 0) = Fin 0"
  by (rule dsub_eval, simp add: rnd_0)

lemma s2_op_3: "dmul (Fin 1) (Fin 1) = Fin 1"
  by (rule dmul_eval, rule rnd_frac [where n = 52 and m = "4503599627370496"], simp_all)

lemma s2_op_4: "dmul (Fin 0) (Fin 0) = Fin 0"
  by (rule dmul_eval, simp add: rnd_0)

lemma s2_op_5: "dadd (Fin 1) (Fin 0) = Fin 1"
  by (rule dadd_eval, rule rnd_frac [where n = 52 and m = "4503599627370496"], simp_all)

lemma s2_op_6: "dsqrt (Fin 1) = Fin 1"
  by (rule dsqrt_eval, simp, rule rnd_sqrt_frac [where n = 52 and m = "4503599627370496"], simp_all)

lemma s2_op_7: "dsub (Fin 20) (Fin 10) = Fin 10"
  by (rule dsub_eval, rule rnd_frac [where n = 49 and m = "5629499534213120"], simp_all)

lemma s2_op_8: "dmul (Fin 10) (Fin 10) = Fin 100"
  by (rule dmul_eval, rule rnd_frac [where n = 46 and m = "7036874417766400"], simp_all)

lemma s2_op_9: "dadd (Fin 100) (Fin 0) = Fin 100"
  by (rule dadd_eval, rule rnd_frac [where n = 46 and m = "7036874417766400"], simp_all)

lemma s2_op_10: "dsqrt (Fin 100) = Fin 10"
  by (rule dsqrt_eval, simp, rule rnd_sqrt_frac [where n = 49 and m = "5629499534213120"], simp_all)

lemma s2_op_11: "dsub (Fin 11) (Fin 0) = Fin 11"
  by (rule dsub_eval, rule rnd_frac [where n = 49 and m = "6192449487634432"], simp_all)

lemma s2_op_12: "dmul (Fin 11) (Fin 11) = Fin 121"
  by (rule dmul_eval, rule rnd_frac [where n = 46 and m = "8514618045497344"], simp_all)

lemma s2_op_13: "dadd (Fin 121) (Fin 0) = Fin 121"
  by (rule dadd_eval, rule rnd_frac [where n = 46 and m = "8514618045497344"], simp_all)

lemma s2_op_14: "dsqrt (Fin 121) = Fin 11"
  by (rule dsqrt_eval, simp, rule rnd_sqrt_frac [where n = 49 and m = "6192449487634432"], simp_all)

lemma s2_op_15: "dsub (Fin 20) (Fin 0) = Fin 20"
  by (rule dsub_eval, rule rnd_frac [where n = 48 and m = "5629499534213120"], simp_all)

lemma s2_op_16: "dmul (Fin 20) (Fin 20) = Fin 400"
  by (rule dmul_eval, rule rnd_frac [where n = 44 and m = "7036874417766400"], simp_all)

lemma s2_op_17: "dadd (Fin 400) (Fin 0) = Fin 400"
  by (rule dadd_eval, rule rnd_frac [where n = 44 and m = "7036874417766400"], simp_all)

lemma s2_op_18: "dsqrt (Fin 400) = Fin 20"
  by (rule dsqrt_eval, simp, rule rnd_sqrt_frac [where n = 48 and m = "5629499534213120"], simp_all)

lemmas s2_ops = s2_op_1 s2_op_2 s2_op_3 s2_op_4 s2_op_5 s2_op_6 s2_op_7 s2_op_8 s2_op_9
  s2_op_10 s2_op_11 s2_op_12 s2_op_13 s2_op_14 s2_op_15 s2_op_16 s2_op_17 s2_op_18


lemma tryMerge_S2:
  "tryMergePaths [Point 0 0, Point 10 0] [Point 11 0, Point 20 0] 5
     = Some [Point 0 0, Point 10 0, Point 11 0, Point 20 0]"
  by (simp add: tryMergePaths_def connections_def Let_def distanceD_def ofPoint_def s2_ops)

text \<open>
  Claim C8 (scenario S2). Merging the two paths \<open>[(0,0),(10,0)]\<close> and \<open>[(11,0),(20,0)]\<close>
  with threshold 5 gives exactly one path, \<open>[(0,0),(10,0),(11,0),(20,0)]\<close>: the end of the
  first path is at distance 1 from the start of the second, the smallest of the four
  endpoint distances (1, 10, 11, 20).
\<close>

theorem C8_merge_two_paths:
  "mergePaths [[Point 0 0, Point 10 0], [Point 11 0, Point 20 0]] 5
     = [[Point 0 0, Point 10 0, Point 11 0, Point 20 0]]"
proof -
  let ?ps = "[[Point 0 0, Point 10 0], [Point 11 0, Point 20 0]]"
  let ?m = "[Point 0 0, Point 10 0, Point 11 0, Point 20 0]"
  have up: "[0..<length ?ps] = [0, Suc 0]" by (simp add: upt_rec)
  have l2: "mergeLoop ?ps 5 {0, Suc 0} ?m = (?m, {0, Suc 0})"
    by (subst mergeLoop.simps) (simp add: up)
  have l1: "mergeLoop ?ps 5 {0} [Point 0 0, Point 10 0] = (?m, {0, Suc 0})"
    by (subst mergeLoop.simps) (simp add: up tryMerge_S2 l2 insert_commute)
  show ?thesis
    by (simp add: mergePaths_def up mergeOuter_def l1)
qed

section \<open>Properties of the line-weight simulator\<close>

lemma simulateVariableWeight_fold:
  "fold (\<lambda>weightedPath outputPaths.
             outputPaths @ simulateWeight (centerline weightedPath) (weight weightedPath)
                             (style weightedPath)) wps acc
     = acc @ concat (map (\<lambda>wp. simulateWeight (centerline wp) (weight wp) (style wp)) wps)"
  by (induction wps arbitrary: acc) simp_all

lemma simulateVariableWeight_concat:
  "simulateVariableWeight wps
     = concat (map (\<lambda>wp. simulateWeight (centerline wp) (weight wp) (style wp)) wps)"
  by (simp add: simulateVariableWeight_def simulateVariableWeight_fold)

text \<open>
  Claim C10. A weighted path whose weight is at most 1.0, or whose centerline has fewer
  than 2 points, contributes its centerline, unchanged, as the one output path standing
  for it, wherever it is in the input list and whatever its style is. Weights below 1.0
  are not thinned: they take the same branch as weight 1.0.
\<close>

theorem C10_thin_or_short_unchanged:
  assumes "weight wp \<le> 1 \<or> length (centerline wp) < 2"
  shows "simulateVariableWeight (before @ wp # after)
     = simulateVariableWeight before @ [centerline wp] @ simulateVariableWeight after"
proof -
  have "simulateWeight (centerline wp) (weight wp) (style wp) = [centerline wp]"
    using assms by (auto simp: simulateWeight_def)
  then show ?thesis
    by (simp add: simulateVariableWeight_concat)
qed

theorem C10_thin_or_short_unchanged_witness:
  "simulateVariableWeight
     [\<lparr>centerline = [Point 0 0, Point 4 0], weight = 3, style = PARALLEL_LINES\<rparr>,
      \<lparr>centerline = [Point 0 0, Point 3 4, Point 6 0], weight = 1/2, style = ZIGZAG\<rparr>,
      \<lparr>centerline = [Point 7 7], weight = 5, style = SCRIBBLE\<rparr>]
   = simulateVariableWeight
       [\<lparr>centerline = [Point 0 0, Point 4 0], weight = 3, style = PARALLEL_LINES\<rparr>]
     @ [[Point 0 0, Point 3 4, Point 6 0]]
     @ [[Point 7 7]]"
proof -
  let ?a = "\<lparr>centerline = [Point 0 0, Point 4 0], weight = 3, style = PARALLEL_LINES\<rparr>"
  let ?b = "\<lparr>centerline = [Point 0 0, Point 3 4, Point 6 0], weight = 1/2, style = ZIGZAG\<rparr>"
  let ?c = "\<lparr>centerline = [Point 7 7], weight = 5, style = SCRIBBLE\<rparr>"
  have hb: "weight ?b \<le> 1 \<or> length (centerline ?b) < 2" by simp
  have hc: "weight ?c \<le> 1 \<or> length (centerline ?c) < 2" by simp
  have 1: "simulateVariableWeight ([?a] @ ?b # [?c])
      = simulateVariableWeight [?a] @ [centerline ?b] @ simulateVariableWeight [?c]"
    by (rule C10_thin_or_short_unchanged [OF hb])
  have 2: "simulateVariableWeight ([] @ ?c # [])
      = simulateVariableWeight [] @ [centerline ?c] @ simulateVariableWeight []"
    by (rule C10_thin_or_short_unchanged [OF hc])
  have 3: "simulateVariableWeight [] = []"
    by (simp add: simulateVariableWeight_def)
  from 1 2 3 show ?thesis by simp
qed

section \<open>Properties of Douglas--Peucker simplification\<close>

text \<open>When the denominator of the distance is zero so is the numerator: the source's value is NaN, never an infinity.\<close>

lemma perpendicularDistance_NaN:
  assumes "perpendicularDistance pt lineStart lineEnd = None"
  shows "\<bar>(py lineEnd - py lineStart) * px pt + (px lineStart - px lineEnd) * py pt
          + (px lineEnd * py lineStart - px lineStart * py lineEnd)\<bar> = 0"
proof -
  let ?A = "py lineEnd - py lineStart" and ?B = "px lineStart - px lineEnd"
  from assms have "sqrt (?A * ?A + ?B * ?B) = 0"
    by (simp add: perpendicularDistance_def Let_def split: if_splits)
  then have "?A * ?A + ?B * ?B = 0" by simp
  then have "?A = 0" "?B = 0"
    by (simp_all add: sum_squares_eq_zero_iff)
  then show ?thesis by (simp add: algebra_simps)
qed

text \<open>
  The search loop seen on the list of distances of the interior points: \<open>amax\<close> is the
  loop, \<open>below\<close> and \<open>notabove\<close> compare a distance that may be NaN with a bound the way
  the loop's test does.
\<close>

definition interior :: "'a list \<Rightarrow> 'a list" where
  "interior xs = butlast (tl xs)"

fun amax :: "real option list \<Rightarrow> nat \<Rightarrow> real \<times> nat \<Rightarrow> real \<times> nat" where
  "amax [] i st = st"
| "amax (x # xs) i st =
     amax xs (i + 1) (case x of None \<Rightarrow> st | Some d \<Rightarrow> if d > fst st then (d, i) else st)"

definition below :: "real \<Rightarrow> real option \<Rightarrow> bool" where
  "below v x = (case x of None \<Rightarrow> True | Some u \<Rightarrow> u < v)"

definition notabove :: "real \<Rightarrow> real option \<Rightarrow> bool" where
  "notabove v x = (case x of None \<Rightarrow> True | Some u \<Rightarrow> u \<le> v)"

lemma amax_notabove: "list_all (notabove v) xs \<Longrightarrow> amax xs i (v, m) = (v, m)"
  by (induction xs arbitrary: i) (auto simp: notabove_def split: option.splits)

lemma amax_below:
  "list_all (below v) xs \<Longrightarrow> d < v \<Longrightarrow> fst (amax xs i (d, m)) < v"
  by (induction xs arbitrary: i d m) (auto simp: below_def split: option.splits)

lemma amax_append: "amax (xs @ ys) i st = amax ys (i + length xs) (amax xs i st)"
  by (induction xs arbitrary: i st) simp_all

lemma amax_build:
  assumes "list_all (below v) xs" "list_all (notabove v) ys" "d < v"
  shows "amax (xs @ Some v # ys) i (d, m) = (v, i + length xs)"
proof -
  obtain d' m' where st: "amax xs i (d, m) = (d', m')" by (cases "amax xs i (d, m)")
  with amax_below [OF assms(1,3), of i m] have "d' < v" by simp
  then show ?thesis
    by (simp add: amax_append st amax_notabove [OF assms(2)])
qed

lemma amax_cases:
  "amax ds i (d0, m0) = (d, m) \<Longrightarrow>
     (d = d0 \<and> m = m0 \<and> list_all (notabove d0) ds)
     \<or> (\<exists>xs ys. ds = xs @ Some d # ys \<and> m = i + length xs
           \<and> list_all (below d) xs \<and> list_all (notabove d) ys \<and> d0 < d)"
proof (induction ds arbitrary: i d0 m0)
  case Nil
  then show ?case by simp
next
  case (Cons x ds)
  let ?st = "case x of None \<Rightarrow> (d0, m0) | Some u \<Rightarrow> if u > d0 then (u, i) else (d0, m0)"
  obtain d1 m1 where st: "?st = (d1, m1)" by (cases ?st)
  have le: "d0 \<le> d1" and xb: "notabove d1 x"
    and upd: "d1 = d0 \<and> m1 = m0 \<or> (x = Some d1 \<and> m1 = i \<and> d0 < d1)"
    using st by (auto simp: notabove_def split: option.splits if_splits)
  from Cons.prems st have "amax ds (i + 1) (d1, m1) = (d, m)"
    by (cases x) (simp_all split: if_splits)
  from Cons.IH [OF this] show ?case
  proof
    assume a: "d = d1 \<and> m = m1 \<and> list_all (notabove d1) ds"
    from upd show ?thesis
    proof
      assume "d1 = d0 \<and> m1 = m0"
      with a xb show ?thesis by simp
    next
      assume u: "x = Some d1 \<and> m1 = i \<and> d0 < d1"
      have "x # ds = [] @ Some d # ds \<and> m = i + length ([]::real option list)
           \<and> list_all (below d) [] \<and> list_all (notabove d) ds \<and> d0 < d"
        using a u by simp
      then show ?thesis by blast
    qed
  next
    assume "\<exists>xs ys. ds = xs @ Some d # ys \<and> m = i + 1 + length xs
           \<and> list_all (below d) xs \<and> list_all (notabove d) ys \<and> d1 < d"
    then obtain xs ys where b: "ds = xs @ Some d # ys" "m = i + 1 + length xs"
      "list_all (below d) xs" "list_all (notabove d) ys" "d1 < d" by blast
    have "below d x" using xb b(5) by (auto simp: below_def notabove_def split: option.splits)
    then have "x # ds = (x # xs) @ Some d # ys \<and> m = i + length (x # xs)
           \<and> list_all (below d) (x # xs) \<and> list_all (notabove d) ys \<and> d0 < d"
      using b le by simp
    then show ?thesis by blast
  qed
qed


lemma fold_dpStep_amax:
  "(\<And>k. k < length zs \<Longrightarrow> pts ! (i + k) = zs ! k) \<Longrightarrow>
     fold (dpStep pts) [i..<i + length zs] st
       = amax (map (\<lambda>p. perpendicularDistance p (pts ! 0) (pts ! (length pts - 1))) zs) i st"
proof (induction zs arbitrary: i st)
  case Nil
  then show ?case by simp
next
  case (Cons z zs)
  have up: "[i..<i + length (z # zs)] = i # [Suc i..<Suc i + length zs]"
    using upt_conv_Cons [of i "Suc i + length zs"] by (simp del: upt_Suc)
  have z: "pts ! i = z" using Cons.prems [of 0] by simp
  have "\<And>k. k < length zs \<Longrightarrow> pts ! (Suc i + k) = zs ! k"
    using Cons.prems [of "Suc k" for k] by simp
  from Cons.IH [of "Suc i", OF this] show ?case
    unfolding up by (simp add: dpStep_def z)
qed

lemma length_interior: "length (interior xs) = length xs - 2"
  by (simp add: interior_def)

lemma nth_interior: "k < length xs - 2 \<Longrightarrow> interior xs ! k = xs ! (Suc k)"
  by (simp add: interior_def nth_butlast nth_tl)

lemma dpFindMax_amax:
  "dpFindMax pts
     = amax (map (\<lambda>p. perpendicularDistance p (pts ! 0) (pts ! (length pts - 1))) (interior pts))
         1 (0, 0)"
proof -
  have "[1..<length pts - 1] = [1..<1 + length (interior pts)]"
  proof (cases "length pts \<ge> 2")
    case True
    then have "length pts - 1 = 1 + length (interior pts)" by (simp add: length_interior)
    then show ?thesis by (simp only:)
  next
    case False
    then show ?thesis by (simp add: length_interior)
  qed
  moreover have "\<And>k. k < length (interior pts) \<Longrightarrow> pts ! (1 + k) = interior pts ! k"
    by (simp add: length_interior nth_interior)
  ultimately show ?thesis
    unfolding dpFindMax_def using fold_dpStep_amax [of "interior pts" pts 1 "(0, 0)"] by simp
qed

lemma ends_decomp: "length xs \<ge> 2 \<Longrightarrow> xs = hd xs # interior xs @ [last xs]"
proof -
  assume "length xs \<ge> 2"
  then obtain a ys where xs: "xs = a # ys" and "length ys \<ge> 1" by (cases xs) auto
  then have ne: "ys \<noteq> []" by auto
  then have "ys = butlast ys @ [last ys]" by simp
  then show ?thesis using xs ne by (simp add: interior_def)
qed

lemma interior_ends [simp]: "interior (a # M @ [z]) = M"
  by (simp add: interior_def)

lemma dpFindMax_ends:
  "dpFindMax (a # M @ [z]) = amax (map (\<lambda>p. perpendicularDistance p a z) M) 1 (0, 0)"
  by (simp add: dpFindMax_amax nth_append)

lemma dp_split:
  assumes "length points > 2" and "dpFindMax points = (d, m)" and "m \<noteq> 0 \<or> d \<noteq> 0"
  shows "\<exists>a X pm Y z. points = a # X @ pm # Y @ [z] \<and> m = 1 + length X \<and> 0 < d
           \<and> list_all (below d) (map (\<lambda>p. perpendicularDistance p a z) X)
           \<and> perpendicularDistance pm a z = Some d
           \<and> list_all (notabove d) (map (\<lambda>p. perpendicularDistance p a z) Y)"
proof -
  let ?a = "hd points" and ?z = "last points" and ?I = "interior points"
  let ?g = "\<lambda>p. perpendicularDistance p ?a ?z"
  have pts: "points = ?a # ?I @ [?z]" using assms(1) by (intro ends_decomp) simp
  have "amax (map ?g ?I) 1 (0, 0) = (d, m)"
    using assms(2) dpFindMax_ends [of ?a ?I ?z] pts by simp
  from amax_cases [OF this] assms(3)
  obtain xs ys where ds: "map ?g ?I = xs @ Some d # ys" and m: "m = 1 + length xs"
    and xs: "list_all (below d) xs" and ys: "list_all (notabove d) ys" and d: "0 < d"
    by auto
  from ds obtain X R where I1: "?I = X @ R" and X: "map ?g X = xs" and R: "map ?g R = Some d # ys"
    by (auto simp: map_eq_append_conv)
  from R obtain pm Y where R2: "R = pm # Y" and pm: "?g pm = Some d" and Y: "map ?g Y = ys"
    by (auto simp: map_eq_Cons_conv)
  have "points = ?a # X @ pm # Y @ [?z]" using pts I1 R2 by simp
  moreover have "m = 1 + length X" using m X by auto
  ultimately show ?thesis using xs ys d pm X Y by blast
qed

definition dpInv :: "path \<Rightarrow> real \<Rightarrow> path \<Rightarrow> bool" where
  "dpInv pts eps q \<longleftrightarrow>
     (length pts \<le> 2 \<longrightarrow> q = pts)
     \<and> (length pts \<ge> 2 \<longrightarrow>
          length q \<ge> 2 \<and> hd q = hd pts \<and> last q = last pts
          \<and> set (interior q) \<subseteq> set (interior pts))
     \<and> douglasPeucker q eps = Some q"

lemma dp_short: "length pts \<le> 2 \<Longrightarrow> douglasPeucker pts eps = Some pts"
  by (subst douglasPeucker.simps) simp

lemma dp_rebuild:
  assumes l: "l = a # Xl @ [pm]" and r: "r = pm # Yr @ [z]"
    and dl: "douglasPeucker l eps = Some l" and dr: "douglasPeucker r eps = Some r"
    and bl: "list_all (below d) (map (\<lambda>p. perpendicularDistance p a z) Xl)"
    and pm: "perpendicularDistance pm a z = Some d"
    and ar: "list_all (notabove d) (map (\<lambda>p. perpendicularDistance p a z) Yr)"
    and d: "0 < d" "eps < d"
  shows "douglasPeucker (butlast l @ r) eps = Some (butlast l @ r)"
proof -
  let ?q = "a # Xl @ pm # Yr @ [z]"
  have "dpFindMax (a # (Xl @ pm # Yr) @ [z]) = (d, 1 + length Xl)"
    unfolding dpFindMax_ends using amax_build [OF bl ar d(1), of 1 0] pm by simp
  then have fm: "dpFindMax ?q = (d, Suc (length Xl))" by simp
  have dl': "douglasPeucker (a # Xl @ [pm]) eps = Some (a # Xl @ [pm])"
    using dl by (simp only: l)
  have dr': "douglasPeucker (pm # Yr @ [z]) eps = Some (pm # Yr @ [z])"
    using dr by (simp only: r)
  have "douglasPeucker ?q eps = Some ?q"
    by (subst douglasPeucker.simps) (simp add: fm d dl' dr' butlast_append)
  then show ?thesis by (simp add: l r butlast_append)
qed

lemma dp_inv:
  assumes "douglasPeucker pts eps = Some q"
  shows "dpInv pts eps q"
proof (rule douglasPeucker.raw_induct [OF _ assms])
  fix f :: "path \<Rightarrow> real \<Rightarrow> path option" and points epsilon q
  assume 1: "\<And>pts eps y. f pts eps = Some y \<Longrightarrow> dpInv pts eps y"
    "(if length points \<le> 2 then Some points
      else if epsilon < fst (dpFindMax points)
           then Option.bind (f (take (snd (dpFindMax points) + 1) points) epsilon)
                 (\<lambda>left. Option.bind (f (drop (snd (dpFindMax points)) points) epsilon)
                      (\<lambda>right. Some (butlast left @ right)))
           else Some [points ! 0, points ! (length points - 1)]) = Some q"
  show "dpInv points epsilon q"
  proof (cases "length points \<le> 2")
    case True
    with 1(2) have "q = points" by simp
    with True show ?thesis by (simp add: dpInv_def dp_short)
  next
    case long: False
    obtain d m where fm: "dpFindMax points = (d, m)" by (cases "dpFindMax points")
    show ?thesis
    proof (cases "epsilon < d")
      case False
      with 1(2) long fm have q: "q = [points ! 0, points ! (length points - 1)]" by simp
      have "points \<noteq> []" using long by auto
      then show ?thesis
        using long by (simp add: q dpInv_def dp_short interior_def hd_conv_nth last_conv_nth)
    next
      case True
      with 1(2) long fm obtain l r where
        fl: "f (take (m + 1) points) epsilon = Some l" and
        fr: "f (drop m points) epsilon = Some r" and q: "q = butlast l @ r"
        by (auto simp: bind_eq_Some_conv)
      note il = 1(1) [OF fl] and ir = 1(1) [OF fr]
      show ?thesis
      proof (cases "m = 0 \<and> d = 0")
        case True
        have "length (take (m + 1) points) \<le> 2" using True by simp
        with il have "l = take 1 points" using True by (simp add: dpInv_def)
        then have "butlast l = []" using long by (cases points) simp_all
        with q have "q = r" by simp
        with ir True show ?thesis by simp
      next
        case False
        then have "m \<noteq> 0 \<or> d \<noteq> 0" by simp
        from dp_split [OF _ fm this] long
        obtain a X pm Y z where pts: "points = a # X @ pm # Y @ [z]" and m: "m = 1 + length X"
          and d: "0 < d"
          and bX: "list_all (below d) (map (\<lambda>p. perpendicularDistance p a z) X)"
          and pm: "perpendicularDistance pm a z = Some d"
          and aY: "list_all (notabove d) (map (\<lambda>p. perpendicularDistance p a z) Y)"
          by auto
        have tk: "take (m + 1) points = a # X @ [pm]" and dr: "drop m points = pm # Y @ [z]"
          by (simp_all add: pts m)
        from il have l: "length l \<ge> 2" "hd l = a" "last l = pm" "set (interior l) \<subseteq> set X"
          and dl: "douglasPeucker l epsilon = Some l"
          unfolding tk dpInv_def by simp_all
        from ir have r: "length r \<ge> 2" "hd r = pm" "last r = z" "set (interior r) \<subseteq> set Y"
          and drr: "douglasPeucker r epsilon = Some r"
          unfolding dr dpInv_def by simp_all
        have l': "l = a # interior l @ [pm]" using ends_decomp [OF l(1)] l(2,3) by simp
        have r': "r = pm # interior r @ [z]" using ends_decomp [OF r(1)] r(2,3) by simp
        have bl: "list_all (below d) (map (\<lambda>p. perpendicularDistance p a z) (interior l))"
          using bX l(4) by (auto simp: list_all_iff)
        have ar: "list_all (notabove d) (map (\<lambda>p. perpendicularDistance p a z) (interior r))"
          using aY r(4) by (auto simp: list_all_iff)
        have 3: "douglasPeucker q epsilon = Some q"
          unfolding q by (rule dp_rebuild [OF l' r' dl drr bl pm ar d True])
        have qq: "q = a # (interior l @ pm # interior r) @ [z]"
          unfolding q by (subst l', subst r') (simp add: butlast_append)
        have pp: "points = a # (X @ pm # Y) @ [z]" using pts by simp
        have "length q \<ge> 2" "hd q = hd points" "last q = last points"
          by (simp_all add: qq pts)
        moreover have "set (interior q) \<subseteq> set (interior points)"
          by (subst qq, subst pp, simp only: interior_ends) (use l(4) r(4) in auto)
        ultimately show ?thesis using long 3 by (simp add: dpInv_def)
      qed
    qed
  qed
qed

lemma dp_total: "0 \<le> eps \<Longrightarrow> \<exists>q. douglasPeucker pts eps = Some q"
proof (induction "length pts" arbitrary: pts rule: less_induct)
  case less
  show ?case
  proof (cases "length pts \<le> 2")
    case True
    then show ?thesis by (simp add: dp_short)
  next
    case long: False
    obtain d m where fm: "dpFindMax pts = (d, m)" by (cases "dpFindMax pts")
    show ?thesis
    proof (cases "eps < d")
      case False
      then show ?thesis using long fm by (subst douglasPeucker.simps) simp
    next
      case True
      with less.prems have "m \<noteq> 0 \<or> d \<noteq> 0" by auto
      from dp_split [OF _ fm this] long
      obtain a X pm Y z where pts: "pts = a # X @ pm # Y @ [z]" and m: "m = 1 + length X"
        by auto
      have "length (take (m + 1) pts) < length pts" "length (drop m pts) < length pts"
        by (simp_all add: pts m)
      with less.hyps less.prems obtain l r where
        "douglasPeucker (take (m + 1) pts) eps = Some l" "douglasPeucker (drop m pts) eps = Some r"
        by blast
      then show ?thesis using long fm True by (subst douglasPeucker.simps) simp
    qed
  qed
qed

text \<open>
  Claim C4. Douglas--Peucker simplification is idempotent: for every polyline \<open>p\<close> and
  every tolerance \<open>eps\<close>, simplifying the output again with the same tolerance returns the
  output, point for point. The equation is between results of calls that may fail to
  return (\<open>None\<close>): it says that when the first call returns \<open>q\<close>, the second returns \<open>q\<close>; for a
  tolerance that is not negative the first call always returns.
\<close>

theorem C4_douglasPeucker_idempotent:
  "(0 \<le> eps \<longrightarrow> douglasPeucker p eps \<noteq> None)
   \<and> Option.bind (douglasPeucker p eps) (\<lambda>q. douglasPeucker q eps) = douglasPeucker p eps"
proof -
  have "Option.bind (douglasPeucker p eps) (\<lambda>q. douglasPeucker q eps) = douglasPeucker p eps"
  proof (cases "douglasPeucker p eps")
    case None
    then show ?thesis by simp
  next
    case (Some q)
    from dp_inv [OF this] Some show ?thesis by (simp add: dpInv_def)
  qed
  then show ?thesis using dp_total [of eps p] by auto
qed


lemma sqrt_25: "sqrt 25 = 5" by (rule real_sqrt_unique) auto
lemma sqrt_64: "sqrt 64 = 8" by (rule real_sqrt_unique) auto

lemma dp_example_input:
  "douglasPeucker [Point 0 0, Point 2 1, Point 4 3, Point 8 0] (3/2)
     = Some [Point 0 0, Point 4 3, Point 8 0]"
proof -
  have up: "[1..<length [Point 0 0, Point 2 1, Point 4 3, Point 8 0] - 1] = [1, 2]"
    "[1..<length [Point 0 0, Point 2 1, Point 4 3] - 1] = [1]"
    by (simp_all add: upt_rec)
  have m1: "dpFindMax [Point 0 0, Point 2 1, Point 4 3, Point 8 0] = (3, 2)"
    unfolding dpFindMax_def up
    by (simp add: dpStep_def perpendicularDistance_def sqrt_64)
  have m2: "dpFindMax [Point 0 0, Point 2 1, Point 4 3] = (2/5, 1)"
    unfolding dpFindMax_def up
    by (simp add: dpStep_def perpendicularDistance_def sqrt_25)
  have l: "douglasPeucker [Point 0 0, Point 2 1, Point 4 3] (3/2) = Some [Point 0 0, Point 4 3]"
    by (subst douglasPeucker.simps) (simp add: m2)
  show ?thesis
    by (subst douglasPeucker.simps) (simp add: m1 l dp_short)
qed

theorem C4_douglasPeucker_idempotent_witness:
  "(0::real) \<le> 3/2
   \<and> douglasPeucker [Point 0 0, Point 2 1, Point 4 3, Point 8 0] (3/2)
       = Some [Point 0 0, Point 4 3, Point 8 0]
   \<and> douglasPeucker [Point 0 0, Point 4 3, Point 8 0] (3/2)
       = Some [Point 0 0, Point 4 3, Point 8 0]"
  using C4_douglasPeucker_idempotent [of "3/2" "[Point 0 0, Point 2 1, Point 4 3, Point 8 0]"]
  by (simp add: dp_example_input)

section \<open>Properties of the centerline stitcher\<close>

lemma closest_fold_unused:
  "fold (closestStep frm candidates y used proximity) ks best = Some (k, d) \<Longrightarrow>
     best = Some (k, d) \<or> (y, k) \<notin> used"
proof (induction ks arbitrary: best)
  case Nil
  then show ?case by simp
next
  case (Cons j ks)
  from Cons.IH [of "closestStep frm candidates y used proximity j best"] Cons.prems
  have "closestStep frm candidates y used proximity j best = Some (k, d) \<or> (y, k) \<notin> used"
    by simp
  then show ?case
    by (auto simp: closestStep_def Let_def split: if_splits option.splits)
qed

lemma findClosestUnusedSegment_unused:
  "findClosestUnusedSegment frm candidates y used proximity = Some k \<Longrightarrow> (y, k) \<notin> used"
  using closest_fold_unused [of frm candidates y used proximity "[0..<length candidates]" None k]
  by (auto simp: findClosestUnusedSegment_def)

text \<open>
  What a trace keeps true of its state, relative to the set \<open>U0\<close> of names used before the
  path was started: the path has no repetition, all its names are marked used, none of
  them was used before, and no mark is ever removed.
\<close>

definition traceInv :: "segId set \<Rightarrow> segId list \<times> segId set \<Rightarrow> bool" where
  "traceInv U0 st \<longleftrightarrow>
     distinct (fst st) \<and> set (fst st) \<subseteq> snd st \<and> set (fst st) \<inter> U0 = {} \<and> U0 \<subseteq> snd st"

lemma traceInv_add:
  assumes "traceInv U0 st" "sid \<notin> snd st"
  shows "traceInv U0 (sid # fst st, insert sid (snd st))"
    and "traceInv U0 (fst st @ [sid], insert sid (snd st))"
  using assms by (auto simp: traceInv_def)

lemma traceUp_inv:
  "traceInv U0 st \<Longrightarrow> traceInv U0 (traceUp segmentsByRow proximity n cur st)"
proof (induction n arbitrary: cur st)
  case 0
  then show ?case by simp
next
  case (Suc prevY)
  show ?case
  proof (cases "findClosestUnusedSegment (segAt segmentsByRow cur)
             (segmentsByRow ! prevY) prevY (snd st) proximity")
    case None
    with Suc.prems show ?thesis by simp
  next
    case (Some k)
    from findClosestUnusedSegment_unused [OF Some] have "(prevY, k) \<notin> snd st" .
    from traceInv_add(1) [OF Suc.prems this] Suc.IH Some show ?thesis by simp
  qed
qed

lemma traceDown_inv:
  "traceInv U0 st \<Longrightarrow> traceInv U0 (traceDown segmentsByRow proximity ys cur st)"
proof (induction ys arbitrary: cur st)
  case Nil
  then show ?case by simp
next
  case (Cons nextY ys)
  show ?case
  proof (cases "findClosestUnusedSegment (segAt segmentsByRow cur)
             (segmentsByRow ! nextY) nextY (snd st) proximity")
    case None
    with Cons.prems show ?thesis by simp
  next
    case (Some k)
    from findClosestUnusedSegment_unused [OF Some] have "(nextY, k) \<notin> snd st" .
    from traceInv_add(2) [OF Cons.prems this] Cons.IH Some show ?thesis by simp
  qed
qed

definition stitchInv :: "segId list list \<times> segId set \<Rightarrow> bool" where
  "stitchInv st \<longleftrightarrow> distinct (concat (fst st)) \<and> set (concat (fst st)) \<subseteq> snd st"

lemma stitchSegment_inv:
  assumes "stitchInv st"
  shows "stitchInv (stitchSegment segmentsByRow proximity y k st)"
proof -
  obtain allPaths used where st: "st = (allPaths, used)" by (cases st)
  show ?thesis
  proof (cases "(y, k) \<in> used")
    case True
    with assms st show ?thesis by (simp add: stitchSegment_def)
  next
    case False
    let ?up = "traceUp segmentsByRow proximity y (y, k) ([(y, k)], insert (y, k) used)"
    let ?down = "traceDown segmentsByRow proximity [y + 1..<length segmentsByRow] (y, k) ?up"
    have "traceInv used ([(y, k)], insert (y, k) used)"
      using False by (auto simp: traceInv_def)
    then have "traceInv used ?up" by (rule traceUp_inv)
    then have d: "traceInv used ?down" by (rule traceDown_inv)
    have r: "stitchSegment segmentsByRow proximity y k st
        = (if length (fst ?down) \<ge> 3 then allPaths @ [fst ?down] else allPaths, snd ?down)"
      using False by (simp add: stitchSegment_def st Let_def)
    from assms st have a: "distinct (concat allPaths)" "set (concat allPaths) \<subseteq> used"
      by (simp_all add: stitchInv_def)
    from d have "distinct (fst ?down)" "set (fst ?down) \<subseteq> snd ?down"
      "set (fst ?down) \<inter> used = {}" "used \<subseteq> snd ?down"
      by (simp_all add: traceInv_def)
    with a show ?thesis
      unfolding r stitchInv_def by auto
  qed
qed

lemma stitch_fold_inv:
  "stitchInv st \<Longrightarrow>
     stitchInv (fold (\<lambda>y. fold (stitchSegment segmentsByRow proximity y) (ks y)) ys st)"
proof (induction ys arbitrary: st)
  case Nil
  then show ?case by simp
next
  case (Cons y ys)
  have "stitchInv (fold (stitchSegment segmentsByRow proximity y) js st)" for js
    using Cons.prems by (induction js arbitrary: st) (simp_all add: stitchSegment_inv)
  then show ?case using Cons.IH by simp
qed

lemma stitchSegments_distinct: "distinct (concat (stitchSegments segmentsByRow proximity))"
proof -
  have "stitchInv ([], {})" by (simp add: stitchInv_def)
  from stitch_fold_inv [OF this, of segmentsByRow proximity "\<lambda>y. [0..<length (segmentsByRow ! y)]"]
  show ?thesis by (simp add: stitchSegments_def stitchInv_def)
qed

text \<open>A column of three black pixels is stitched into one path of three row runs.\<close>

lemma traceCenterlines_example:
  "traceCenterlines
     \<lparr>imgWidth = 1, imgHeight = 3, imgData = [0,0,0,255, 0,0,0,255, 0,0,0,255]\<rparr> 128 1
     = [[Point 0 0, Point 0 1, Point 0 2]]"
  by code_simp

text \<open>
  Claim C5. In Centerline mode every row run is in at most one emitted path, for every
  raster, threshold and proximity: the emitted paths, laid end to end as lists of segment
  objects, contain no segment twice (neither in two paths nor twice in one).
\<close>

theorem C5_segment_in_at_most_one_path:
  "distinct (concat (traceCenterlineSegments img threshold proximity))"
  by (simp add: traceCenterlineSegments_def stitchSegments_distinct)

section \<open>Arc conversion of a straight curve\<close>

text \<open>
  What the error check of \<^verbatim>\<open>tryConvertBezierToArc\<close> establishes when an arc is returned: the
  radial error of every sample, as the code computes it, is within the tolerance.
\<close>

lemma dle_dmax: "dle (dmax a b) t \<Longrightarrow> dle a t \<and> dle b t"
  by (cases a; cases b; cases t) (auto split: if_splits)

lemma dle_fold_dmax:
  "dle (fold (\<lambda>p m. dmax m (f p)) ps m0) t \<Longrightarrow> dle m0 t \<and> list_all (\<lambda>p. dle (f p) t) ps"
proof (induction ps arbitrary: m0)
  case Nil
  then show ?case by simp
next
  case (Cons p ps)
  from Cons.prems have "dle (fold (\<lambda>p m. dmax m (f p)) ps (dmax m0 (f p))) t" by simp
  from Cons.IH [OF this] dle_dmax [of m0 "f p" t] show ?case by simp
qed

lemma computed_errors_within_tolerance:
  assumes "tryConvertBezierToArc b tol = Some a"
  shows "list_all (\<lambda>p. dle (dabs (dsub (distanceD p (center a)) (radius a))) (Fin tol))
           (bezierSamples b)"
proof -
  from assms obtain c where fit: "fitCircleToPoints (bezierSamples b) = Some c"
    by (auto simp: tryConvertBezierToArc_def Let_def split: option.splits)
  from assms fit have le: "dle (fold (\<lambda>pt maxError.
        dmax maxError (dabs (dsub (distanceD pt (fst c)) (snd c)))) (bezierSamples b) (Fin 0))
      (Fin tol)"
    and a: "center a = fst c" "radius a = snd c"
    by (auto simp: tryConvertBezierToArc_def Let_def split: if_splits)
  from dle_fold_dmax [OF le] show ?thesis by (simp add: a)
qed

text \<open>
  A B\'ezier curve whose four control points lie on the line \<open>x + y = 7\<close>: a straight
  stroke from \<open>(7,0)\<close> to \<open>(0,7)\<close>. In exact arithmetic its samples are collinear and the
  determinant of the circle fit is 0.
\<close>

definition lineBezier :: BezierCurve where
  "lineBezier = \<lparr>bzStart = Point 7 0, control1 = Point 5 2, control2 = Point 4 3,
                  bzEnd = Point 0 7\<rparr>"

lemma upt_11: "[0..<11] = [0, 1, 2, 3, 4, 5, 6, 7, 8, 9, 10]"
  by (simp add: upt_rec)

text \<open>Every operation on doubles of the conversion of \<open>lineBezier\<close> at tolerance 1.\<close>

lemma arc_op_1: "ddiv (Fin 0) (Fin 10) = Fin 0"
  by (rule ddiv_eval, simp, simp add: rnd_0)

lemma arc_op_2: "ddiv (Fin 1) (Fin 10) = Fin (3602879701896397 / 36028797018963968)"
  by (rule ddiv_eval, simp, rule rnd_frac [where n = 56 and m = "7205759403792794"], simp_all)

lemma arc_op_3: "ddiv (Fin 2) (Fin 10) = Fin (3602879701896397 / 18014398509481984)"
  by (rule ddiv_eval, simp, rule rnd_frac [where n = 55 and m = "7205759403792794"], simp_all)

lemma arc_op_4: "ddiv (Fin 3) (Fin 10) = Fin (5404319552844595 / 18014398509481984)"
  by (rule ddiv_eval, simp, rule rnd_frac [where n = 54 and m = "5404319552844595"], simp_all)

lemma arc_op_5: "ddiv (Fin 4) (Fin 10) = Fin (3602879701896397 / 9007199254740992)"
  by (rule ddiv_eval, simp, rule rnd_frac [where n = 54 and m = "7205759403792794"], simp_all)

lemma arc_op_6: "ddiv (Fin 5) (Fin 10) = Fin (1 / 2)"
  by (rule ddiv_eval, simp, rule rnd_frac [where n = 53 and m = "4503599627370496"], simp_all)

lemma arc_op_7: "ddiv (Fin 6) (Fin 10) = Fin (5404319552844595 / 9007199254740992)"
  by (rule ddiv_eval, simp, rule rnd_frac [where n = 53 and m = "5404319552844595"], simp_all)

lemma arc_op_8: "ddiv (Fin 7) (Fin 10) = Fin (3152519739159347 / 4503599627370496)"
  by (rule ddiv_eval, simp, rule rnd_frac [where n = 53 and m = "6305039478318694"], simp_all)

lemma arc_op_9: "ddiv (Fin 8) (Fin 10) = Fin (3602879701896397 / 4503599627370496)"
  by (rule ddiv_eval, simp, rule rnd_frac [where n = 53 and m = "7205759403792794"], simp_all)

lemma arc_op_10: "ddiv (Fin 9) (Fin 10) = Fin (8106479329266893 / 9007199254740992)"
  by (rule ddiv_eval, simp, rule rnd_frac [where n = 53 and m = "8106479329266893"], simp_all)

lemma arc_op_11: "ddiv (Fin 10) (Fin 10) = Fin 1"
  by (rule ddiv_eval, simp, rule rnd_frac [where n = 52 and m = "4503599627370496"], simp_all)

lemma arc_op_12: "dsub (Fin 1) (Fin 0) = Fin 1"
  by (rule dsub_eval, rule rnd_frac [where n = 52 and m = "4503599627370496"], simp_all)

lemma arc_op_13: "dmul (Fin 0) (Fin 0) = Fin 0"
  by (rule dmul_eval, simp add: rnd_0)

lemma arc_op_14: "dmul (Fin 1) (Fin 1) = Fin 1"
  by (rule dmul_eval, rule rnd_frac [where n = 52 and m = "4503599627370496"], simp_all)

lemma arc_op_15: "dmul (Fin 1) (Fin 7) = Fin 7"
  by (rule dmul_eval, rule rnd_frac [where n = 50 and m = "7881299347898368"], simp_all)

lemma arc_op_16: "dmul (Fin 3) (Fin 1) = Fin 3"
  by (rule dmul_eval, rule rnd_frac [where n = 51 and m = "6755399441055744"], simp_all)

lemma arc_op_17: "dmul (Fin 3) (Fin 0) = Fin 0"
  by (rule dmul_eval, simp add: rnd_0)

lemma arc_op_18: "dmul (Fin 0) (Fin 5) = Fin 0"
  by (rule dmul_eval, simp add: rnd_0)

lemma arc_op_19: "dadd (Fin 7) (Fin 0) = Fin 7"
  by (rule dadd_eval, rule rnd_frac [where n = 50 and m = "7881299347898368"], simp_all)

lemma arc_op_20: "dmul (Fin 0) (Fin 4) = Fin 0"
  by (rule dmul_eval, simp add: rnd_0)

lemma arc_op_21: "dmul (Fin 1) (Fin 0) = Fin 0"
  by (rule dmul_eval, simp add: rnd_0)

lemma arc_op_22: "dmul (Fin 0) (Fin 2) = Fin 0"
  by (rule dmul_eval, simp add: rnd_0)

lemma arc_op_23: "dadd (Fin 0) (Fin 0) = Fin 0"
  by (rule dadd_eval, simp add: rnd_0)

lemma arc_op_24: "dmul (Fin 0) (Fin 3) = Fin 0"
  by (rule dmul_eval, simp add: rnd_0)

lemma arc_op_25: "dmul (Fin 0) (Fin 7) = Fin 0"
  by (rule dmul_eval, simp add: rnd_0)

lemma arc_op_26: "dsub (Fin 1) (Fin (3602879701896397 / 36028797018963968)) = Fin (8106479329266893 / 9007199254740992)"
  by (rule dsub_eval, rule rnd_frac [where n = 53 and m = "8106479329266893"], simp_all)

lemma arc_op_27: "dmul (Fin (3602879701896397 / 36028797018963968)) (Fin (3602879701896397 / 36028797018963968)) = Fin (1441151880758559 / 144115188075855872)"
  by (rule dmul_eval, rule rnd_frac [where n = 59 and m = "5764607523034236"], simp_all)

lemma arc_op_28: "dmul (Fin (8106479329266893 / 9007199254740992)) (Fin (8106479329266893 / 9007199254740992)) = Fin (1823957849085051 / 2251799813685248)"
  by (rule dmul_eval, rule rnd_frac [where n = 53 and m = "7295831396340204"], simp_all)

lemma arc_op_29: "dmul (Fin (1823957849085051 / 2251799813685248)) (Fin (8106479329266893 / 9007199254740992)) = Fin (820781032088273 / 1125899906842624)"
  by (rule dmul_eval, rule rnd_frac [where n = 53 and m = "6566248256706184"], simp_all)

lemma arc_op_30: "dmul (Fin (1441151880758559 / 144115188075855872)) (Fin (3602879701896397 / 36028797018963968)) = Fin (4611686018427389 / 4611686018427387904)"
  by (rule dmul_eval, rule rnd_frac [where n = 62 and m = "4611686018427389"], simp_all)

lemma arc_op_31: "dmul (Fin (820781032088273 / 1125899906842624)) (Fin 7) = Fin (5745467224617911 / 1125899906842624)"
  by (rule dmul_eval, rule rnd_frac [where n = 50 and m = "5745467224617911"], simp_all)

lemma arc_op_32: "dmul (Fin 3) (Fin (1823957849085051 / 2251799813685248)) = Fin (5471873547255153 / 2251799813685248)"
  by (rule dmul_eval, rule rnd_frac [where n = 51 and m = "5471873547255153"], simp_all)

lemma arc_op_33: "dmul (Fin (5471873547255153 / 2251799813685248)) (Fin (3602879701896397 / 36028797018963968)) = Fin (8754997675608245 / 36028797018963968)"
  by (rule dmul_eval, rule rnd_frac [where n = 55 and m = "8754997675608245"], simp_all)

lemma arc_op_34: "dmul (Fin (8754997675608245 / 36028797018963968)) (Fin 5) = Fin (5471873547255153 / 4503599627370496)"
  by (rule dmul_eval, rule rnd_frac [where n = 52 and m = "5471873547255153"], simp_all)

lemma arc_op_35: "dadd (Fin (5745467224617911 / 1125899906842624)) (Fin (5471873547255153 / 4503599627370496)) = Fin (7113435611431699 / 1125899906842624)"
  by (rule dadd_eval, rule rnd_frac [where n = 50 and m = "7113435611431699"], simp_all)

lemma arc_op_36: "dmul (Fin 3) (Fin (8106479329266893 / 9007199254740992)) = Fin (3039929748475085 / 1125899906842624)"
  by (rule dmul_eval, rule rnd_frac [where n = 51 and m = "6079859496950170"], simp_all)

lemma arc_op_37: "dmul (Fin (3039929748475085 / 1125899906842624)) (Fin (1441151880758559 / 144115188075855872)) = Fin (7782220156096219 / 288230376151711744)"
  by (rule dmul_eval, rule rnd_frac [where n = 58 and m = "7782220156096219"], simp_all)

lemma arc_op_38: "dmul (Fin (7782220156096219 / 288230376151711744)) (Fin 4) = Fin (7782220156096219 / 72057594037927936)"
  by (rule dmul_eval, rule rnd_frac [where n = 56 and m = "7782220156096219"], simp_all)

lemma arc_op_39: "dadd (Fin (7113435611431699 / 1125899906842624)) (Fin (7782220156096219 / 72057594037927936)) = Fin (3617516400685351 / 562949953421312)"
  by (rule dadd_eval, rule rnd_frac [where n = 50 and m = "7235032801370702"], simp_all)

lemma arc_op_40: "dmul (Fin (4611686018427389 / 4611686018427387904)) (Fin 0) = Fin 0"
  by (rule dmul_eval, simp add: rnd_0)

lemma arc_op_41: "dadd (Fin (3617516400685351 / 562949953421312)) (Fin 0) = Fin (3617516400685351 / 562949953421312)"
  by (rule dadd_eval, rule rnd_frac [where n = 50 and m = "7235032801370702"], simp_all)

lemma arc_op_42: "dmul (Fin (820781032088273 / 1125899906842624)) (Fin 0) = Fin 0"
  by (rule dmul_eval, simp add: rnd_0)

lemma arc_op_43: "dmul (Fin (8754997675608245 / 36028797018963968)) (Fin 2) = Fin (8754997675608245 / 18014398509481984)"
  by (rule dmul_eval, rule rnd_frac [where n = 54 and m = "8754997675608245"], simp_all)

lemma arc_op_44: "dadd (Fin 0) (Fin (8754997675608245 / 18014398509481984)) = Fin (8754997675608245 / 18014398509481984)"
  by (rule dadd_eval, rule rnd_frac [where n = 54 and m = "8754997675608245"], simp_all)

lemma arc_op_45: "dmul (Fin (7782220156096219 / 288230376151711744)) (Fin 3) = Fin (1459166279268041 / 18014398509481984)"
  by (rule dmul_eval, rule rnd_frac [where n = 56 and m = "5836665117072164"], simp_all)

lemma arc_op_46: "dadd (Fin (8754997675608245 / 18014398509481984)) (Fin (1459166279268041 / 18014398509481984)) = Fin (5107081977438143 / 9007199254740992)"
  by (rule dadd_eval, rule rnd_frac [where n = 53 and m = "5107081977438143"], simp_all)

lemma arc_op_47: "dmul (Fin (4611686018427389 / 4611686018427387904)) (Fin 7) = Fin (8070450532247931 / 1152921504606846976)"
  by (rule dmul_eval, rule rnd_frac [where n = 60 and m = "8070450532247931"], simp_all)

lemma arc_op_48: "dadd (Fin (5107081977438143 / 9007199254740992)) (Fin (8070450532247931 / 1152921504606846976)) = Fin (2585066186110665 / 4503599627370496)"
  by (rule dadd_eval, rule rnd_frac [where n = 53 and m = "5170132372221330"], simp_all)

lemma arc_op_49: "dsub (Fin 1) (Fin (3602879701896397 / 18014398509481984)) = Fin (3602879701896397 / 4503599627370496)"
  by (rule dsub_eval, rule rnd_frac [where n = 53 and m = "7205759403792794"], simp_all)

lemma arc_op_50: "dmul (Fin (3602879701896397 / 18014398509481984)) (Fin (3602879701896397 / 18014398509481984)) = Fin (1441151880758559 / 36028797018963968)"
  by (rule dmul_eval, rule rnd_frac [where n = 57 and m = "5764607523034236"], simp_all)

lemma arc_op_51: "dmul (Fin (3602879701896397 / 4503599627370496)) (Fin (3602879701896397 / 4503599627370496)) = Fin (1441151880758559 / 2251799813685248)"
  by (rule dmul_eval, rule rnd_frac [where n = 53 and m = "5764607523034236"], simp_all)

lemma arc_op_52: "dmul (Fin (1441151880758559 / 2251799813685248)) (Fin (3602879701896397 / 4503599627370496)) = Fin (4611686018427389 / 9007199254740992)"
  by (rule dmul_eval, rule rnd_frac [where n = 53 and m = "4611686018427389"], simp_all)

lemma arc_op_53: "dmul (Fin (1441151880758559 / 36028797018963968)) (Fin (3602879701896397 / 18014398509481984)) = Fin (4611686018427389 / 576460752303423488)"
  by (rule dmul_eval, rule rnd_frac [where n = 59 and m = "4611686018427389"], simp_all)

lemma arc_op_54: "dmul (Fin (4611686018427389 / 9007199254740992)) (Fin 7) = Fin (8070450532247931 / 2251799813685248)"
  by (rule dmul_eval, rule rnd_frac [where n = 51 and m = "8070450532247931"], simp_all)

lemma arc_op_55: "dmul (Fin 3) (Fin (1441151880758559 / 2251799813685248)) = Fin (4323455642275677 / 2251799813685248)"
  by (rule dmul_eval, rule rnd_frac [where n = 52 and m = "8646911284551354"], simp_all)

lemma arc_op_56: "dmul (Fin (4323455642275677 / 2251799813685248)) (Fin (3602879701896397 / 18014398509481984)) = Fin (1729382256910271 / 4503599627370496)"
  by (rule dmul_eval, rule rnd_frac [where n = 54 and m = "6917529027641084"], simp_all)

lemma arc_op_57: "dmul (Fin (1729382256910271 / 4503599627370496)) (Fin 5) = Fin (8646911284551355 / 4503599627370496)"
  by (rule dmul_eval, rule rnd_frac [where n = 52 and m = "8646911284551355"], simp_all)

lemma arc_op_58: "dadd (Fin (8070450532247931 / 2251799813685248)) (Fin (8646911284551355 / 4503599627370496)) = Fin (1549238271815451 / 281474976710656)"
  by (rule dadd_eval, rule rnd_frac [where n = 50 and m = "6196953087261804"], simp_all)

lemma arc_op_59: "dmul (Fin 3) (Fin (3602879701896397 / 4503599627370496)) = Fin (1351079888211149 / 562949953421312)"
  by (rule dmul_eval, rule rnd_frac [where n = 51 and m = "5404319552844596"], simp_all)

lemma arc_op_60: "dmul (Fin (1351079888211149 / 562949953421312)) (Fin (1441151880758559 / 36028797018963968)) = Fin (1729382256910271 / 18014398509481984)"
  by (rule dmul_eval, rule rnd_frac [where n = 56 and m = "6917529027641084"], simp_all)

lemma arc_op_61: "dmul (Fin (1729382256910271 / 18014398509481984)) (Fin 4) = Fin (1729382256910271 / 4503599627370496)"
  by (rule dmul_eval, rule rnd_frac [where n = 54 and m = "6917529027641084"], simp_all)

lemma arc_op_62: "dadd (Fin (1549238271815451 / 281474976710656)) (Fin (1729382256910271 / 4503599627370496)) = Fin (1657324662872343 / 281474976710656)"
  by (rule dadd_eval, rule rnd_frac [where n = 50 and m = "6629298651489372"], simp_all)

lemma arc_op_63: "dmul (Fin (4611686018427389 / 576460752303423488)) (Fin 0) = Fin 0"
  by (rule dmul_eval, simp add: rnd_0)

lemma arc_op_64: "dadd (Fin (1657324662872343 / 281474976710656)) (Fin 0) = Fin (1657324662872343 / 281474976710656)"
  by (rule dadd_eval, rule rnd_frac [where n = 50 and m = "6629298651489372"], simp_all)

lemma arc_op_65: "dmul (Fin (4611686018427389 / 9007199254740992)) (Fin 0) = Fin 0"
  by (rule dmul_eval, simp add: rnd_0)

lemma arc_op_66: "dmul (Fin (1729382256910271 / 4503599627370496)) (Fin 2) = Fin (1729382256910271 / 2251799813685248)"
  by (rule dmul_eval, rule rnd_frac [where n = 53 and m = "6917529027641084"], simp_all)

lemma arc_op_67: "dadd (Fin 0) (Fin (1729382256910271 / 2251799813685248)) = Fin (1729382256910271 / 2251799813685248)"
  by (rule dadd_eval, rule rnd_frac [where n = 53 and m = "6917529027641084"], simp_all)

lemma arc_op_68: "dmul (Fin (1729382256910271 / 18014398509481984)) (Fin 3) = Fin (5188146770730813 / 18014398509481984)"
  by (rule dmul_eval, rule rnd_frac [where n = 54 and m = "5188146770730813"], simp_all)

lemma arc_op_69: "dadd (Fin (1729382256910271 / 2251799813685248)) (Fin (5188146770730813 / 18014398509481984)) = Fin (4755801206503245 / 4503599627370496)"
  by (rule dadd_eval, rule rnd_frac [where n = 52 and m = "4755801206503245"], simp_all)

lemma arc_op_70: "dmul (Fin (4611686018427389 / 576460752303423488)) (Fin 7) = Fin (8070450532247931 / 144115188075855872)"
  by (rule dmul_eval, rule rnd_frac [where n = 57 and m = "8070450532247931"], simp_all)

lemma arc_op_71: "dadd (Fin (4755801206503245 / 4503599627370496)) (Fin (8070450532247931 / 144115188075855872)) = Fin (5008002785635993 / 4503599627370496)"
  by (rule dadd_eval, rule rnd_frac [where n = 52 and m = "5008002785635993"], simp_all)

lemma arc_op_72: "dsub (Fin 1) (Fin (5404319552844595 / 18014398509481984)) = Fin (3152519739159347 / 4503599627370496)"
  by (rule dsub_eval, rule rnd_frac [where n = 53 and m = "6305039478318694"], simp_all)

lemma arc_op_73: "dmul (Fin (5404319552844595 / 18014398509481984)) (Fin (5404319552844595 / 18014398509481984)) = Fin (3242591731706757 / 36028797018963968)"
  by (rule dmul_eval, rule rnd_frac [where n = 56 and m = "6485183463413514"], simp_all)

lemma arc_op_74: "dmul (Fin (3152519739159347 / 4503599627370496)) (Fin (3152519739159347 / 4503599627370496)) = Fin (8827055269646171 / 18014398509481984)"
  by (rule dmul_eval, rule rnd_frac [where n = 54 and m = "8827055269646171"], simp_all)

lemma arc_op_75: "dmul (Fin (8827055269646171 / 18014398509481984)) (Fin (3152519739159347 / 4503599627370496)) = Fin (6178938688752319 / 18014398509481984)"
  by (rule dmul_eval, rule rnd_frac [where n = 54 and m = "6178938688752319"], simp_all)

lemma arc_op_76: "dmul (Fin (3242591731706757 / 36028797018963968)) (Fin (5404319552844595 / 18014398509481984)) = Fin (7782220156096217 / 288230376151711744)"
  by (rule dmul_eval, rule rnd_frac [where n = 58 and m = "7782220156096217"], simp_all)

lemma arc_op_77: "dmul (Fin (6178938688752319 / 18014398509481984)) (Fin 7) = Fin (5406571352658279 / 2251799813685248)"
  by (rule dmul_eval, rule rnd_frac [where n = 51 and m = "5406571352658279"], simp_all)

lemma arc_op_78: "dmul (Fin 3) (Fin (8827055269646171 / 18014398509481984)) = Fin (1655072863058657 / 1125899906842624)"
  by (rule dmul_eval, rule rnd_frac [where n = 52 and m = "6620291452234628"], simp_all)

lemma arc_op_79: "dmul (Fin (1655072863058657 / 1125899906842624)) (Fin (5404319552844595 / 18014398509481984)) = Fin (7944349742681553 / 18014398509481984)"
  by (rule dmul_eval, rule rnd_frac [where n = 54 and m = "7944349742681553"], simp_all)

lemma arc_op_80: "dmul (Fin (7944349742681553 / 18014398509481984)) (Fin 5) = Fin (4965218589175971 / 2251799813685248)"
  by (rule dmul_eval, rule rnd_frac [where n = 51 and m = "4965218589175971"], simp_all)

lemma arc_op_81: "dadd (Fin (5406571352658279 / 2251799813685248)) (Fin (4965218589175971 / 2251799813685248)) = Fin (5185894970917125 / 1125899906842624)"
  by (rule dadd_eval, rule rnd_frac [where n = 50 and m = "5185894970917125"], simp_all)

lemma arc_op_82: "dmul (Fin 3) (Fin (3152519739159347 / 4503599627370496)) = Fin (1182194902184755 / 562949953421312)"
  by (rule dmul_eval, rule rnd_frac [where n = 51 and m = "4728779608739020"], simp_all)

lemma arc_op_83: "dmul (Fin (1182194902184755 / 562949953421312)) (Fin (3242591731706757 / 36028797018963968)) = Fin (6809442636584189 / 36028797018963968)"
  by (rule dmul_eval, rule rnd_frac [where n = 55 and m = "6809442636584189"], simp_all)

lemma arc_op_84: "dmul (Fin (6809442636584189 / 36028797018963968)) (Fin 4) = Fin (6809442636584189 / 9007199254740992)"
  by (rule dmul_eval, rule rnd_frac [where n = 53 and m = "6809442636584189"], simp_all)

lemma arc_op_85: "dadd (Fin (5185894970917125 / 1125899906842624)) (Fin (6809442636584189 / 9007199254740992)) = Fin (6037075300490149 / 1125899906842624)"
  by (rule dadd_eval, rule rnd_frac [where n = 50 and m = "6037075300490149"], simp_all)

lemma arc_op_86: "dmul (Fin (7782220156096217 / 288230376151711744)) (Fin 0) = Fin 0"
  by (rule dmul_eval, simp add: rnd_0)

lemma arc_op_87: "dadd (Fin (6037075300490149 / 1125899906842624)) (Fin 0) = Fin (6037075300490149 / 1125899906842624)"
  by (rule dadd_eval, rule rnd_frac [where n = 50 and m = "6037075300490149"], simp_all)

lemma arc_op_88: "dmul (Fin (6178938688752319 / 18014398509481984)) (Fin 0) = Fin 0"
  by (rule dmul_eval, simp add: rnd_0)

lemma arc_op_89: "dmul (Fin (7944349742681553 / 18014398509481984)) (Fin 2) = Fin (7944349742681553 / 9007199254740992)"
  by (rule dmul_eval, rule rnd_frac [where n = 53 and m = "7944349742681553"], simp_all)

lemma arc_op_90: "dadd (Fin 0) (Fin (7944349742681553 / 9007199254740992)) = Fin (7944349742681553 / 9007199254740992)"
  by (rule dadd_eval, rule rnd_frac [where n = 53 and m = "7944349742681553"], simp_all)

lemma arc_op_91: "dmul (Fin (6809442636584189 / 36028797018963968)) (Fin 3) = Fin (2553540988719071 / 4503599627370496)"
  by (rule dmul_eval, rule rnd_frac [where n = 53 and m = "5107081977438142"], simp_all)

lemma arc_op_92: "dadd (Fin (7944349742681553 / 9007199254740992)) (Fin (2553540988719071 / 4503599627370496)) = Fin (815714482507481 / 562949953421312)"
  by (rule dadd_eval, rule rnd_frac [where n = 52 and m = "6525715860059848"], simp_all)

lemma arc_op_93: "dmul (Fin (7782220156096217 / 288230376151711744)) (Fin 7) = Fin (3404721318292095 / 18014398509481984)"
  by (rule dmul_eval, rule rnd_frac [where n = 55 and m = "6809442636584190"], simp_all)

lemma arc_op_94: "dadd (Fin (815714482507481 / 562949953421312)) (Fin (3404721318292095 / 18014398509481984)) = Fin (922112023704109 / 562949953421312)"
  by (rule dadd_eval, rule rnd_frac [where n = 52 and m = "7376896189632872"], simp_all)

lemma arc_op_95: "dsub (Fin 1) (Fin (3602879701896397 / 9007199254740992)) = Fin (5404319552844595 / 9007199254740992)"
  by (rule dsub_eval, rule rnd_frac [where n = 53 and m = "5404319552844595"], simp_all)

lemma arc_op_96: "dmul (Fin (3602879701896397 / 9007199254740992)) (Fin (3602879701896397 / 9007199254740992)) = Fin (1441151880758559 / 9007199254740992)"
  by (rule dmul_eval, rule rnd_frac [where n = 55 and m = "5764607523034236"], simp_all)

lemma arc_op_97: "dmul (Fin (5404319552844595 / 9007199254740992)) (Fin (5404319552844595 / 9007199254740992)) = Fin (3242591731706757 / 9007199254740992)"
  by (rule dmul_eval, rule rnd_frac [where n = 54 and m = "6485183463413514"], simp_all)

lemma arc_op_98: "dmul (Fin (3242591731706757 / 9007199254740992)) (Fin (5404319552844595 / 9007199254740992)) = Fin (7782220156096217 / 36028797018963968)"
  by (rule dmul_eval, rule rnd_frac [where n = 55 and m = "7782220156096217"], simp_all)

lemma arc_op_99: "dmul (Fin (1441151880758559 / 9007199254740992)) (Fin (3602879701896397 / 9007199254740992)) = Fin (4611686018427389 / 72057594037927936)"
  by (rule dmul_eval, rule rnd_frac [where n = 56 and m = "4611686018427389"], simp_all)

lemma arc_op_100: "dmul (Fin (7782220156096217 / 36028797018963968)) (Fin 7) = Fin (3404721318292095 / 2251799813685248)"
  by (rule dmul_eval, rule rnd_frac [where n = 52 and m = "6809442636584190"], simp_all)

lemma arc_op_101: "dmul (Fin 3) (Fin (3242591731706757 / 9007199254740992)) = Fin (607985949695017 / 562949953421312)"
  by (rule dmul_eval, rule rnd_frac [where n = 52 and m = "4863887597560136"], simp_all)

lemma arc_op_102: "dmul (Fin (607985949695017 / 562949953421312)) (Fin (3602879701896397 / 9007199254740992)) = Fin (3891110078048109 / 9007199254740992)"
  by (rule dmul_eval, rule rnd_frac [where n = 54 and m = "7782220156096218"], simp_all)

lemma arc_op_103: "dmul (Fin (3891110078048109 / 9007199254740992)) (Fin 5) = Fin (607985949695017 / 281474976710656)"
  by (rule dmul_eval, rule rnd_frac [where n = 51 and m = "4863887597560136"], simp_all)

lemma arc_op_104: "dadd (Fin (3404721318292095 / 2251799813685248)) (Fin (607985949695017 / 281474976710656)) = Fin (8268608915852231 / 2251799813685248)"
  by (rule dadd_eval, rule rnd_frac [where n = 51 and m = "8268608915852231"], simp_all)

lemma arc_op_105: "dmul (Fin 3) (Fin (5404319552844595 / 9007199254740992)) = Fin (2026619832316723 / 1125899906842624)"
  by (rule dmul_eval, rule rnd_frac [where n = 52 and m = "8106479329266892"], simp_all)

lemma arc_op_106: "dmul (Fin (2026619832316723 / 1125899906842624)) (Fin (1441151880758559 / 9007199254740992)) = Fin (1297036692682703 / 4503599627370496)"
  by (rule dmul_eval, rule rnd_frac [where n = 54 and m = "5188146770730812"], simp_all)

lemma arc_op_107: "dmul (Fin (1297036692682703 / 4503599627370496)) (Fin 4) = Fin (1297036692682703 / 1125899906842624)"
  by (rule dmul_eval, rule rnd_frac [where n = 52 and m = "5188146770730812"], simp_all)

lemma arc_op_108: "dadd (Fin (8268608915852231 / 2251799813685248)) (Fin (1297036692682703 / 1125899906842624)) = Fin (2715670575304409 / 562949953421312)"
  by (rule dadd_eval, rule rnd_frac [where n = 50 and m = "5431341150608818"], simp_all)

lemma arc_op_109: "dmul (Fin (4611686018427389 / 72057594037927936)) (Fin 0) = Fin 0"
  by (rule dmul_eval, simp add: rnd_0)

lemma arc_op_110: "dadd (Fin (2715670575304409 / 562949953421312)) (Fin 0) = Fin (2715670575304409 / 562949953421312)"
  by (rule dadd_eval, rule rnd_frac [where n = 50 and m = "5431341150608818"], simp_all)

lemma arc_op_111: "dmul (Fin (7782220156096217 / 36028797018963968)) (Fin 0) = Fin 0"
  by (rule dmul_eval, simp add: rnd_0)

lemma arc_op_112: "dmul (Fin (3891110078048109 / 9007199254740992)) (Fin 2) = Fin (3891110078048109 / 4503599627370496)"
  by (rule dmul_eval, rule rnd_frac [where n = 53 and m = "7782220156096218"], simp_all)

lemma arc_op_113: "dadd (Fin 0) (Fin (3891110078048109 / 4503599627370496)) = Fin (3891110078048109 / 4503599627370496)"
  by (rule dadd_eval, rule rnd_frac [where n = 53 and m = "7782220156096218"], simp_all)

lemma arc_op_114: "dmul (Fin (1297036692682703 / 4503599627370496)) (Fin 3) = Fin (3891110078048109 / 4503599627370496)"
  by (rule dmul_eval, rule rnd_frac [where n = 53 and m = "7782220156096218"], simp_all)

lemma arc_op_115: "dadd (Fin (3891110078048109 / 4503599627370496)) (Fin (3891110078048109 / 4503599627370496)) = Fin (3891110078048109 / 2251799813685248)"
  by (rule dadd_eval, rule rnd_frac [where n = 52 and m = "7782220156096218"], simp_all)

lemma arc_op_116: "dmul (Fin (4611686018427389 / 72057594037927936)) (Fin 7) = Fin (8070450532247931 / 18014398509481984)"
  by (rule dmul_eval, rule rnd_frac [where n = 54 and m = "8070450532247931"], simp_all)

lemma arc_op_117: "dadd (Fin (3891110078048109 / 2251799813685248)) (Fin (8070450532247931 / 18014398509481984)) = Fin (1224979098644775 / 562949953421312)"
  by (rule dadd_eval, rule rnd_frac [where n = 51 and m = "4899916394579100"], simp_all)

lemma arc_op_118: "dsub (Fin 1) (Fin (1 / 2)) = Fin (1 / 2)"
  by (rule dsub_eval, rule rnd_frac [where n = 53 and m = "4503599627370496"], simp_all)

lemma arc_op_119: "dmul (Fin (1 / 2)) (Fin (1 / 2)) = Fin (1 / 4)"
  by (rule dmul_eval, rule rnd_frac [where n = 54 and m = "4503599627370496"], simp_all)

lemma arc_op_120: "dmul (Fin (1 / 4)) (Fin (1 / 2)) = Fin (1 / 8)"
  by (rule dmul_eval, rule rnd_frac [where n = 55 and m = "4503599627370496"], simp_all)

lemma arc_op_121: "dmul (Fin (1 / 8)) (Fin 7) = Fin (7 / 8)"
  by (rule dmul_eval, rule rnd_frac [where n = 53 and m = "7881299347898368"], simp_all)

lemma arc_op_122: "dmul (Fin 3) (Fin (1 / 4)) = Fin (3 / 4)"
  by (rule dmul_eval, rule rnd_frac [where n = 53 and m = "6755399441055744"], simp_all)

lemma arc_op_123: "dmul (Fin (3 / 4)) (Fin (1 / 2)) = Fin (3 / 8)"
  by (rule dmul_eval, rule rnd_frac [where n = 54 and m = "6755399441055744"], simp_all)

lemma arc_op_124: "dmul (Fin (3 / 8)) (Fin 5) = Fin (15 / 8)"
  by (rule dmul_eval, rule rnd_frac [where n = 52 and m = "8444249301319680"], simp_all)

lemma arc_op_125: "dadd (Fin (7 / 8)) (Fin (15 / 8)) = Fin (11 / 4)"
  by (rule dadd_eval, rule rnd_frac [where n = 51 and m = "6192449487634432"], simp_all)

lemma arc_op_126: "dmul (Fin 3) (Fin (1 / 2)) = Fin (3 / 2)"
  by (rule dmul_eval, rule rnd_frac [where n = 52 and m = "6755399441055744"], simp_all)

lemma arc_op_127: "dmul (Fin (3 / 2)) (Fin (1 / 4)) = Fin (3 / 8)"
  by (rule dmul_eval, rule rnd_frac [where n = 54 and m = "6755399441055744"], simp_all)

lemma arc_op_128: "dmul (Fin (3 / 8)) (Fin 4) = Fin (3 / 2)"
  by (rule dmul_eval, rule rnd_frac [where n = 52 and m = "6755399441055744"], simp_all)

lemma arc_op_129: "dadd (Fin (11 / 4)) (Fin (3 / 2)) = Fin (17 / 4)"
  by (rule dadd_eval, rule rnd_frac [where n = 50 and m = "4785074604081152"], simp_all)

lemma arc_op_130: "dmul (Fin (1 / 8)) (Fin 0) = Fin 0"
  by (rule dmul_eval, simp add: rnd_0)

lemma arc_op_131: "dadd (Fin (17 / 4)) (Fin 0) = Fin (17 / 4)"
  by (rule dadd_eval, rule rnd_frac [where n = 50 and m = "4785074604081152"], simp_all)

lemma arc_op_132: "dmul (Fin (3 / 8)) (Fin 2) = Fin (3 / 4)"
  by (rule dmul_eval, rule rnd_frac [where n = 53 and m = "6755399441055744"], simp_all)

lemma arc_op_133: "dadd (Fin 0) (Fin (3 / 4)) = Fin (3 / 4)"
  by (rule dadd_eval, rule rnd_frac [where n = 53 and m = "6755399441055744"], simp_all)

lemma arc_op_134: "dmul (Fin (3 / 8)) (Fin 3) = Fin (9 / 8)"
  by (rule dmul_eval, rule rnd_frac [where n = 52 and m = "5066549580791808"], simp_all)

lemma arc_op_135: "dadd (Fin (3 / 4)) (Fin (9 / 8)) = Fin (15 / 8)"
  by (rule dadd_eval, rule rnd_frac [where n = 52 and m = "8444249301319680"], simp_all)

lemma arc_op_136: "dadd (Fin (15 / 8)) (Fin (7 / 8)) = Fin (11 / 4)"
  by (rule dadd_eval, rule rnd_frac [where n = 51 and m = "6192449487634432"], simp_all)

lemma arc_op_137: "dsub (Fin 1) (Fin (5404319552844595 / 9007199254740992)) = Fin (3602879701896397 / 9007199254740992)"
  by (rule dsub_eval, rule rnd_frac [where n = 54 and m = "7205759403792794"], simp_all)

lemma arc_op_138: "dmul (Fin 3) (Fin (1441151880758559 / 9007199254740992)) = Fin (4323455642275677 / 9007199254740992)"
  by (rule dmul_eval, rule rnd_frac [where n = 54 and m = "8646911284551354"], simp_all)

lemma arc_op_139: "dmul (Fin (4323455642275677 / 9007199254740992)) (Fin (5404319552844595 / 9007199254740992)) = Fin (1297036692682703 / 4503599627370496)"
  by (rule dmul_eval, rule rnd_frac [where n = 54 and m = "5188146770730812"], simp_all)

lemma arc_op_140: "dmul (Fin (1297036692682703 / 4503599627370496)) (Fin 5) = Fin (6485183463413515 / 4503599627370496)"
  by (rule dmul_eval, rule rnd_frac [where n = 52 and m = "6485183463413515"], simp_all)

lemma arc_op_141: "dadd (Fin (8070450532247931 / 18014398509481984)) (Fin (6485183463413515 / 4503599627370496)) = Fin (4251398048237749 / 2251799813685248)"
  by (rule dadd_eval, rule rnd_frac [where n = 52 and m = "8502796096475498"], simp_all)

lemma arc_op_142: "dmul (Fin 3) (Fin (3602879701896397 / 9007199254740992)) = Fin (1351079888211149 / 1125899906842624)"
  by (rule dmul_eval, rule rnd_frac [where n = 52 and m = "5404319552844596"], simp_all)

lemma arc_op_143: "dmul (Fin (1351079888211149 / 1125899906842624)) (Fin (3242591731706757 / 9007199254740992)) = Fin (3891110078048109 / 9007199254740992)"
  by (rule dmul_eval, rule rnd_frac [where n = 54 and m = "7782220156096218"], simp_all)

lemma arc_op_144: "dmul (Fin (3891110078048109 / 9007199254740992)) (Fin 4) = Fin (3891110078048109 / 2251799813685248)"
  by (rule dmul_eval, rule rnd_frac [where n = 52 and m = "7782220156096218"], simp_all)

lemma arc_op_145: "dadd (Fin (4251398048237749 / 2251799813685248)) (Fin (3891110078048109 / 2251799813685248)) = Fin (4071254063142929 / 1125899906842624)"
  by (rule dadd_eval, rule rnd_frac [where n = 51 and m = "8142508126285858"], simp_all)

lemma arc_op_146: "dadd (Fin (4071254063142929 / 1125899906842624)) (Fin 0) = Fin (4071254063142929 / 1125899906842624)"
  by (rule dadd_eval, rule rnd_frac [where n = 51 and m = "8142508126285858"], simp_all)

lemma arc_op_147: "dmul (Fin (1297036692682703 / 4503599627370496)) (Fin 2) = Fin (1297036692682703 / 2251799813685248)"
  by (rule dmul_eval, rule rnd_frac [where n = 53 and m = "5188146770730812"], simp_all)

lemma arc_op_148: "dadd (Fin 0) (Fin (1297036692682703 / 2251799813685248)) = Fin (1297036692682703 / 2251799813685248)"
  by (rule dadd_eval, rule rnd_frac [where n = 53 and m = "5188146770730812"], simp_all)

lemma arc_op_149: "dmul (Fin (3891110078048109 / 9007199254740992)) (Fin 3) = Fin (1459166279268041 / 1125899906842624)"
  by (rule dmul_eval, rule rnd_frac [where n = 52 and m = "5836665117072164"], simp_all)

lemma arc_op_150: "dadd (Fin (1297036692682703 / 2251799813685248)) (Fin (1459166279268041 / 1125899906842624)) = Fin (4215369251218785 / 2251799813685248)"
  by (rule dadd_eval, rule rnd_frac [where n = 52 and m = "8430738502437570"], simp_all)

lemma arc_op_151: "dadd (Fin (4215369251218785 / 2251799813685248)) (Fin (3404721318292095 / 2251799813685248)) = Fin (238127830297215 / 70368744177664)"
  by (rule dadd_eval, rule rnd_frac [where n = 51 and m = "7620090569510880"], simp_all)

lemma arc_op_152: "dsub (Fin 1) (Fin (3152519739159347 / 4503599627370496)) = Fin (1351079888211149 / 4503599627370496)"
  by (rule dsub_eval, rule rnd_frac [where n = 54 and m = "5404319552844596"], simp_all)

lemma arc_op_153: "dmul (Fin (1351079888211149 / 4503599627370496)) (Fin (1351079888211149 / 4503599627370496)) = Fin (1621295865853379 / 18014398509481984)"
  by (rule dmul_eval, rule rnd_frac [where n = 56 and m = "6485183463413516"], simp_all)

lemma arc_op_154: "dmul (Fin (1621295865853379 / 18014398509481984)) (Fin (1351079888211149 / 4503599627370496)) = Fin (1945555039024055 / 72057594037927936)"
  by (rule dmul_eval, rule rnd_frac [where n = 58 and m = "7782220156096220"], simp_all)

lemma arc_op_155: "dmul (Fin (1945555039024055 / 72057594037927936)) (Fin 7) = Fin (26599385299157 / 140737488355328)"
  by (rule dmul_eval, rule rnd_frac [where n = 55 and m = "6809442636584192"], simp_all)

lemma arc_op_156: "dmul (Fin 3) (Fin (1621295865853379 / 18014398509481984)) = Fin (4863887597560137 / 18014398509481984)"
  by (rule dmul_eval, rule rnd_frac [where n = 54 and m = "4863887597560137"], simp_all)

lemma arc_op_157: "dmul (Fin (4863887597560137 / 18014398509481984)) (Fin (3152519739159347 / 4503599627370496)) = Fin (6809442636584191 / 36028797018963968)"
  by (rule dmul_eval, rule rnd_frac [where n = 55 and m = "6809442636584191"], simp_all)

lemma arc_op_158: "dmul (Fin (6809442636584191 / 36028797018963968)) (Fin 5) = Fin (8511803295730239 / 9007199254740992)"
  by (rule dmul_eval, rule rnd_frac [where n = 53 and m = "8511803295730239"], simp_all)

lemma arc_op_159: "dadd (Fin (26599385299157 / 140737488355328)) (Fin (8511803295730239 / 9007199254740992)) = Fin (79798155897471 / 70368744177664)"
  by (rule dadd_eval, rule rnd_frac [where n = 52 and m = "5107081977438144"], simp_all)

lemma arc_op_160: "dmul (Fin 3) (Fin (1351079888211149 / 4503599627370496)) = Fin (4053239664633447 / 4503599627370496)"
  by (rule dmul_eval, rule rnd_frac [where n = 53 and m = "8106479329266894"], simp_all)

lemma arc_op_161: "dmul (Fin (4053239664633447 / 4503599627370496)) (Fin (8827055269646171 / 18014398509481984)) = Fin (7944349742681555 / 18014398509481984)"
  by (rule dmul_eval, rule rnd_frac [where n = 54 and m = "7944349742681555"], simp_all)

lemma arc_op_162: "dmul (Fin (7944349742681555 / 18014398509481984)) (Fin 4) = Fin (7944349742681555 / 4503599627370496)"
  by (rule dmul_eval, rule rnd_frac [where n = 52 and m = "7944349742681555"], simp_all)

lemma arc_op_163: "dadd (Fin (79798155897471 / 70368744177664)) (Fin (7944349742681555 / 4503599627370496)) = Fin (3262857930029925 / 1125899906842624)"
  by (rule dadd_eval, rule rnd_frac [where n = 51 and m = "6525715860059850"], simp_all)

lemma arc_op_164: "dadd (Fin (3262857930029925 / 1125899906842624)) (Fin 0) = Fin (3262857930029925 / 1125899906842624)"
  by (rule dadd_eval, rule rnd_frac [where n = 51 and m = "6525715860059850"], simp_all)

lemma arc_op_165: "dmul (Fin (1945555039024055 / 72057594037927936)) (Fin 0) = Fin 0"
  by (rule dmul_eval, simp add: rnd_0)

lemma arc_op_166: "dmul (Fin (6809442636584191 / 36028797018963968)) (Fin 2) = Fin (6809442636584191 / 18014398509481984)"
  by (rule dmul_eval, rule rnd_frac [where n = 54 and m = "6809442636584191"], simp_all)

lemma arc_op_167: "dadd (Fin 0) (Fin (6809442636584191 / 18014398509481984)) = Fin (6809442636584191 / 18014398509481984)"
  by (rule dadd_eval, rule rnd_frac [where n = 54 and m = "6809442636584191"], simp_all)

lemma arc_op_168: "dmul (Fin (7944349742681555 / 18014398509481984)) (Fin 3) = Fin (2979131153505583 / 2251799813685248)"
  by (rule dmul_eval, rule rnd_frac [where n = 52 and m = "5958262307011166"], simp_all)

lemma arc_op_169: "dadd (Fin (6809442636584191 / 18014398509481984)) (Fin (2979131153505583 / 2251799813685248)) = Fin (3830311483078607 / 2251799813685248)"
  by (rule dadd_eval, rule rnd_frac [where n = 52 and m = "7660622966157214"], simp_all)

lemma arc_op_170: "dadd (Fin (3830311483078607 / 2251799813685248)) (Fin (5406571352658279 / 2251799813685248)) = Fin (4618441417868443 / 1125899906842624)"
  by (rule dadd_eval, rule rnd_frac [where n = 50 and m = "4618441417868443"], simp_all)

lemma arc_op_171: "dsub (Fin 1) (Fin (3602879701896397 / 4503599627370496)) = Fin (900719925474099 / 4503599627370496)"
  by (rule dsub_eval, rule rnd_frac [where n = 55 and m = "7205759403792792"], simp_all)

lemma arc_op_172: "dmul (Fin (900719925474099 / 4503599627370496)) (Fin (900719925474099 / 4503599627370496)) = Fin (720575940379279 / 18014398509481984)"
  by (rule dmul_eval, rule rnd_frac [where n = 57 and m = "5764607523034232"], simp_all)

lemma arc_op_173: "dmul (Fin (720575940379279 / 18014398509481984)) (Fin (900719925474099 / 4503599627370496)) = Fin (4611686018427385 / 576460752303423488)"
  by (rule dmul_eval, rule rnd_frac [where n = 59 and m = "4611686018427385"], simp_all)

lemma arc_op_174: "dmul (Fin (4611686018427385 / 576460752303423488)) (Fin 7) = Fin (2017612633061981 / 36028797018963968)"
  by (rule dmul_eval, rule rnd_frac [where n = 57 and m = "8070450532247924"], simp_all)

lemma arc_op_175: "dmul (Fin 3) (Fin (720575940379279 / 18014398509481984)) = Fin (2161727821137837 / 18014398509481984)"
  by (rule dmul_eval, rule rnd_frac [where n = 56 and m = "8646911284551348"], simp_all)

lemma arc_op_176: "dmul (Fin (2161727821137837 / 18014398509481984)) (Fin (3602879701896397 / 4503599627370496)) = Fin (6917529027641079 / 72057594037927936)"
  by (rule dmul_eval, rule rnd_frac [where n = 56 and m = "6917529027641079"], simp_all)

lemma arc_op_177: "dmul (Fin (6917529027641079 / 72057594037927936)) (Fin 5) = Fin (8646911284551349 / 18014398509481984)"
  by (rule dmul_eval, rule rnd_frac [where n = 54 and m = "8646911284551349"], simp_all)

lemma arc_op_178: "dadd (Fin (2017612633061981 / 36028797018963968)) (Fin (8646911284551349 / 18014398509481984)) = Fin (2413929400270585 / 4503599627370496)"
  by (rule dadd_eval, rule rnd_frac [where n = 53 and m = "4827858800541170"], simp_all)

lemma arc_op_179: "dmul (Fin 3) (Fin (900719925474099 / 4503599627370496)) = Fin (2702159776422297 / 4503599627370496)"
  by (rule dmul_eval, rule rnd_frac [where n = 53 and m = "5404319552844594"], simp_all)

lemma arc_op_180: "dmul (Fin (2702159776422297 / 4503599627370496)) (Fin (1441151880758559 / 2251799813685248)) = Fin (3458764513820541 / 9007199254740992)"
  by (rule dmul_eval, rule rnd_frac [where n = 54 and m = "6917529027641082"], simp_all)

lemma arc_op_181: "dmul (Fin (3458764513820541 / 9007199254740992)) (Fin 4) = Fin (3458764513820541 / 2251799813685248)"
  by (rule dmul_eval, rule rnd_frac [where n = 52 and m = "6917529027641082"], simp_all)

lemma arc_op_182: "dadd (Fin (2413929400270585 / 4503599627370496)) (Fin (3458764513820541 / 2251799813685248)) = Fin (2332864606977917 / 1125899906842624)"
  by (rule dadd_eval, rule rnd_frac [where n = 51 and m = "4665729213955834"], simp_all)

lemma arc_op_183: "dadd (Fin (2332864606977917 / 1125899906842624)) (Fin 0) = Fin (2332864606977917 / 1125899906842624)"
  by (rule dadd_eval, rule rnd_frac [where n = 51 and m = "4665729213955834"], simp_all)

lemma arc_op_184: "dmul (Fin (4611686018427385 / 576460752303423488)) (Fin 0) = Fin 0"
  by (rule dmul_eval, simp add: rnd_0)

lemma arc_op_185: "dmul (Fin (6917529027641079 / 72057594037927936)) (Fin 2) = Fin (6917529027641079 / 36028797018963968)"
  by (rule dmul_eval, rule rnd_frac [where n = 55 and m = "6917529027641079"], simp_all)

lemma arc_op_186: "dadd (Fin 0) (Fin (6917529027641079 / 36028797018963968)) = Fin (6917529027641079 / 36028797018963968)"
  by (rule dadd_eval, rule rnd_frac [where n = 55 and m = "6917529027641079"], simp_all)

lemma arc_op_187: "dmul (Fin (3458764513820541 / 9007199254740992)) (Fin 3) = Fin (1297036692682703 / 1125899906842624)"
  by (rule dmul_eval, rule rnd_frac [where n = 52 and m = "5188146770730812"], simp_all)

lemma arc_op_188: "dadd (Fin (6917529027641079 / 36028797018963968)) (Fin (1297036692682703 / 1125899906842624)) = Fin (6052837899185947 / 4503599627370496)"
  by (rule dadd_eval, rule rnd_frac [where n = 52 and m = "6052837899185947"], simp_all)

lemma arc_op_189: "dadd (Fin (6052837899185947 / 4503599627370496)) (Fin (8070450532247931 / 2251799813685248)) = Fin (1387108685230113 / 281474976710656)"
  by (rule dadd_eval, rule rnd_frac [where n = 50 and m = "5548434740920452"], simp_all)

lemma arc_op_190: "dsub (Fin 1) (Fin (8106479329266893 / 9007199254740992)) = Fin (900719925474099 / 9007199254740992)"
  by (rule dsub_eval, rule rnd_frac [where n = 56 and m = "7205759403792792"], simp_all)

lemma arc_op_191: "dmul (Fin (900719925474099 / 9007199254740992)) (Fin (900719925474099 / 9007199254740992)) = Fin (720575940379279 / 72057594037927936)"
  by (rule dmul_eval, rule rnd_frac [where n = 59 and m = "5764607523034232"], simp_all)

lemma arc_op_192: "dmul (Fin (720575940379279 / 72057594037927936)) (Fin (900719925474099 / 9007199254740992)) = Fin (4611686018427385 / 4611686018427387904)"
  by (rule dmul_eval, rule rnd_frac [where n = 62 and m = "4611686018427385"], simp_all)

lemma arc_op_193: "dmul (Fin (4611686018427385 / 4611686018427387904)) (Fin 7) = Fin (2017612633061981 / 288230376151711744)"
  by (rule dmul_eval, rule rnd_frac [where n = 60 and m = "8070450532247924"], simp_all)

lemma arc_op_194: "dmul (Fin 3) (Fin (720575940379279 / 72057594037927936)) = Fin (2161727821137837 / 72057594037927936)"
  by (rule dmul_eval, rule rnd_frac [where n = 58 and m = "8646911284551348"], simp_all)

lemma arc_op_195: "dmul (Fin (2161727821137837 / 72057594037927936)) (Fin (8106479329266893 / 9007199254740992)) = Fin (7782220156096213 / 288230376151711744)"
  by (rule dmul_eval, rule rnd_frac [where n = 58 and m = "7782220156096213"], simp_all)

lemma arc_op_196: "dmul (Fin (7782220156096213 / 288230376151711744)) (Fin 5) = Fin (4863887597560133 / 36028797018963968)"
  by (rule dmul_eval, rule rnd_frac [where n = 55 and m = "4863887597560133"], simp_all)

lemma arc_op_197: "dadd (Fin (2017612633061981 / 288230376151711744)) (Fin (4863887597560133 / 36028797018963968)) = Fin (5116089176692881 / 36028797018963968)"
  by (rule dadd_eval, rule rnd_frac [where n = 55 and m = "5116089176692881"], simp_all)

lemma arc_op_198: "dmul (Fin 3) (Fin (900719925474099 / 9007199254740992)) = Fin (2702159776422297 / 9007199254740992)"
  by (rule dmul_eval, rule rnd_frac [where n = 54 and m = "5404319552844594"], simp_all)

lemma arc_op_199: "dmul (Fin (2702159776422297 / 9007199254740992)) (Fin (1823957849085051 / 2251799813685248)) = Fin (8754997675608243 / 36028797018963968)"
  by (rule dmul_eval, rule rnd_frac [where n = 55 and m = "8754997675608243"], simp_all)

lemma arc_op_200: "dmul (Fin (8754997675608243 / 36028797018963968)) (Fin 4) = Fin (8754997675608243 / 9007199254740992)"
  by (rule dmul_eval, rule rnd_frac [where n = 53 and m = "8754997675608243"], simp_all)

lemma arc_op_201: "dadd (Fin (5116089176692881 / 36028797018963968)) (Fin (8754997675608243 / 9007199254740992)) = Fin (1254252496222683 / 1125899906842624)"
  by (rule dadd_eval, rule rnd_frac [where n = 52 and m = "5017009984890732"], simp_all)

lemma arc_op_202: "dadd (Fin (1254252496222683 / 1125899906842624)) (Fin 0) = Fin (1254252496222683 / 1125899906842624)"
  by (rule dadd_eval, rule rnd_frac [where n = 52 and m = "5017009984890732"], simp_all)

lemma arc_op_203: "dmul (Fin (4611686018427385 / 4611686018427387904)) (Fin 0) = Fin 0"
  by (rule dmul_eval, simp add: rnd_0)

lemma arc_op_204: "dmul (Fin (7782220156096213 / 288230376151711744)) (Fin 2) = Fin (7782220156096213 / 144115188075855872)"
  by (rule dmul_eval, rule rnd_frac [where n = 57 and m = "7782220156096213"], simp_all)

lemma arc_op_205: "dadd (Fin 0) (Fin (7782220156096213 / 144115188075855872)) = Fin (7782220156096213 / 144115188075855872)"
  by (rule dadd_eval, rule rnd_frac [where n = 57 and m = "7782220156096213"], simp_all)

lemma arc_op_206: "dmul (Fin (8754997675608243 / 36028797018963968)) (Fin 3) = Fin (3283124128353091 / 4503599627370496)"
  by (rule dmul_eval, rule rnd_frac [where n = 53 and m = "6566248256706182"], simp_all)

lemma arc_op_207: "dadd (Fin (7782220156096213 / 144115188075855872)) (Fin (3283124128353091 / 4503599627370496)) = Fin (7052637016462195 / 9007199254740992)"
  by (rule dadd_eval, rule rnd_frac [where n = 53 and m = "7052637016462195"], simp_all)

lemma arc_op_208: "dadd (Fin (7052637016462195 / 9007199254740992)) (Fin (5745467224617911 / 1125899906842624)) = Fin (6627046851675685 / 1125899906842624)"
  by (rule dadd_eval, rule rnd_frac [where n = 50 and m = "6627046851675685"], simp_all)

lemma arc_op_209: "dsub (Fin 1) (Fin 1) = Fin 0"
  by (rule dsub_eval, simp add: rnd_0)

lemma arc_op_210: "dmul (Fin 0) (Fin 1) = Fin 0"
  by (rule dmul_eval, simp add: rnd_0)

lemma arc_op_211: "dadd (Fin 0) (Fin 7) = Fin 7"
  by (rule dadd_eval, rule rnd_frac [where n = 50 and m = "7881299347898368"], simp_all)

lemma arc_op_212: "dadd (Fin 7) (Fin (3617516400685351 / 562949953421312)) = Fin (7558166074634535 / 562949953421312)"
  by (rule dadd_eval, rule rnd_frac [where n = 49 and m = "7558166074634535"], simp_all)

lemma arc_op_213: "dadd (Fin (7558166074634535 / 562949953421312)) (Fin (1657324662872343 / 281474976710656)) = Fin (2718203850094805 / 140737488355328)"
  by (rule dadd_eval, rule rnd_frac [where n = 48 and m = "5436407700189610"], simp_all)

lemma arc_op_214: "dadd (Fin (2718203850094805 / 140737488355328)) (Fin (6037075300490149 / 1125899906842624)) = Fin (6945676525312147 / 281474976710656)"
  by (rule dadd_eval, rule rnd_frac [where n = 48 and m = "6945676525312147"], simp_all)

lemma arc_op_215: "dadd (Fin (6945676525312147 / 281474976710656)) (Fin (2715670575304409 / 562949953421312)) = Fin (59 / 2)"
  by (rule dadd_eval, rule rnd_frac [where n = 48 and m = "8303511812964352"], simp_all)

lemma arc_op_216: "dadd (Fin (59 / 2)) (Fin (17 / 4)) = Fin (135 / 4)"
  by (rule dadd_eval, rule rnd_frac [where n = 47 and m = "4749890231992320"], simp_all)

lemma arc_op_217: "dadd (Fin (135 / 4)) (Fin (4071254063142929 / 1125899906842624)) = Fin (2629398494942593 / 70368744177664)"
  by (rule dadd_eval, rule rnd_frac [where n = 47 and m = "5258796989885186"], simp_all)

lemma arc_op_218: "dadd (Fin (2629398494942593 / 70368744177664)) (Fin (3262857930029925 / 1125899906842624)) = Fin (5666654231138927 / 140737488355328)"
  by (rule dadd_eval, rule rnd_frac [where n = 47 and m = "5666654231138927"], simp_all)

lemma arc_op_219: "dadd (Fin (5666654231138927 / 140737488355328)) (Fin (2332864606977917 / 1125899906842624)) = Fin (5958262307011167 / 140737488355328)"
  by (rule dadd_eval, rule rnd_frac [where n = 47 and m = "5958262307011167"], simp_all)

lemma arc_op_220: "dadd (Fin (5958262307011167 / 140737488355328)) (Fin (1254252496222683 / 1125899906842624)) = Fin (3057521934519501 / 70368744177664)"
  by (rule dadd_eval, rule rnd_frac [where n = 47 and m = "6115043869039002"], simp_all)

lemma arc_op_221: "dadd (Fin (3057521934519501 / 70368744177664)) (Fin 0) = Fin (3057521934519501 / 70368744177664)"
  by (rule dadd_eval, rule rnd_frac [where n = 47 and m = "6115043869039002"], simp_all)

lemma arc_op_222: "dadd (Fin 0) (Fin (2585066186110665 / 4503599627370496)) = Fin (2585066186110665 / 4503599627370496)"
  by (rule dadd_eval, rule rnd_frac [where n = 53 and m = "5170132372221330"], simp_all)

lemma arc_op_223: "dadd (Fin (2585066186110665 / 4503599627370496)) (Fin (5008002785635993 / 4503599627370496)) = Fin (3796534485873329 / 2251799813685248)"
  by (rule dadd_eval, rule rnd_frac [where n = 52 and m = "7593068971746658"], simp_all)

lemma arc_op_224: "dadd (Fin (3796534485873329 / 2251799813685248)) (Fin (922112023704109 / 562949953421312)) = Fin (7484982580689765 / 2251799813685248)"
  by (rule dadd_eval, rule rnd_frac [where n = 51 and m = "7484982580689765"], simp_all)

lemma arc_op_225: "dadd (Fin (7484982580689765 / 2251799813685248)) (Fin (1224979098644775 / 562949953421312)) = Fin (11 / 2)"
  by (rule dadd_eval, rule rnd_frac [where n = 50 and m = "6192449487634432"], simp_all)

lemma arc_op_226: "dadd (Fin (11 / 2)) (Fin (11 / 4)) = Fin (33 / 4)"
  by (rule dadd_eval, rule rnd_frac [where n = 49 and m = "4644337115725824"], simp_all)

lemma arc_op_227: "dadd (Fin (33 / 4)) (Fin (238127830297215 / 70368744177664)) = Fin (818669969762943 / 70368744177664)"
  by (rule dadd_eval, rule rnd_frac [where n = 49 and m = "6549359758103544"], simp_all)

lemma arc_op_228: "dadd (Fin (818669969762943 / 70368744177664)) (Fin (4618441417868443 / 1125899906842624)) = Fin (4429290233518883 / 281474976710656)"
  by (rule dadd_eval, rule rnd_frac [where n = 49 and m = "8858580467037766"], simp_all)

lemma arc_op_229: "dadd (Fin (4429290233518883 / 281474976710656)) (Fin (1387108685230113 / 281474976710656)) = Fin (1454099729687249 / 70368744177664)"
  by (rule dadd_eval, rule rnd_frac [where n = 48 and m = "5816398918748996"], simp_all)

lemma arc_op_230: "dadd (Fin (1454099729687249 / 70368744177664)) (Fin (6627046851675685 / 1125899906842624)) = Fin (7473160631667917 / 281474976710656)"
  by (rule dadd_eval, rule rnd_frac [where n = 48 and m = "7473160631667917"], simp_all)

lemma arc_op_231: "dadd (Fin (7473160631667917 / 281474976710656)) (Fin 7) = Fin (2360871367160627 / 70368744177664)"
  by (rule dadd_eval, rule rnd_frac [where n = 47 and m = "4721742734321254"], simp_all)

lemma arc_op_232: "dmul (Fin 7) (Fin 7) = Fin 49"
  by (rule dmul_eval, rule rnd_frac [where n = 47 and m = "6896136929411072"], simp_all)

lemma arc_op_233: "dadd (Fin 0) (Fin 49) = Fin 49"
  by (rule dadd_eval, rule rnd_frac [where n = 47 and m = "6896136929411072"], simp_all)

lemma arc_op_234: "dmul (Fin (3617516400685351 / 562949953421312)) (Fin (3617516400685351 / 562949953421312)) = Fin (5811540097701017 / 140737488355328)"
  by (rule dmul_eval, rule rnd_frac [where n = 47 and m = "5811540097701017"], simp_all)

lemma arc_op_235: "dadd (Fin 49) (Fin (5811540097701017 / 140737488355328)) = Fin (1588459628389011 / 17592186044416)"
  by (rule dadd_eval, rule rnd_frac [where n = 46 and m = "6353838513556044"], simp_all)

lemma arc_op_236: "dmul (Fin (1657324662872343 / 281474976710656)) (Fin (1657324662872343 / 281474976710656)) = Fin (4879163807496179 / 140737488355328)"
  by (rule dmul_eval, rule rnd_frac [where n = 47 and m = "4879163807496179"], simp_all)

lemma arc_op_237: "dadd (Fin (1588459628389011 / 17592186044416)) (Fin (4879163807496179 / 140737488355328)) = Fin (4396710208652067 / 35184372088832)"
  by (rule dadd_eval, rule rnd_frac [where n = 46 and m = "8793420417304134"], simp_all)

lemma arc_op_238: "dmul (Fin (6037075300490149 / 1125899906842624)) (Fin (6037075300490149 / 1125899906842624)) = Fin (2023174860076761 / 70368744177664)"
  by (rule dmul_eval, rule rnd_frac [where n = 48 and m = "8092699440307044"], simp_all)

lemma arc_op_239: "dadd (Fin (4396710208652067 / 35184372088832)) (Fin (2023174860076761 / 70368744177664)) = Fin (338018602418153 / 2199023255552)"
  by (rule dadd_eval, rule rnd_frac [where n = 45 and m = "5408297638690448"], simp_all)

lemma arc_op_240: "dmul (Fin (2715670575304409 / 562949953421312)) (Fin (2715670575304409 / 562949953421312)) = Fin (3275098713817117 / 140737488355328)"
  by (rule dmul_eval, rule rnd_frac [where n = 48 and m = "6550197427634234"], simp_all)

lemma arc_op_241: "dadd (Fin (338018602418153 / 2199023255552)) (Fin (3275098713817117 / 140737488355328)) = Fin (6227072317144727 / 35184372088832)"
  by (rule dadd_eval, rule rnd_frac [where n = 45 and m = "6227072317144727"], simp_all)

lemma arc_op_242: "dmul (Fin (17 / 4)) (Fin (17 / 4)) = Fin (289 / 16)"
  by (rule dmul_eval, rule rnd_frac [where n = 48 and m = "5084141766836224"], simp_all)

lemma arc_op_243: "dadd (Fin (6227072317144727 / 35184372088832)) (Fin (289 / 16)) = Fin (6862590037999255 / 35184372088832)"
  by (rule dadd_eval, rule rnd_frac [where n = 45 and m = "6862590037999255"], simp_all)

lemma arc_op_244: "dmul (Fin (4071254063142929 / 1125899906842624)) (Fin (4071254063142929 / 1125899906842624)) = Fin (7360827346162417 / 562949953421312)"
  by (rule dmul_eval, rule rnd_frac [where n = 49 and m = "7360827346162417"], simp_all)

lemma arc_op_245: "dadd (Fin (6862590037999255 / 35184372088832)) (Fin (7360827346162417 / 562949953421312)) = Fin (3661320873567203 / 17592186044416)"
  by (rule dadd_eval, rule rnd_frac [where n = 45 and m = "7322641747134406"], simp_all)

lemma arc_op_246: "dmul (Fin (3262857930029925 / 1125899906842624)) (Fin (3262857930029925 / 1125899906842624)) = Fin (2363940570306681 / 281474976710656)"
  by (rule dmul_eval, rule rnd_frac [where n = 49 and m = "4727881140613362"], simp_all)

lemma arc_op_247: "dadd (Fin (3661320873567203 / 17592186044416)) (Fin (2363940570306681 / 281474976710656)) = Fin (7618134318422741 / 35184372088832)"
  by (rule dadd_eval, rule rnd_frac [where n = 45 and m = "7618134318422741"], simp_all)

lemma arc_op_248: "dmul (Fin (2332864606977917 / 1125899906842624)) (Fin (2332864606977917 / 1125899906842624)) = Fin (1208423866414561 / 281474976710656)"
  by (rule dmul_eval, rule rnd_frac [where n = 50 and m = "4833695465658244"], simp_all)

lemma arc_op_249: "dadd (Fin (7618134318422741 / 35184372088832)) (Fin (1208423866414561 / 281474976710656)) = Fin (7769187301724561 / 35184372088832)"
  by (rule dadd_eval, rule rnd_frac [where n = 45 and m = "7769187301724561"], simp_all)

lemma arc_op_250: "dmul (Fin (1254252496222683 / 1125899906842624)) (Fin (1254252496222683 / 1125899906842624)) = Fin (5588949123168275 / 4503599627370496)"
  by (rule dmul_eval, rule rnd_frac [where n = 52 and m = "5588949123168275"], simp_all)

lemma arc_op_251: "dadd (Fin (7769187301724561 / 35184372088832)) (Fin (5588949123168275 / 4503599627370496)) = Fin (7812850966749313 / 35184372088832)"
  by (rule dadd_eval, rule rnd_frac [where n = 45 and m = "7812850966749313"], simp_all)

lemma arc_op_252: "dadd (Fin (7812850966749313 / 35184372088832)) (Fin 0) = Fin (7812850966749313 / 35184372088832)"
  by (rule dadd_eval, rule rnd_frac [where n = 45 and m = "7812850966749313"], simp_all)

lemma arc_op_253: "dmul (Fin (2585066186110665 / 4503599627370496)) (Fin (2585066186110665 / 4503599627370496)) = Fin (741913995413761 / 2251799813685248)"
  by (rule dmul_eval, rule rnd_frac [where n = 54 and m = "5935311963310088"], simp_all)

lemma arc_op_254: "dadd (Fin 0) (Fin (741913995413761 / 2251799813685248)) = Fin (741913995413761 / 2251799813685248)"
  by (rule dadd_eval, rule rnd_frac [where n = 54 and m = "5935311963310088"], simp_all)

lemma arc_op_255: "dmul (Fin (5008002785635993 / 4503599627370496)) (Fin (5008002785635993 / 4503599627370496)) = Fin (2784449548813613 / 2251799813685248)"
  by (rule dmul_eval, rule rnd_frac [where n = 52 and m = "5568899097627226"], simp_all)

lemma arc_op_256: "dadd (Fin (741913995413761 / 2251799813685248)) (Fin (2784449548813613 / 2251799813685248)) = Fin (1763181772113687 / 1125899906842624)"
  by (rule dadd_eval, rule rnd_frac [where n = 52 and m = "7052727088454748"], simp_all)

lemma arc_op_257: "dmul (Fin (922112023704109 / 562949953421312)) (Fin (922112023704109 / 562949953421312)) = Fin (3020838989654661 / 1125899906842624)"
  by (rule dmul_eval, rule rnd_frac [where n = 51 and m = "6041677979309322"], simp_all)

lemma arc_op_258: "dadd (Fin (1763181772113687 / 1125899906842624)) (Fin (3020838989654661 / 1125899906842624)) = Fin (1196005190442087 / 281474976710656)"
  by (rule dadd_eval, rule rnd_frac [where n = 50 and m = "4784020761768348"], simp_all)

lemma arc_op_259: "dmul (Fin (1224979098644775 / 562949953421312)) (Fin (1224979098644775 / 562949953421312)) = Fin (5331109037302061 / 1125899906842624)"
  by (rule dmul_eval, rule rnd_frac [where n = 50 and m = "5331109037302061"], simp_all)

lemma arc_op_260: "dadd (Fin (1196005190442087 / 281474976710656)) (Fin (5331109037302061 / 1125899906842624)) = Fin (1264391224883801 / 140737488355328)"
  by (rule dadd_eval, rule rnd_frac [where n = 49 and m = "5057564899535204"], simp_all)

lemma arc_op_261: "dmul (Fin (11 / 4)) (Fin (11 / 4)) = Fin (121 / 16)"
  by (rule dmul_eval, rule rnd_frac [where n = 50 and m = "8514618045497344"], simp_all)

lemma arc_op_262: "dadd (Fin (1264391224883801 / 140737488355328)) (Fin (121 / 16)) = Fin (2328718480570969 / 140737488355328)"
  by (rule dadd_eval, rule rnd_frac [where n = 48 and m = "4657436961141938"], simp_all)

lemma arc_op_263: "dmul (Fin (238127830297215 / 70368744177664)) (Fin (238127830297215 / 70368744177664)) = Fin (6446596621806205 / 562949953421312)"
  by (rule dmul_eval, rule rnd_frac [where n = 49 and m = "6446596621806205"], simp_all)

lemma arc_op_264: "dadd (Fin (2328718480570969 / 140737488355328)) (Fin (6446596621806205 / 562949953421312)) = Fin (492545954502815 / 17592186044416)"
  by (rule dadd_eval, rule rnd_frac [where n = 48 and m = "7880735272045040"], simp_all)

lemma arc_op_265: "dmul (Fin (4618441417868443 / 1125899906842624)) (Fin (4618441417868443 / 1125899906842624)) = Fin (592026459253011 / 35184372088832)"
  by (rule dmul_eval, rule rnd_frac [where n = 48 and m = "4736211674024088"], simp_all)

lemma arc_op_266: "dadd (Fin (492545954502815 / 17592186044416)) (Fin (592026459253011 / 35184372088832)) = Fin (1577118368258641 / 35184372088832)"
  by (rule dadd_eval, rule rnd_frac [where n = 47 and m = "6308473473034564"], simp_all)

lemma arc_op_267: "dmul (Fin (1387108685230113 / 281474976710656)) (Fin (1387108685230113 / 281474976710656)) = Fin (3417835800406999 / 140737488355328)"
  by (rule dmul_eval, rule rnd_frac [where n = 48 and m = "6835671600813998"], simp_all)

lemma arc_op_268: "dadd (Fin (1577118368258641 / 35184372088832)) (Fin (3417835800406999 / 140737488355328)) = Fin (2431577318360391 / 35184372088832)"
  by (rule dadd_eval, rule rnd_frac [where n = 46 and m = "4863154636720782"], simp_all)

lemma arc_op_269: "dmul (Fin (6627046851675685 / 1125899906842624)) (Fin (6627046851675685 / 1125899906842624)) = Fin (4875849721120385 / 140737488355328)"
  by (rule dmul_eval, rule rnd_frac [where n = 47 and m = "4875849721120385"], simp_all)

lemma arc_op_270: "dadd (Fin (2431577318360391 / 35184372088832)) (Fin (4875849721120385 / 140737488355328)) = Fin (3650539748640487 / 35184372088832)"
  by (rule dadd_eval, rule rnd_frac [where n = 46 and m = "7301079497280974"], simp_all)

lemma arc_op_271: "dadd (Fin (3650539748640487 / 35184372088832)) (Fin 49) = Fin (5374573980993255 / 35184372088832)"
  by (rule dadd_eval, rule rnd_frac [where n = 45 and m = "5374573980993255"], simp_all)

lemma arc_op_272: "dmul (Fin 7) (Fin 0) = Fin 0"
  by (rule dmul_eval, simp add: rnd_0)

lemma arc_op_273: "dmul (Fin (3617516400685351 / 562949953421312)) (Fin (2585066186110665 / 4503599627370496)) = Fin (8305817655973567 / 2251799813685248)"
  by (rule dmul_eval, rule rnd_frac [where n = 51 and m = "8305817655973567"], simp_all)

lemma arc_op_274: "dadd (Fin 0) (Fin (8305817655973567 / 2251799813685248)) = Fin (8305817655973567 / 2251799813685248)"
  by (rule dadd_eval, rule rnd_frac [where n = 51 and m = "8305817655973567"], simp_all)

lemma arc_op_275: "dmul (Fin (1657324662872343 / 281474976710656)) (Fin (5008002785635993 / 4503599627370496)) = Fin (921472512557023 / 140737488355328)"
  by (rule dmul_eval, rule rnd_frac [where n = 50 and m = "7371780100456184"], simp_all)

lemma arc_op_276: "dadd (Fin (8305817655973567 / 2251799813685248)) (Fin (921472512557023 / 140737488355328)) = Fin (1440586116055371 / 140737488355328)"
  by (rule dadd_eval, rule rnd_frac [where n = 49 and m = "5762344464221484"], simp_all)

lemma arc_op_277: "dmul (Fin (6037075300490149 / 1125899906842624)) (Fin (922112023704109 / 562949953421312)) = Fin (618045583887679 / 70368744177664)"
  by (rule dmul_eval, rule rnd_frac [where n = 49 and m = "4944364671101432"], simp_all)

lemma arc_op_278: "dadd (Fin (1440586116055371 / 140737488355328)) (Fin (618045583887679 / 70368744177664)) = Fin (2676677283830729 / 140737488355328)"
  by (rule dadd_eval, rule rnd_frac [where n = 48 and m = "5353354567661458"], simp_all)

lemma arc_op_279: "dmul (Fin (2715670575304409 / 562949953421312)) (Fin (1224979098644775 / 562949953421312)) = Fin (2954649585931197 / 281474976710656)"
  by (rule dmul_eval, rule rnd_frac [where n = 49 and m = "5909299171862394"], simp_all)

lemma arc_op_280: "dadd (Fin (2676677283830729 / 140737488355328)) (Fin (2954649585931197 / 281474976710656)) = Fin (8308004153592655 / 281474976710656)"
  by (rule dadd_eval, rule rnd_frac [where n = 48 and m = "8308004153592655"], simp_all)

lemma arc_op_281: "dmul (Fin (17 / 4)) (Fin (11 / 4)) = Fin (187 / 16)"
  by (rule dmul_eval, rule rnd_frac [where n = 49 and m = "6579477580611584"], simp_all)

lemma arc_op_282: "dadd (Fin (8308004153592655 / 281474976710656)) (Fin (187 / 16)) = Fin (724858933993653 / 17592186044416)"
  by (rule dadd_eval, rule rnd_frac [where n = 47 and m = "5798871471949224"], simp_all)

lemma arc_op_283: "dmul (Fin (4071254063142929 / 1125899906842624)) (Fin (238127830297215 / 70368744177664)) = Fin (6888561874837837 / 562949953421312)"
  by (rule dmul_eval, rule rnd_frac [where n = 49 and m = "6888561874837837"], simp_all)

lemma arc_op_284: "dadd (Fin (724858933993653 / 17592186044416)) (Fin (6888561874837837 / 562949953421312)) = Fin (7521011940658683 / 140737488355328)"
  by (rule dadd_eval, rule rnd_frac [where n = 47 and m = "7521011940658683"], simp_all)

lemma arc_op_285: "dmul (Fin (3262857930029925 / 1125899906842624)) (Fin (4618441417868443 / 1125899906842624)) = Fin (6692121614491375 / 562949953421312)"
  by (rule dmul_eval, rule rnd_frac [where n = 49 and m = "6692121614491375"], simp_all)

lemma arc_op_286: "dadd (Fin (7521011940658683 / 140737488355328)) (Fin (6692121614491375 / 562949953421312)) = Fin (4597021172140763 / 70368744177664)"
  by (rule dadd_eval, rule rnd_frac [where n = 46 and m = "4597021172140763"], simp_all)

lemma arc_op_287: "dmul (Fin (2332864606977917 / 1125899906842624)) (Fin (1387108685230113 / 281474976710656)) = Fin (1437044597898397 / 140737488355328)"
  by (rule dmul_eval, rule rnd_frac [where n = 49 and m = "5748178391593588"], simp_all)

lemma arc_op_288: "dadd (Fin (4597021172140763 / 70368744177664)) (Fin (1437044597898397 / 140737488355328)) = Fin (2657771735544981 / 35184372088832)"
  by (rule dadd_eval, rule rnd_frac [where n = 46 and m = "5315543471089962"], simp_all)

lemma arc_op_289: "dmul (Fin (1254252496222683 / 1125899906842624)) (Fin (6627046851675685 / 1125899906842624)) = Fin (922816274095839 / 140737488355328)"
  by (rule dmul_eval, rule rnd_frac [where n = 50 and m = "7382530192766712"], simp_all)

lemma arc_op_290: "dadd (Fin (2657771735544981 / 35184372088832)) (Fin (922816274095839 / 140737488355328)) = Fin (2888475804068941 / 35184372088832)"
  by (rule dadd_eval, rule rnd_frac [where n = 46 and m = "5776951608137882"], simp_all)

lemma arc_op_291: "dadd (Fin (2888475804068941 / 35184372088832)) (Fin 0) = Fin (2888475804068941 / 35184372088832)"
  by (rule dadd_eval, rule rnd_frac [where n = 46 and m = "5776951608137882"], simp_all)

lemma arc_op_292: "dmul (Fin 49) (Fin 7) = Fin 343"
  by (rule dmul_eval, rule rnd_frac [where n = 44 and m = "6034119813234688"], simp_all)

lemma arc_op_293: "dadd (Fin 0) (Fin 343) = Fin 343"
  by (rule dadd_eval, rule rnd_frac [where n = 44 and m = "6034119813234688"], simp_all)

lemma arc_op_294: "dmul (Fin (5811540097701017 / 140737488355328)) (Fin (3617516400685351 / 562949953421312)) = Fin (2334059791739171 / 8796093022208)"
  by (rule dmul_eval, rule rnd_frac [where n = 44 and m = "4668119583478342"], simp_all)

lemma arc_op_295: "dadd (Fin 343) (Fin (2334059791739171 / 8796093022208)) = Fin (5351119698356515 / 8796093022208)"
  by (rule dadd_eval, rule rnd_frac [where n = 43 and m = "5351119698356515"], simp_all)

lemma arc_op_296: "dmul (Fin (4879163807496179 / 140737488355328)) (Fin (1657324662872343 / 281474976710656)) = Fin (3591064562317189 / 17592186044416)"
  by (rule dmul_eval, rule rnd_frac [where n = 45 and m = "7182129124634378"], simp_all)

lemma arc_op_297: "dadd (Fin (5351119698356515 / 8796093022208)) (Fin (3591064562317189 / 17592186044416)) = Fin (3573325989757555 / 4398046511104)"
  by (rule dadd_eval, rule rnd_frac [where n = 43 and m = "7146651979515110"], simp_all)

lemma arc_op_298: "dmul (Fin (2023174860076761 / 70368744177664)) (Fin (6037075300490149 / 1125899906842624)) = Fin (5424131799865795 / 35184372088832)"
  by (rule dmul_eval, rule rnd_frac [where n = 45 and m = "5424131799865795"], simp_all)

lemma arc_op_299: "dadd (Fin (3573325989757555 / 4398046511104)) (Fin (5424131799865795 / 35184372088832)) = Fin (8502684929481559 / 8796093022208)"
  by (rule dadd_eval, rule rnd_frac [where n = 43 and m = "8502684929481559"], simp_all)

lemma arc_op_300: "dmul (Fin (3275098713817117 / 140737488355328)) (Fin (2715670575304409 / 562949953421312)) = Fin (3949769048863443 / 35184372088832)"
  by (rule dmul_eval, rule rnd_frac [where n = 46 and m = "7899538097726886"], simp_all)

lemma arc_op_301: "dadd (Fin (8502684929481559 / 8796093022208)) (Fin (3949769048863443 / 35184372088832)) = Fin (2372531797924355 / 2199023255552)"
  by (rule dadd_eval, rule rnd_frac [where n = 42 and m = "4745063595848710"], simp_all)

lemma arc_op_302: "dmul (Fin (289 / 16)) (Fin (17 / 4)) = Fin (4913 / 64)"
  by (rule dmul_eval, rule rnd_frac [where n = 46 and m = "5401900627263488"], simp_all)

lemma arc_op_303: "dadd (Fin (2372531797924355 / 2199023255552)) (Fin (4913 / 64)) = Fin (2541341192526339 / 2199023255552)"
  by (rule dadd_eval, rule rnd_frac [where n = 42 and m = "5082682385052678"], simp_all)

lemma arc_op_304: "dmul (Fin (7360827346162417 / 562949953421312)) (Fin (4071254063142929 / 1125899906842624)) = Fin (3327093960465413 / 70368744177664)"
  by (rule dmul_eval, rule rnd_frac [where n = 47 and m = "6654187920930826"], simp_all)

lemma arc_op_305: "dadd (Fin (2541341192526339 / 2199023255552)) (Fin (3327093960465413 / 70368744177664)) = Fin (2645312878790883 / 2199023255552)"
  by (rule dadd_eval, rule rnd_frac [where n = 42 and m = "5290625757581766"], simp_all)

lemma arc_op_306: "dmul (Fin (2363940570306681 / 281474976710656)) (Fin (3262857930029925 / 1125899906842624)) = Fin (6850699772748763 / 281474976710656)"
  by (rule dmul_eval, rule rnd_frac [where n = 48 and m = "6850699772748763"], simp_all)

lemma arc_op_307: "dadd (Fin (2645312878790883 / 2199023255552)) (Fin (6850699772748763 / 281474976710656)) = Fin (5397667941530965 / 4398046511104)"
  by (rule dadd_eval, rule rnd_frac [where n = 42 and m = "5397667941530965"], simp_all)

lemma arc_op_308: "dmul (Fin (1208423866414561 / 281474976710656)) (Fin (2332864606977917 / 1125899906842624)) = Fin (5007708502421941 / 562949953421312)"
  by (rule dmul_eval, rule rnd_frac [where n = 49 and m = "5007708502421941"], simp_all)

lemma arc_op_309: "dadd (Fin (5397667941530965 / 4398046511104)) (Fin (5007708502421941 / 562949953421312)) = Fin (679598833025767 / 549755813888)"
  by (rule dadd_eval, rule rnd_frac [where n = 42 and m = "5436790664206136"], simp_all)

lemma arc_op_310: "dmul (Fin (5588949123168275 / 4503599627370496)) (Fin (1254252496222683 / 1125899906842624)) = Fin (3113044661604729 / 2251799813685248)"
  by (rule dmul_eval, rule rnd_frac [where n = 52 and m = "6226089323209458"], simp_all)

lemma arc_op_311: "dadd (Fin (679598833025767 / 549755813888)) (Fin (3113044661604729 / 2251799813685248)) = Fin (5442870829560833 / 4398046511104)"
  by (rule dadd_eval, rule rnd_frac [where n = 42 and m = "5442870829560833"], simp_all)

lemma arc_op_312: "dadd (Fin (5442870829560833 / 4398046511104)) (Fin 0) = Fin (5442870829560833 / 4398046511104)"
  by (rule dadd_eval, rule rnd_frac [where n = 42 and m = "5442870829560833"], simp_all)

lemma arc_op_313: "dmul (Fin (741913995413761 / 2251799813685248)) (Fin (2585066186110665 / 4503599627370496)) = Fin (3406869066939991 / 18014398509481984)"
  by (rule dmul_eval, rule rnd_frac [where n = 55 and m = "6813738133879982"], simp_all)

lemma arc_op_314: "dadd (Fin 0) (Fin (3406869066939991 / 18014398509481984)) = Fin (3406869066939991 / 18014398509481984)"
  by (rule dadd_eval, rule rnd_frac [where n = 55 and m = "6813738133879982"], simp_all)

lemma arc_op_315: "dmul (Fin (2784449548813613 / 2251799813685248)) (Fin (5008002785635993 / 4503599627370496)) = Fin (6192615796561477 / 4503599627370496)"
  by (rule dmul_eval, rule rnd_frac [where n = 52 and m = "6192615796561477"], simp_all)

lemma arc_op_316: "dadd (Fin (3406869066939991 / 18014398509481984)) (Fin (6192615796561477 / 4503599627370496)) = Fin (7044333063296475 / 4503599627370496)"
  by (rule dadd_eval, rule rnd_frac [where n = 52 and m = "7044333063296475"], simp_all)

lemma arc_op_317: "dmul (Fin (3020838989654661 / 1125899906842624)) (Fin (922112023704109 / 562949953421312)) = Fin (2474067132527167 / 562949953421312)"
  by (rule dmul_eval, rule rnd_frac [where n = 50 and m = "4948134265054334"], simp_all)

lemma arc_op_318: "dadd (Fin (7044333063296475 / 4503599627370496)) (Fin (2474067132527167 / 562949953421312)) = Fin (6709217530878453 / 1125899906842624)"
  by (rule dadd_eval, rule rnd_frac [where n = 50 and m = "6709217530878453"], simp_all)

lemma arc_op_319: "dmul (Fin (5331109037302061 / 1125899906842624)) (Fin (1224979098644775 / 562949953421312)) = Fin (5800246632584643 / 562949953421312)"
  by (rule dmul_eval, rule rnd_frac [where n = 49 and m = "5800246632584643"], simp_all)

lemma arc_op_320: "dadd (Fin (6709217530878453 / 1125899906842624)) (Fin (5800246632584643 / 562949953421312)) = Fin (4577427699011935 / 281474976710656)"
  by (rule dadd_eval, rule rnd_frac [where n = 48 and m = "4577427699011935"], simp_all)

lemma arc_op_321: "dmul (Fin (121 / 16)) (Fin (11 / 4)) = Fin (1331 / 64)"
  by (rule dmul_eval, rule rnd_frac [where n = 48 and m = "5853799906279424"], simp_all)

lemma arc_op_322: "dadd (Fin (4577427699011935 / 281474976710656)) (Fin (1331 / 64)) = Fin (325975862665355 / 8796093022208)"
  by (rule dadd_eval, rule rnd_frac [where n = 47 and m = "5215613802645680"], simp_all)

lemma arc_op_323: "dmul (Fin (6446596621806205 / 562949953421312)) (Fin (238127830297215 / 70368744177664)) = Fin (2726910371024025 / 70368744177664)"
  by (rule dmul_eval, rule rnd_frac [where n = 47 and m = "5453820742048050"], simp_all)

lemma arc_op_324: "dadd (Fin (325975862665355 / 8796093022208)) (Fin (2726910371024025 / 70368744177664)) = Fin (5334717272346865 / 70368744177664)"
  by (rule dadd_eval, rule rnd_frac [where n = 46 and m = "5334717272346865"], simp_all)

lemma arc_op_325: "dmul (Fin (592026459253011 / 35184372088832)) (Fin (4618441417868443 / 1125899906842624)) = Fin (2428492535855851 / 35184372088832)"
  by (rule dmul_eval, rule rnd_frac [where n = 46 and m = "4856985071711702"], simp_all)

lemma arc_op_326: "dadd (Fin (5334717272346865 / 70368744177664)) (Fin (2428492535855851 / 35184372088832)) = Fin (1273962793007321 / 8796093022208)"
  by (rule dadd_eval, rule rnd_frac [where n = 45 and m = "5095851172029284"], simp_all)

lemma arc_op_327: "dmul (Fin (3417835800406999 / 140737488355328)) (Fin (1387108685230113 / 281474976710656)) = Fin (8421547412202847 / 70368744177664)"
  by (rule dmul_eval, rule rnd_frac [where n = 46 and m = "8421547412202847"], simp_all)

lemma arc_op_328: "dadd (Fin (1273962793007321 / 8796093022208)) (Fin (8421547412202847 / 70368744177664)) = Fin (2326656219532677 / 8796093022208)"
  by (rule dadd_eval, rule rnd_frac [where n = 44 and m = "4653312439065354"], simp_all)

lemma arc_op_329: "dmul (Fin (4875849721120385 / 140737488355328)) (Fin (6627046851675685 / 1125899906842624)) = Fin (7174812864628647 / 35184372088832)"
  by (rule dmul_eval, rule rnd_frac [where n = 45 and m = "7174812864628647"], simp_all)

lemma arc_op_330: "dadd (Fin (2326656219532677 / 8796093022208)) (Fin (7174812864628647 / 35184372088832)) = Fin (4120359435689839 / 8796093022208)"
  by (rule dadd_eval, rule rnd_frac [where n = 44 and m = "8240718871379678"], simp_all)

lemma arc_op_331: "dadd (Fin (4120359435689839 / 8796093022208)) (Fin 343) = Fin (7137419342307183 / 8796093022208)"
  by (rule dadd_eval, rule rnd_frac [where n = 43 and m = "7137419342307183"], simp_all)

lemma arc_op_332: "dmul (Fin 49) (Fin 0) = Fin 0"
  by (rule dmul_eval, simp add: rnd_0)

lemma arc_op_333: "dmul (Fin (5811540097701017 / 140737488355328)) (Fin (2585066186110665 / 4503599627370496)) = Fin (6515281281407 / 274877906944)"
  by (rule dmul_eval, rule rnd_frac [where n = 48 and m = "6671648032160768"], simp_all)

lemma arc_op_334: "dadd (Fin 0) (Fin (6515281281407 / 274877906944)) = Fin (6515281281407 / 274877906944)"
  by (rule dadd_eval, rule rnd_frac [where n = 48 and m = "6671648032160768"], simp_all)

lemma arc_op_335: "dmul (Fin (4879163807496179 / 140737488355328)) (Fin (5008002785635993 / 4503599627370496)) = Fin (5425630153935753 / 140737488355328)"
  by (rule dmul_eval, rule rnd_frac [where n = 47 and m = "5425630153935753"], simp_all)

lemma arc_op_336: "dadd (Fin (6515281281407 / 274877906944)) (Fin (5425630153935753 / 140737488355328)) = Fin (8761454170016137 / 140737488355328)"
  by (rule dadd_eval, rule rnd_frac [where n = 47 and m = "8761454170016137"], simp_all)

lemma arc_op_337: "dmul (Fin (2023174860076761 / 70368744177664)) (Fin (922112023704109 / 562949953421312)) = Fin (6627920841611469 / 140737488355328)"
  by (rule dmul_eval, rule rnd_frac [where n = 47 and m = "6627920841611469"], simp_all)

lemma arc_op_338: "dadd (Fin (8761454170016137 / 140737488355328)) (Fin (6627920841611469 / 140737488355328)) = Fin (7694687505813803 / 70368744177664)"
  by (rule dadd_eval, rule rnd_frac [where n = 46 and m = "7694687505813803"], simp_all)

lemma arc_op_339: "dmul (Fin (3275098713817117 / 140737488355328)) (Fin (1224979098644775 / 562949953421312)) = Fin (7126614801266047 / 140737488355328)"
  by (rule dmul_eval, rule rnd_frac [where n = 47 and m = "7126614801266047"], simp_all)

lemma arc_op_340: "dadd (Fin (7694687505813803 / 70368744177664)) (Fin (7126614801266047 / 140737488355328)) = Fin (5628997453223413 / 35184372088832)"
  by (rule dadd_eval, rule rnd_frac [where n = 45 and m = "5628997453223413"], simp_all)

lemma arc_op_341: "dmul (Fin (289 / 16)) (Fin (11 / 4)) = Fin (3179 / 64)"
  by (rule dmul_eval, rule rnd_frac [where n = 47 and m = "6990694929399808"], simp_all)

lemma arc_op_342: "dadd (Fin (5628997453223413 / 35184372088832)) (Fin (3179 / 64)) = Fin (7376671185573365 / 35184372088832)"
  by (rule dadd_eval, rule rnd_frac [where n = 45 and m = "7376671185573365"], simp_all)

lemma arc_op_343: "dmul (Fin (7360827346162417 / 562949953421312)) (Fin (238127830297215 / 70368744177664)) = Fin (6227259934853405 / 140737488355328)"
  by (rule dmul_eval, rule rnd_frac [where n = 47 and m = "6227259934853405"], simp_all)

lemma arc_op_344: "dadd (Fin (7376671185573365 / 35184372088832)) (Fin (6227259934853405 / 140737488355328)) = Fin (2233371542321679 / 8796093022208)"
  by (rule dadd_eval, rule rnd_frac [where n = 45 and m = "8933486169286716"], simp_all)

lemma arc_op_345: "dmul (Fin (2363940570306681 / 281474976710656)) (Fin (4618441417868443 / 1125899906842624)) = Fin (2424221054849501 / 70368744177664)"
  by (rule dmul_eval, rule rnd_frac [where n = 47 and m = "4848442109699002"], simp_all)

lemma arc_op_346: "dadd (Fin (2233371542321679 / 8796093022208)) (Fin (2424221054849501 / 70368744177664)) = Fin (5072798348355733 / 17592186044416)"
  by (rule dadd_eval, rule rnd_frac [where n = 44 and m = "5072798348355733"], simp_all)

lemma arc_op_347: "dmul (Fin (1208423866414561 / 281474976710656)) (Fin (1387108685230113 / 281474976710656)) = Fin (2977556406845479 / 140737488355328)"
  by (rule dmul_eval, rule rnd_frac [where n = 48 and m = "5955112813690958"], simp_all)

lemma arc_op_348: "dadd (Fin (5072798348355733 / 17592186044416)) (Fin (2977556406845479 / 140737488355328)) = Fin (2722496449605709 / 8796093022208)"
  by (rule dadd_eval, rule rnd_frac [where n = 44 and m = "5444992899211418"], simp_all)

lemma arc_op_349: "dmul (Fin (5588949123168275 / 4503599627370496)) (Fin (6627046851675685 / 1125899906842624)) = Fin (8224138634742117 / 1125899906842624)"
  by (rule dmul_eval, rule rnd_frac [where n = 50 and m = "8224138634742117"], simp_all)

lemma arc_op_350: "dadd (Fin (2722496449605709 / 8796093022208)) (Fin (8224138634742117 / 1125899906842624)) = Fin (87085860396551 / 274877906944)"
  by (rule dadd_eval, rule rnd_frac [where n = 44 and m = "5573495065379264"], simp_all)

lemma arc_op_351: "dadd (Fin (87085860396551 / 274877906944)) (Fin 0) = Fin (87085860396551 / 274877906944)"
  by (rule dadd_eval, rule rnd_frac [where n = 44 and m = "5573495065379264"], simp_all)

lemma arc_op_352: "dmul (Fin (3617516400685351 / 562949953421312)) (Fin (741913995413761 / 2251799813685248)) = Fin (1191884833632207 / 562949953421312)"
  by (rule dmul_eval, rule rnd_frac [where n = 51 and m = "4767539334528828"], simp_all)

lemma arc_op_353: "dadd (Fin 0) (Fin (1191884833632207 / 562949953421312)) = Fin (1191884833632207 / 562949953421312)"
  by (rule dadd_eval, rule rnd_frac [where n = 51 and m = "4767539334528828"], simp_all)

lemma arc_op_354: "dmul (Fin (1657324662872343 / 281474976710656)) (Fin (2784449548813613 / 2251799813685248)) = Fin (8197419471707279 / 1125899906842624)"
  by (rule dmul_eval, rule rnd_frac [where n = 50 and m = "8197419471707279"], simp_all)

lemma arc_op_355: "dadd (Fin (1191884833632207 / 562949953421312)) (Fin (8197419471707279 / 1125899906842624)) = Fin (2645297284742923 / 281474976710656)"
  by (rule dadd_eval, rule rnd_frac [where n = 49 and m = "5290594569485846"], simp_all)

lemma arc_op_356: "dmul (Fin (6037075300490149 / 1125899906842624)) (Fin (3020838989654661 / 1125899906842624)) = Fin (8098869331264145 / 562949953421312)"
  by (rule dmul_eval, rule rnd_frac [where n = 49 and m = "8098869331264145"], simp_all)

lemma arc_op_357: "dadd (Fin (2645297284742923 / 281474976710656)) (Fin (8098869331264145 / 562949953421312)) = Fin (1673682987593749 / 70368744177664)"
  by (rule dadd_eval, rule rnd_frac [where n = 48 and m = "6694731950374996"], simp_all)

lemma arc_op_358: "dmul (Fin (2715670575304409 / 562949953421312)) (Fin (5331109037302061 / 1125899906842624)) = Fin (6429317498986285 / 281474976710656)"
  by (rule dmul_eval, rule rnd_frac [where n = 48 and m = "6429317498986285"], simp_all)

lemma arc_op_359: "dadd (Fin (1673682987593749 / 70368744177664)) (Fin (6429317498986285 / 281474976710656)) = Fin (102531636323135 / 2199023255552)"
  by (rule dadd_eval, rule rnd_frac [where n = 47 and m = "6562024724680640"], simp_all)

lemma arc_op_360: "dmul (Fin (17 / 4)) (Fin (121 / 16)) = Fin (2057 / 64)"
  by (rule dmul_eval, rule rnd_frac [where n = 47 and m = "4523390836670464"], simp_all)

lemma arc_op_361: "dadd (Fin (102531636323135 / 2199023255552)) (Fin (2057 / 64)) = Fin (173209618146111 / 2199023255552)"
  by (rule dadd_eval, rule rnd_frac [where n = 46 and m = "5542707780675552"], simp_all)

lemma arc_op_362: "dmul (Fin (4071254063142929 / 1125899906842624)) (Fin (6446596621806205 / 562949953421312)) = Fin (2913861673056405 / 70368744177664)"
  by (rule dmul_eval, rule rnd_frac [where n = 47 and m = "5827723346112810"], simp_all)

lemma arc_op_363: "dadd (Fin (173209618146111 / 2199023255552)) (Fin (2913861673056405 / 70368744177664)) = Fin (8456569453731957 / 70368744177664)"
  by (rule dadd_eval, rule rnd_frac [where n = 46 and m = "8456569453731957"], simp_all)

lemma arc_op_364: "dmul (Fin (3262857930029925 / 1125899906842624)) (Fin (592026459253011 / 35184372088832)) = Fin (6862770715660905 / 140737488355328)"
  by (rule dmul_eval, rule rnd_frac [where n = 47 and m = "6862770715660905"], simp_all)

lemma arc_op_365: "dadd (Fin (8456569453731957 / 70368744177664)) (Fin (6862770715660905 / 140737488355328)) = Fin (5943977405781205 / 35184372088832)"
  by (rule dadd_eval, rule rnd_frac [where n = 45 and m = "5943977405781205"], simp_all)

lemma arc_op_366: "dmul (Fin (2332864606977917 / 1125899906842624)) (Fin (3417835800406999 / 140737488355328)) = Fin (3540877889221651 / 70368744177664)"
  by (rule dmul_eval, rule rnd_frac [where n = 47 and m = "7081755778443302"], simp_all)

lemma arc_op_367: "dadd (Fin (5943977405781205 / 35184372088832)) (Fin (3540877889221651 / 70368744177664)) = Fin (3857208175196015 / 17592186044416)"
  by (rule dadd_eval, rule rnd_frac [where n = 45 and m = "7714416350392030"], simp_all)

lemma arc_op_368: "dmul (Fin (1254252496222683 / 1125899906842624)) (Fin (4875849721120385 / 140737488355328)) = Fin (1357924147332027 / 35184372088832)"
  by (rule dmul_eval, rule rnd_frac [where n = 47 and m = "5431696589328108"], simp_all)

lemma arc_op_369: "dadd (Fin (3857208175196015 / 17592186044416)) (Fin (1357924147332027 / 35184372088832)) = Fin (1134042562215507 / 4398046511104)"
  by (rule dadd_eval, rule rnd_frac [where n = 44 and m = "4536170248862028"], simp_all)

lemma arc_op_370: "dmul (Fin 0) (Fin 49) = Fin 0"
  by (rule dmul_eval, simp add: rnd_0)

lemma arc_op_371: "dadd (Fin (1134042562215507 / 4398046511104)) (Fin 0) = Fin (1134042562215507 / 4398046511104)"
  by (rule dadd_eval, rule rnd_frac [where n = 44 and m = "4536170248862028"], simp_all)

lemma arc_op_372: "dmul (Fin 11) (Fin (7812850966749313 / 35184372088832)) = Fin (5371335039640153 / 2199023255552)"
  by (rule dmul_eval, rule rnd_frac [where n = 41 and m = "5371335039640153"], simp_all)

lemma arc_op_373: "dmul (Fin (3057521934519501 / 70368744177664)) (Fin (3057521934519501 / 70368744177664)) = Fin (518942687714345 / 274877906944)"
  by (rule dmul_eval, rule rnd_frac [where n = 42 and m = "8303083003429520"], simp_all)

lemma arc_op_374: "dsub (Fin (5371335039640153 / 2199023255552)) (Fin (518942687714345 / 274877906944)) = Fin (1219793537925393 / 2199023255552)"
  by (rule dsub_eval, rule rnd_frac [where n = 43 and m = "4879174151701572"], simp_all)

lemma arc_op_375: "dmul (Fin 11) (Fin (2888475804068941 / 35184372088832)) = Fin (1985827115297397 / 2199023255552)"
  by (rule dmul_eval, rule rnd_frac [where n = 43 and m = "7943308461189588"], simp_all)

lemma arc_op_376: "dmul (Fin (3057521934519501 / 70368744177664)) (Fin (2360871367160627 / 70368744177664)) = Fin (3205620653222789 / 2199023255552)"
  by (rule dmul_eval, rule rnd_frac [where n = 42 and m = "6411241306445578"], simp_all)

lemma arc_op_377: "dsub (Fin (1985827115297397 / 2199023255552)) (Fin (3205620653222789 / 2199023255552)) = Fin (- (76237096120337 / 137438953472))"
  by (rule dsub_eval, rule rnd_frac [where n = 43 and m = "- 4879174151701568"], simp_all)

lemma arc_op_378: "dmul (Fin 11) (Fin (5374573980993255 / 35184372088832)) = Fin (3695019611932863 / 2199023255552)"
  by (rule dmul_eval, rule rnd_frac [where n = 42 and m = "7390039223865726"], simp_all)

lemma arc_op_379: "dmul (Fin (2360871367160627 / 70368744177664)) (Fin (2360871367160627 / 70368744177664)) = Fin (4950452148014939 / 4398046511104)"
  by (rule dmul_eval, rule rnd_frac [where n = 42 and m = "4950452148014939"], simp_all)

lemma arc_op_380: "dsub (Fin (3695019611932863 / 2199023255552)) (Fin (4950452148014939 / 4398046511104)) = Fin (2439587075850787 / 4398046511104)"
  by (rule dsub_eval, rule rnd_frac [where n = 43 and m = "4879174151701574"], simp_all)

lemma arc_op_381: "dmul (Fin 11) (Fin (87085860396551 / 274877906944)) = Fin (957944464362061 / 274877906944)"
  by (rule dmul_eval, rule rnd_frac [where n = 41 and m = "7663555714896488"], simp_all)

lemma arc_op_382: "dmul (Fin (3057521934519501 / 70368744177664)) (Fin (2888475804068941 / 35184372088832)) = Fin (3922008552712359 / 1099511627776)"
  by (rule dmul_eval, rule rnd_frac [where n = 41 and m = "7844017105424718"], simp_all)

lemma arc_op_383: "dsub (Fin (957944464362061 / 274877906944)) (Fin (3922008552712359 / 1099511627776)) = Fin (- (90230695264115 / 1099511627776))"
  by (rule dsub_eval, rule rnd_frac [where n = 46 and m = "- 5774764496903360"], simp_all)

lemma arc_op_384: "dmul (Fin 11) (Fin (5442870829560833 / 4398046511104)) = Fin (7483947390646145 / 549755813888)"
  by (rule dmul_eval, rule rnd_frac [where n = 39 and m = "7483947390646145"], simp_all)

lemma arc_op_385: "dadd (Fin (- (90230695264115 / 1099511627776))) (Fin (7483947390646145 / 549755813888)) = Fin (929854005376761 / 68719476736)"
  by (rule dadd_eval, rule rnd_frac [where n = 39 and m = "7438832043014088"], simp_all)

lemma arc_op_386: "dmul (Fin (3057521934519501 / 70368744177664)) (Fin (7812850966749313 / 35184372088832)) = Fin (5304193351644651 / 549755813888)"
  by (rule dmul_eval, rule rnd_frac [where n = 39 and m = "5304193351644651"], simp_all)

lemma arc_op_387: "dsub (Fin (929854005376761 / 68719476736)) (Fin (5304193351644651 / 549755813888)) = Fin (2134638691369437 / 549755813888)"
  by (rule dsub_eval, rule rnd_frac [where n = 41 and m = "8538554765477748"], simp_all)

lemma arc_op_388: "dmul (Fin (1 / 2)) (Fin (2134638691369437 / 549755813888)) = Fin (2134638691369437 / 1099511627776)"
  by (rule dmul_eval, rule rnd_frac [where n = 42 and m = "8538554765477748"], simp_all)

lemma arc_op_389: "dmul (Fin 11) (Fin (1134042562215507 / 4398046511104)) = Fin (779654261523161 / 274877906944)"
  by (rule dmul_eval, rule rnd_frac [where n = 41 and m = "6237234092185288"], simp_all)

lemma arc_op_390: "dmul (Fin (2360871367160627 / 70368744177664)) (Fin (2888475804068941 / 35184372088832)) = Fin (1514193175414265 / 549755813888)"
  by (rule dmul_eval, rule rnd_frac [where n = 41 and m = "6056772701657060"], simp_all)

lemma arc_op_391: "dsub (Fin (779654261523161 / 274877906944)) (Fin (1514193175414265 / 549755813888)) = Fin (45115347632057 / 549755813888)"
  by (rule dsub_eval, rule rnd_frac [where n = 46 and m = "5774764496903296"], simp_all)

lemma arc_op_392: "dmul (Fin 11) (Fin (7137419342307183 / 8796093022208)) = Fin (1226743949459047 / 137438953472)"
  by (rule dmul_eval, rule rnd_frac [where n = 39 and m = "4906975797836188"], simp_all)

lemma arc_op_393: "dadd (Fin (45115347632057 / 549755813888)) (Fin (1226743949459047 / 137438953472)) = Fin (4952091145468245 / 549755813888)"
  by (rule dadd_eval, rule rnd_frac [where n = 39 and m = "4952091145468245"], simp_all)

lemma arc_op_394: "dmul (Fin (2360871367160627 / 70368744177664)) (Fin (5374573980993255 / 35184372088832)) = Fin (5634904908197615 / 1099511627776)"
  by (rule dmul_eval, rule rnd_frac [where n = 40 and m = "5634904908197615"], simp_all)

lemma arc_op_395: "dsub (Fin (4952091145468245 / 549755813888)) (Fin (5634904908197615 / 1099511627776)) = Fin (4269277382738875 / 1099511627776)"
  by (rule dsub_eval, rule rnd_frac [where n = 41 and m = "8538554765477750"], simp_all)

lemma arc_op_396: "dmul (Fin (1 / 2)) (Fin (4269277382738875 / 1099511627776)) = Fin (4269277382738875 / 2199023255552)"
  by (rule dmul_eval, rule rnd_frac [where n = 42 and m = "8538554765477750"], simp_all)

lemma arc_op_397: "dmul (Fin (1219793537925393 / 2199023255552)) (Fin (2439587075850787 / 4398046511104)) = Fin (5286069449413403 / 17179869184)"
  by (rule dmul_eval, rule rnd_frac [where n = 34 and m = "5286069449413403"], simp_all)

lemma arc_op_398: "dmul (Fin (- (76237096120337 / 137438953472))) (Fin (- (76237096120337 / 137438953472))) = Fin (330379340588337 / 1073741824)"
  by (rule dmul_eval, rule rnd_frac [where n = 34 and m = "5286069449413392"], simp_all)

lemma arc_op_399: "dsub (Fin (5286069449413403 / 17179869184)) (Fin (330379340588337 / 1073741824)) = Fin (11 / 17179869184)"
  by (rule dsub_eval, rule rnd_frac [where n = 83 and m = "6192449487634432"], simp_all)

lemma arc_op_400: "rnd (1 / 10000000000) = Fin (7737125245533627 / 77371252455336267181195264)"
  by (rule rnd_frac [where n = 86 and m = "7737125245533627"], simp_all)

lemma arc_op_401: "dmul (Fin (2134638691369437 / 1099511627776)) (Fin (2439587075850787 / 4398046511104)) = Fin (2312655384118363 / 2147483648)"
  by (rule dmul_eval, rule rnd_frac [where n = 32 and m = "4625310768236726"], simp_all)

lemma arc_op_402: "dmul (Fin (- (76237096120337 / 137438953472))) (Fin (4269277382738875 / 2199023255552)) = Fin (- (4625310768236721 / 4294967296))"
  by (rule dmul_eval, rule rnd_frac [where n = 32 and m = "- 4625310768236721"], simp_all)

lemma arc_op_403: "dsub (Fin (2312655384118363 / 2147483648)) (Fin (- (4625310768236721 / 4294967296))) = Fin (1156327692059181 / 536870912)"
  by (rule dsub_eval, rule rnd_frac [where n = 31 and m = "4625310768236724"], simp_all)

lemma arc_op_404: "ddiv (Fin (1156327692059181 / 536870912)) (Fin (11 / 17179869184)) = Fin (6727724753798871 / 2)"
  by (rule ddiv_eval, simp, rule rnd_frac [where n = 1 and m = "6727724753798871"], simp_all)

lemma arc_op_405: "dmul (Fin (1219793537925393 / 2199023255552)) (Fin (4269277382738875 / 2199023255552)) = Fin (4625310768236725 / 4294967296)"
  by (rule dmul_eval, rule rnd_frac [where n = 32 and m = "4625310768236725"], simp_all)

lemma arc_op_406: "dmul (Fin (- (76237096120337 / 137438953472))) (Fin (2134638691369437 / 1099511627776)) = Fin (- (289081923014795 / 268435456))"
  by (rule dmul_eval, rule rnd_frac [where n = 32 and m = "- 4625310768236720"], simp_all)

lemma arc_op_407: "dsub (Fin (4625310768236725 / 4294967296)) (Fin (- (289081923014795 / 268435456))) = Fin (2312655384118361 / 1073741824)"
  by (rule dsub_eval, rule rnd_frac [where n = 31 and m = "4625310768236722"], simp_all)

lemma arc_op_408: "ddiv (Fin (2312655384118361 / 1073741824)) (Fin (11 / 17179869184)) = Fin 3363862376899434"
  by (rule ddiv_eval, simp, rule rnd_frac [where n = 1 and m = "6727724753798868"], simp_all)

lemma arc_op_409: "dsub (Fin (6727724753798871 / 2)) (Fin 7) = Fin (6727724753798857 / 2)"
  by (rule dsub_eval, rule rnd_frac [where n = 1 and m = "6727724753798857"], simp_all)

lemma arc_op_410: "dsub (Fin 3363862376899434) (Fin 0) = Fin 3363862376899434"
  by (rule dsub_eval, rule rnd_frac [where n = 1 and m = "6727724753798868"], simp_all)

lemma arc_op_411: "dmul (Fin (6727724753798857 / 2)) (Fin (6727724753798857 / 2)) = Fin 11315570090719472729260111691776"
  by (rule dmul_eval, rule rnd_int [where n = 51 and m = "5025122580590612"], simp_all)

lemma arc_op_412: "dmul (Fin 3363862376899434) (Fin 3363862376899434) = Fin 11315570090719508758057130655744"
  by (rule dmul_eval, rule rnd_int [where n = 51 and m = "5025122580590628"], simp_all)

lemma arc_op_413: "dadd (Fin 11315570090719472729260111691776) (Fin 11315570090719508758057130655744) = Fin 22631140181438981487317242347520"
  by (rule dadd_eval, rule rnd_int [where n = 52 and m = "5025122580590620"], simp_all)

lemma arc_op_414: "dsqrt (Fin 22631140181438981487317242347520) = Fin 4757219795367771"
  by (rule dsqrt_eval, simp, rule rnd_sqrt_frac [where n = 0 and m = "4757219795367771"], simp_all)

lemma arc_op_415: "dsub (Fin (6727724753798871 / 2)) (Fin (3617516400685351 / 562949953421312)) = Fin 3363862376899429"
  by (rule dsub_eval, rule rnd_frac [where n = 1 and m = "6727724753798858"], simp_all)

lemma arc_op_416: "dsub (Fin 3363862376899434) (Fin (2585066186110665 / 4503599627370496)) = Fin (6727724753798867 / 2)"
  by (rule dsub_eval, rule rnd_frac [where n = 1 and m = "6727724753798867"], simp_all)

lemma arc_op_417: "dmul (Fin 3363862376899429) (Fin 3363862376899429) = Fin 11315570090719477232859739062272"
  by (rule dmul_eval, rule rnd_int [where n = 51 and m = "5025122580590614"], simp_all)

lemma arc_op_418: "dmul (Fin (6727724753798867 / 2)) (Fin (6727724753798867 / 2)) = Fin 11315570090719506506257316970496"
  by (rule dmul_eval, rule rnd_int [where n = 51 and m = "5025122580590627"], simp_all)

lemma arc_op_419: "dadd (Fin 11315570090719477232859739062272) (Fin 11315570090719506506257316970496) = Fin 22631140181438981487317242347520"
  by (rule dadd_eval, rule rnd_int [where n = 52 and m = "5025122580590620"], simp_all)

lemma arc_op_420: "dsub (Fin (6727724753798871 / 2)) (Fin (1657324662872343 / 281474976710656)) = Fin (6727724753798859 / 2)"
  by (rule dsub_eval, rule rnd_frac [where n = 1 and m = "6727724753798859"], simp_all)

lemma arc_op_421: "dsub (Fin 3363862376899434) (Fin (5008002785635993 / 4503599627370496)) = Fin 3363862376899433"
  by (rule dsub_eval, rule rnd_frac [where n = 1 and m = "6727724753798866"], simp_all)

lemma arc_op_422: "dmul (Fin (6727724753798859 / 2)) (Fin (6727724753798859 / 2)) = Fin 11315570090719479484659552747520"
  by (rule dmul_eval, rule rnd_int [where n = 51 and m = "5025122580590615"], simp_all)

lemma arc_op_423: "dmul (Fin 3363862376899433) (Fin 3363862376899433) = Fin 11315570090719502002657689600000"
  by (rule dmul_eval, rule rnd_int [where n = 51 and m = "5025122580590625"], simp_all)

lemma arc_op_424: "dadd (Fin 11315570090719479484659552747520) (Fin 11315570090719502002657689600000) = Fin 22631140181438981487317242347520"
  by (rule dadd_eval, rule rnd_int [where n = 52 and m = "5025122580590620"], simp_all)

lemma arc_op_425: "dsub (Fin (6727724753798871 / 2)) (Fin (6037075300490149 / 1125899906842624)) = Fin 3363862376899430"
  by (rule dsub_eval, rule rnd_frac [where n = 1 and m = "6727724753798860"], simp_all)

lemma arc_op_426: "dsub (Fin 3363862376899434) (Fin (922112023704109 / 562949953421312)) = Fin (6727724753798865 / 2)"
  by (rule dsub_eval, rule rnd_frac [where n = 1 and m = "6727724753798865"], simp_all)

lemma arc_op_427: "dmul (Fin 3363862376899430) (Fin 3363862376899430) = Fin 11315570090719481736459366432768"
  by (rule dmul_eval, rule rnd_int [where n = 51 and m = "5025122580590616"], simp_all)

lemma arc_op_428: "dmul (Fin (6727724753798865 / 2)) (Fin (6727724753798865 / 2)) = Fin 11315570090719499750857875914752"
  by (rule dmul_eval, rule rnd_int [where n = 51 and m = "5025122580590624"], simp_all)

lemma arc_op_429: "dadd (Fin 11315570090719481736459366432768) (Fin 11315570090719499750857875914752) = Fin 22631140181438981487317242347520"
  by (rule dadd_eval, rule rnd_int [where n = 52 and m = "5025122580590620"], simp_all)

lemma arc_op_430: "dsub (Fin (6727724753798871 / 2)) (Fin (2715670575304409 / 562949953421312)) = Fin (6727724753798861 / 2)"
  by (rule dsub_eval, rule rnd_frac [where n = 1 and m = "6727724753798861"], simp_all)

lemma arc_op_431: "dsub (Fin 3363862376899434) (Fin (1224979098644775 / 562949953421312)) = Fin 3363862376899432"
  by (rule dsub_eval, rule rnd_frac [where n = 1 and m = "6727724753798864"], simp_all)

lemma arc_op_432: "dmul (Fin (6727724753798861 / 2)) (Fin (6727724753798861 / 2)) = Fin 11315570090719486240058993803264"
  by (rule dmul_eval, rule rnd_int [where n = 51 and m = "5025122580590618"], simp_all)

lemma arc_op_433: "dmul (Fin 3363862376899432) (Fin 3363862376899432) = Fin 11315570090719495247258248544256"
  by (rule dmul_eval, rule rnd_int [where n = 51 and m = "5025122580590622"], simp_all)

lemma arc_op_434: "dadd (Fin 11315570090719486240058993803264) (Fin 11315570090719495247258248544256) = Fin 22631140181438981487317242347520"
  by (rule dadd_eval, rule rnd_int [where n = 52 and m = "5025122580590620"], simp_all)

lemma arc_op_435: "dsub (Fin (6727724753798871 / 2)) (Fin (17 / 4)) = Fin 3363862376899431"
  by (rule dsub_eval, rule rnd_frac [where n = 1 and m = "6727724753798862"], simp_all)

lemma arc_op_436: "dsub (Fin 3363862376899434) (Fin (11 / 4)) = Fin 3363862376899431"
  by (rule dsub_eval, rule rnd_frac [where n = 1 and m = "6727724753798862"], simp_all)

lemma arc_op_437: "dmul (Fin 3363862376899431) (Fin 3363862376899431) = Fin 11315570090719488491858807488512"
  by (rule dmul_eval, rule rnd_int [where n = 51 and m = "5025122580590619"], simp_all)

lemma arc_op_438: "dadd (Fin 11315570090719488491858807488512) (Fin 11315570090719488491858807488512) = Fin 22631140181438976983717614977024"
  by (rule dadd_eval, rule rnd_int [where n = 52 and m = "5025122580590619"], simp_all)

lemma arc_op_439: "dsqrt (Fin 22631140181438976983717614977024) = Fin 4757219795367771"
  by (rule dsqrt_eval, simp, rule rnd_sqrt_frac [where n = 0 and m = "4757219795367771"], simp_all)

lemma arc_op_440: "dsub (Fin (6727724753798871 / 2)) (Fin (4071254063142929 / 1125899906842624)) = Fin 3363862376899432"
  by (rule dsub_eval, rule rnd_frac [where n = 1 and m = "6727724753798864"], simp_all)

lemma arc_op_441: "dsub (Fin 3363862376899434) (Fin (238127830297215 / 70368744177664)) = Fin (6727724753798861 / 2)"
  by (rule dsub_eval, rule rnd_frac [where n = 1 and m = "6727724753798861"], simp_all)

lemma arc_op_442: "dadd (Fin 11315570090719495247258248544256) (Fin 11315570090719486240058993803264) = Fin 22631140181438981487317242347520"
  by (rule dadd_eval, rule rnd_int [where n = 52 and m = "5025122580590620"], simp_all)

lemma arc_op_443: "dsub (Fin (6727724753798871 / 2)) (Fin (3262857930029925 / 1125899906842624)) = Fin (6727724753798865 / 2)"
  by (rule dsub_eval, rule rnd_frac [where n = 1 and m = "6727724753798865"], simp_all)

lemma arc_op_444: "dsub (Fin 3363862376899434) (Fin (4618441417868443 / 1125899906842624)) = Fin 3363862376899430"
  by (rule dsub_eval, rule rnd_frac [where n = 1 and m = "6727724753798860"], simp_all)

lemma arc_op_445: "dadd (Fin 11315570090719499750857875914752) (Fin 11315570090719481736459366432768) = Fin 22631140181438981487317242347520"
  by (rule dadd_eval, rule rnd_int [where n = 52 and m = "5025122580590620"], simp_all)

lemma arc_op_446: "dsub (Fin (6727724753798871 / 2)) (Fin (2332864606977917 / 1125899906842624)) = Fin (6727724753798867 / 2)"
  by (rule dsub_eval, rule rnd_frac [where n = 1 and m = "6727724753798867"], simp_all)

lemma arc_op_447: "dsub (Fin 3363862376899434) (Fin (1387108685230113 / 281474976710656)) = Fin 3363862376899429"
  by (rule dsub_eval, rule rnd_frac [where n = 1 and m = "6727724753798858"], simp_all)

lemma arc_op_448: "dadd (Fin 11315570090719506506257316970496) (Fin 11315570090719477232859739062272) = Fin 22631140181438981487317242347520"
  by (rule dadd_eval, rule rnd_int [where n = 52 and m = "5025122580590620"], simp_all)

lemma arc_op_449: "dsub (Fin (6727724753798871 / 2)) (Fin (1254252496222683 / 1125899906842624)) = Fin (6727724753798869 / 2)"
  by (rule dsub_eval, rule rnd_frac [where n = 1 and m = "6727724753798869"], simp_all)

lemma arc_op_450: "dsub (Fin 3363862376899434) (Fin (6627046851675685 / 1125899906842624)) = Fin 3363862376899428"
  by (rule dsub_eval, rule rnd_frac [where n = 1 and m = "6727724753798856"], simp_all)

lemma arc_op_451: "dmul (Fin (6727724753798869 / 2)) (Fin (6727724753798869 / 2)) = Fin 11315570090719513261656758026240"
  by (rule dmul_eval, rule rnd_int [where n = 51 and m = "5025122580590630"], simp_all)

lemma arc_op_452: "dmul (Fin 3363862376899428) (Fin 3363862376899428) = Fin 11315570090719470477460298006528"
  by (rule dmul_eval, rule rnd_int [where n = 51 and m = "5025122580590611"], simp_all)

lemma arc_op_453: "dadd (Fin 11315570090719513261656758026240) (Fin 11315570090719470477460298006528) = Fin 22631140181438981487317242347520"
  by (rule dadd_eval, rule rnd_int [where n = 52 and m = "5025122580590620"], simp_all)

lemma arc_op_454: "dsub (Fin (6727724753798871 / 2)) (Fin 0) = Fin (6727724753798871 / 2)"
  by (rule dsub_eval, rule rnd_frac [where n = 1 and m = "6727724753798871"], simp_all)

lemma arc_op_455: "dsub (Fin 3363862376899434) (Fin 7) = Fin 3363862376899427"
  by (rule dsub_eval, rule rnd_frac [where n = 1 and m = "6727724753798854"], simp_all)

lemma arc_op_456: "dmul (Fin (6727724753798871 / 2)) (Fin (6727724753798871 / 2)) = Fin 11315570090719520017056199081984"
  by (rule dmul_eval, rule rnd_int [where n = 51 and m = "5025122580590633"], simp_all)

lemma arc_op_457: "dmul (Fin 3363862376899427) (Fin 3363862376899427) = Fin 11315570090719463722060856950784"
  by (rule dmul_eval, rule rnd_int [where n = 51 and m = "5025122580590608"], simp_all)

lemma arc_op_458: "dadd (Fin 11315570090719520017056199081984) (Fin 11315570090719463722060856950784) = Fin 22631140181438981487317242347520"
  by (rule dadd_eval, rule rnd_int [where n = 52 and m = "5025122580590620"], simp_all)

lemma arc_op_459: "dadd (Fin 0) (Fin 4757219795367771) = Fin 4757219795367771"
  by (rule dadd_eval, rule rnd_int [where n = 0 and m = "4757219795367771"], simp_all)

lemma arc_op_460: "dadd (Fin 4757219795367771) (Fin 4757219795367771) = Fin 9514439590735542"
  by (rule dadd_eval, rule rnd_int [where n = 1 and m = "4757219795367771"], simp_all)

lemma arc_op_461: "dadd (Fin 9514439590735542) (Fin 4757219795367771) = Fin 14271659386103312"
  by (rule dadd_eval, rule rnd_int [where n = 1 and m = "7135829693051656"], simp_all)

lemma arc_op_462: "dadd (Fin 14271659386103312) (Fin 4757219795367771) = Fin 19028879181471084"
  by (rule dadd_eval, rule rnd_int [where n = 2 and m = "4757219795367771"], simp_all)

lemma arc_op_463: "dadd (Fin 19028879181471084) (Fin 4757219795367771) = Fin 23786098976838856"
  by (rule dadd_eval, rule rnd_int [where n = 2 and m = "5946524744209714"], simp_all)

lemma arc_op_464: "dadd (Fin 23786098976838856) (Fin 4757219795367771) = Fin 28543318772206628"
  by (rule dadd_eval, rule rnd_int [where n = 2 and m = "7135829693051657"], simp_all)

lemma arc_op_465: "dadd (Fin 28543318772206628) (Fin 4757219795367771) = Fin 33300538567574400"
  by (rule dadd_eval, rule rnd_int [where n = 2 and m = "8325134641893600"], simp_all)

lemma arc_op_466: "dadd (Fin 33300538567574400) (Fin 4757219795367771) = Fin 38057758362942168"
  by (rule dadd_eval, rule rnd_int [where n = 3 and m = "4757219795367771"], simp_all)

lemma arc_op_467: "dadd (Fin 38057758362942168) (Fin 4757219795367771) = Fin 42814978158309936"
  by (rule dadd_eval, rule rnd_int [where n = 3 and m = "5351872269788742"], simp_all)

lemma arc_op_468: "dadd (Fin 42814978158309936) (Fin 4757219795367771) = Fin 47572197953677704"
  by (rule dadd_eval, rule rnd_int [where n = 3 and m = "5946524744209713"], simp_all)

lemma arc_op_469: "dadd (Fin 47572197953677704) (Fin 4757219795367771) = Fin 52329417749045472"
  by (rule dadd_eval, rule rnd_int [where n = 3 and m = "6541177218630684"], simp_all)

lemma arc_op_470: "ddiv (Fin 52329417749045472) (Fin 11) = Fin 4757219795367770"
  by (rule ddiv_eval, simp, rule rnd_int [where n = 0 and m = "4757219795367770"], simp_all)

lemma arc_op_471: "dsub (Fin 4757219795367771) (Fin 4757219795367770) = Fin 1"
  by (rule dsub_eval, rule rnd_frac [where n = 52 and m = "4503599627370496"], simp_all)

lemma arc_op_472: "dsub (Fin (17 / 4)) (Fin 7) = Fin (- (11 / 4))"
  by (rule dsub_eval, rule rnd_frac [where n = 51 and m = "- 6192449487634432"], simp_all)

lemma arc_op_473: "dsub (Fin (11 / 4)) (Fin 0) = Fin (11 / 4)"
  by (rule dsub_eval, rule rnd_frac [where n = 51 and m = "6192449487634432"], simp_all)

lemma arc_op_474: "dsub (Fin 0) (Fin 7) = Fin (- 7)"
  by (rule dsub_eval, rule rnd_frac [where n = 50 and m = "- 7881299347898368"], simp_all)

lemma arc_op_475: "dsub (Fin 7) (Fin 0) = Fin 7"
  by (rule dsub_eval, rule rnd_frac [where n = 50 and m = "7881299347898368"], simp_all)

lemma arc_op_476: "dmul (Fin (- (11 / 4))) (Fin 7) = Fin (- (77 / 4))"
  by (rule dmul_eval, rule rnd_frac [where n = 48 and m = "- 5418393301680128"], simp_all)

lemma arc_op_477: "dmul (Fin (11 / 4)) (Fin (- 7)) = Fin (- (77 / 4))"
  by (rule dmul_eval, rule rnd_frac [where n = 48 and m = "- 5418393301680128"], simp_all)

lemma arc_op_478: "dsub (Fin (- (77 / 4))) (Fin (- (77 / 4))) = Fin 0"
  by (rule dsub_eval, simp add: rnd_0)

lemmas arc_ops = arc_op_1 arc_op_2 arc_op_3 arc_op_4 arc_op_5 arc_op_6 arc_op_7 arc_op_8
  arc_op_9 arc_op_10 arc_op_11 arc_op_12 arc_op_13 arc_op_14 arc_op_15 arc_op_16 arc_op_17
  arc_op_18 arc_op_19 arc_op_20 arc_op_21 arc_op_22 arc_op_23 arc_op_24 arc_op_25 arc_op_26
  arc_op_27 arc_op_28 arc_op_29 arc_op_30 arc_op_31 arc_op_32 arc_op_33 arc_op_34 arc_op_35
  arc_op_36 arc_op_37 arc_op_38 arc_op_39 arc_op_40 arc_op_41 arc_op_42 arc_op_43 arc_op_44
  arc_op_45 arc_op_46 arc_op_47 arc_op_48 arc_op_49 arc_op_50 arc_op_51 arc_op_52 arc_op_53
  arc_op_54 arc_op_55 arc_op_56 arc_op_57 arc_op_58 arc_op_59 arc_op_60 arc_op_61 arc_op_62
  arc_op_63 arc_op_64 arc_op_65 arc_op_66 arc_op_67 arc_op_68 arc_op_69 arc_op_70 arc_op_71
  arc_op_72 arc_op_73 arc_op_74 arc_op_75 arc_op_76 arc_op_77 arc_op_78 arc_op_79 arc_op_80
  arc_op_81 arc_op_82 arc_op_83 arc_op_84 arc_op_85 arc_op_86 arc_op_87 arc_op_88 arc_op_89
  arc_op_90 arc_op_91 arc_op_92 arc_op_93 arc_op_94 arc_op_95 arc_op_96 arc_op_97 arc_op_98
  arc_op_99 arc_op_100 arc_op_101 arc_op_102 arc_op_103 arc_op_104 arc_op_105 arc_op_106
  arc_op_107 arc_op_108 arc_op_109 arc_op_110 arc_op_111 arc_op_112 arc_op_113 arc_op_114
  arc_op_115 arc_op_116 arc_op_117 arc_op_118 arc_op_119 arc_op_120 arc_op_121 arc_op_122
  arc_op_123 arc_op_124 arc_op_125 arc_op_126 arc_op_127 arc_op_128 arc_op_129 arc_op_130
  arc_op_131 arc_op_132 arc_op_133 arc_op_134 arc_op_135 arc_op_136 arc_op_137 arc_op_138
  arc_op_139 arc_op_140 arc_op_141 arc_op_142 arc_op_143 arc_op_144 arc_op_145 arc_op_146
  arc_op_147 arc_op_148 arc_op_149 arc_op_150 arc_op_151 arc_op_152 arc_op_153 arc_op_154
  arc_op_155 arc_op_156 arc_op_157 arc_op_158 arc_op_159 arc_op_160 arc_op_161 arc_op_162
  arc_op_163 arc_op_164 arc_op_165 arc_op_166 arc_op_167 arc_op_168 arc_op_169 arc_op_170
  arc_op_171 arc_op_172 arc_op_173 arc_op_174 arc_op_175 arc_op_176 arc_op_177 arc_op_178
  arc_op_179 arc_op_180 arc_op_181 arc_op_182 arc_op_183 arc_op_184 arc_op_185 arc_op_186
  arc_op_187 arc_op_188 arc_op_189 arc_op_190 arc_op_191 arc_op_192 arc_op_193 arc_op_194
  arc_op_195 arc_op_196 arc_op_197 arc_op_198 arc_op_199 arc_op_200 arc_op_201 arc_op_202
  arc_op_203 arc_op_204 arc_op_205 arc_op_206 arc_op_207 arc_op_208 arc_op_209 arc_op_210
  arc_op_211 arc_op_212 arc_op_213 arc_op_214 arc_op_215 arc_op_216 arc_op_217 arc_op_218
  arc_op_219 arc_op_220 arc_op_221 arc_op_222 arc_op_223 arc_op_224 arc_op_225 arc_op_226
  arc_op_227 arc_op_228 arc_op_229 arc_op_230 arc_op_231 arc_op_232 arc_op_233 arc_op_234
  arc_op_235 arc_op_236 arc_op_237 arc_op_238 arc_op_239 arc_op_240 arc_op_241 arc_op_242
  arc_op_243 arc_op_244 arc_op_245 arc_op_246 arc_op_247 arc_op_248 arc_op_249 arc_op_250
  arc_op_251 arc_op_252 arc_op_253 arc_op_254 arc_op_255 arc_op_256 arc_op_257 arc_op_258
  arc_op_259 arc_op_260 arc_op_261 arc_op_262 arc_op_263 arc_op_264 arc_op_265 arc_op_266
  arc_op_267 arc_op_268 arc_op_269 arc_op_270 arc_op_271 arc_op_272 arc_op_273 arc_op_274
  arc_op_275 arc_op_276 arc_op_277 arc_op_278 arc_op_279 arc_op_280 arc_op_281 arc_op_282
  arc_op_283 arc_op_284 arc_op_285 arc_op_286 arc_op_287 arc_op_288 arc_op_289 arc_op_290
  arc_op_291 arc_op_292 arc_op_293 arc_op_294 arc_op_295 arc_op_296 arc_op_297 arc_op_298
  arc_op_299 arc_op_300 arc_op_301 arc_op_302 arc_op_303 arc_op_304 arc_op_305 arc_op_306
  arc_op_307 arc_op_308 arc_op_309 arc_op_310 arc_op_311 arc_op_312 arc_op_313 arc_op_314
  arc_op_315 arc_op_316 arc_op_317 arc_op_318 arc_op_319 arc_op_320 arc_op_321 arc_op_322
  arc_op_323 arc_op_324 arc_op_325 arc_op_326 arc_op_327 arc_op_328 arc_op_329 arc_op_330
  arc_op_331 arc_op_332 arc_op_333 arc_op_334 arc_op_335 arc_op_336 arc_op_337 arc_op_338
  arc_op_339 arc_op_340 arc_op_341 arc_op_342 arc_op_343 arc_op_344 arc_op_345 arc_op_346
  arc_op_347 arc_op_348 arc_op_349 arc_op_350 arc_op_351 arc_op_352 arc_op_353 arc_op_354
  arc_op_355 arc_op_356 arc_op_357 arc_op_358 arc_op_359 arc_op_360 arc_op_361 arc_op_362
  arc_op_363 arc_op_364 arc_op_365 arc_op_366 arc_op_367 arc_op_368 arc_op_369 arc_op_370
  arc_op_371 arc_op_372 arc_op_373 arc_op_374 arc_op_375 arc_op_376 arc_op_377 arc_op_378
  arc_op_379 arc_op_380 arc_op_381 arc_op_382 arc_op_383 arc_op_384 arc_op_385 arc_op_386
  arc_op_387 arc_op_388 arc_op_389 arc_op_390 arc_op_391 arc_op_392 arc_op_393 arc_op_394
  arc_op_395 arc_op_396 arc_op_397 arc_op_398 arc_op_399 arc_op_400 arc_op_401 arc_op_402
  arc_op_403 arc_op_404 arc_op_405 arc_op_406 arc_op_407 arc_op_408 arc_op_409 arc_op_410
  arc_op_411 arc_op_412 arc_op_413 arc_op_414 arc_op_415 arc_op_416 arc_op_417 arc_op_418
  arc_op_419 arc_op_420 arc_op_421 arc_op_422 arc_op_423 arc_op_424 arc_op_425 arc_op_426
  arc_op_427 arc_op_428 arc_op_429 arc_op_430 arc_op_431 arc_op_432 arc_op_433 arc_op_434
  arc_op_435 arc_op_436 arc_op_437 arc_op_438 arc_op_439 arc_op_440 arc_op_441 arc_op_442
  arc_op_443 arc_op_444 arc_op_445 arc_op_446 arc_op_447 arc_op_448 arc_op_449 arc_op_450
  arc_op_451 arc_op_452 arc_op_453 arc_op_454 arc_op_455 arc_op_456 arc_op_457 arc_op_458
  arc_op_459 arc_op_460 arc_op_461 arc_op_462 arc_op_463 arc_op_464 arc_op_465 arc_op_466
  arc_op_467 arc_op_468 arc_op_469 arc_op_470 arc_op_471 arc_op_472 arc_op_473 arc_op_474
  arc_op_475 arc_op_476 arc_op_477 arc_op_478

text \<open>
  The eleven samples, the coefficients of the normal equations and the determinant. The
  sums carry rounding errors: the computed determinant is \<open>11 / 2\<^sup>3\<^sup>4\<close>, about
  \<open>6.4 \<times> 10\<^sup>-\<^sup>1\<^sup>0\<close>, not below \<open>10\<^sup>-\<^sup>1\<^sup>0\<close>, and a circle is fitted. Its center is about
  \<open>3.4 \<times> 10\<^sup>1\<^sup>5\<close> away in both coordinates and its radius is about \<open>4.8 \<times> 10\<^sup>1\<^sup>5\<close>, where
  neighbouring doubles are 1 apart: every computed distance to the center is
  4757219795367771, every computed error is 1, and the test against the tolerance 1
  passes.
\<close>

lemma line_sample_0:
  "evaluateBezierD lineBezier (Fin 0) = DPoint (Fin 7) (Fin 0)"
  by (simp add: evaluateBezierD_def Let_def lineBezier_def
      arc_op_12 arc_op_13 arc_op_14 arc_op_15 arc_op_16 arc_op_17 arc_op_18 arc_op_19 arc_op_20
      arc_op_21 arc_op_22 arc_op_23 arc_op_24 arc_op_25)

lemma line_sample_1:
  "evaluateBezierD lineBezier (Fin (3602879701896397 / 36028797018963968)) = DPoint (Fin (3617516400685351 / 562949953421312)) (Fin (2585066186110665 / 4503599627370496))"
  by (simp add: evaluateBezierD_def Let_def lineBezier_def
      arc_op_26 arc_op_27 arc_op_28 arc_op_29 arc_op_30 arc_op_31 arc_op_32 arc_op_33 arc_op_34
      arc_op_35 arc_op_36 arc_op_37 arc_op_38 arc_op_39 arc_op_40 arc_op_41 arc_op_42 arc_op_43
      arc_op_44 arc_op_45 arc_op_46 arc_op_47 arc_op_48)

lemma line_sample_2:
  "evaluateBezierD lineBezier (Fin (3602879701896397 / 18014398509481984)) = DPoint (Fin (1657324662872343 / 281474976710656)) (Fin (5008002785635993 / 4503599627370496))"
  by (simp add: evaluateBezierD_def Let_def lineBezier_def
      arc_op_49 arc_op_50 arc_op_51 arc_op_52 arc_op_53 arc_op_54 arc_op_55 arc_op_56 arc_op_57
      arc_op_58 arc_op_59 arc_op_60 arc_op_61 arc_op_62 arc_op_63 arc_op_64 arc_op_65 arc_op_66
      arc_op_67 arc_op_68 arc_op_69 arc_op_70 arc_op_71)

lemma line_sample_3:
  "evaluateBezierD lineBezier (Fin (5404319552844595 / 18014398509481984)) = DPoint (Fin (6037075300490149 / 1125899906842624)) (Fin (922112023704109 / 562949953421312))"
  by (simp add: evaluateBezierD_def Let_def lineBezier_def
      arc_op_72 arc_op_73 arc_op_74 arc_op_75 arc_op_76 arc_op_77 arc_op_78 arc_op_79 arc_op_80
      arc_op_81 arc_op_82 arc_op_83 arc_op_84 arc_op_85 arc_op_86 arc_op_87 arc_op_88 arc_op_89
      arc_op_90 arc_op_91 arc_op_92 arc_op_93 arc_op_94)

lemma line_sample_4:
  "evaluateBezierD lineBezier (Fin (3602879701896397 / 9007199254740992)) = DPoint (Fin (2715670575304409 / 562949953421312)) (Fin (1224979098644775 / 562949953421312))"
  by (simp add: evaluateBezierD_def Let_def lineBezier_def
      arc_op_95 arc_op_96 arc_op_97 arc_op_98 arc_op_99 arc_op_100 arc_op_101 arc_op_102
      arc_op_103 arc_op_104 arc_op_105 arc_op_106 arc_op_107 arc_op_108 arc_op_109 arc_op_110
      arc_op_111 arc_op_112 arc_op_113 arc_op_114 arc_op_115 arc_op_116 arc_op_117)

lemma line_sample_5:
  "evaluateBezierD lineBezier (Fin (1 / 2)) = DPoint (Fin (17 / 4)) (Fin (11 / 4))"
  by (simp add: evaluateBezierD_def Let_def lineBezier_def
      arc_op_118 arc_op_119 arc_op_120 arc_op_121 arc_op_122 arc_op_123 arc_op_124 arc_op_125
      arc_op_126 arc_op_127 arc_op_128 arc_op_129 arc_op_130 arc_op_131 arc_op_132 arc_op_133
      arc_op_134 arc_op_135 arc_op_136)

lemma line_sample_6:
  "evaluateBezierD lineBezier (Fin (5404319552844595 / 9007199254740992)) = DPoint (Fin (4071254063142929 / 1125899906842624)) (Fin (238127830297215 / 70368744177664))"
  by (simp add: evaluateBezierD_def Let_def lineBezier_def
      arc_op_137 arc_op_97 arc_op_96 arc_op_99 arc_op_98 arc_op_116 arc_op_138 arc_op_139
      arc_op_140 arc_op_141 arc_op_142 arc_op_143 arc_op_144 arc_op_145 arc_op_111 arc_op_146
      arc_op_109 arc_op_147 arc_op_148 arc_op_149 arc_op_150 arc_op_100 arc_op_151)

lemma line_sample_7:
  "evaluateBezierD lineBezier (Fin (3152519739159347 / 4503599627370496)) = DPoint (Fin (3262857930029925 / 1125899906842624)) (Fin (4618441417868443 / 1125899906842624))"
  by (simp add: evaluateBezierD_def Let_def lineBezier_def
      arc_op_152 arc_op_74 arc_op_153 arc_op_154 arc_op_75 arc_op_155 arc_op_156 arc_op_157
      arc_op_158 arc_op_159 arc_op_160 arc_op_161 arc_op_162 arc_op_163 arc_op_88 arc_op_164
      arc_op_165 arc_op_166 arc_op_167 arc_op_168 arc_op_169 arc_op_77 arc_op_170)

lemma line_sample_8:
  "evaluateBezierD lineBezier (Fin (3602879701896397 / 4503599627370496)) = DPoint (Fin (2332864606977917 / 1125899906842624)) (Fin (1387108685230113 / 281474976710656))"
  by (simp add: evaluateBezierD_def Let_def lineBezier_def
      arc_op_171 arc_op_51 arc_op_172 arc_op_173 arc_op_52 arc_op_174 arc_op_175 arc_op_176
      arc_op_177 arc_op_178 arc_op_179 arc_op_180 arc_op_181 arc_op_182 arc_op_65 arc_op_183
      arc_op_184 arc_op_185 arc_op_186 arc_op_187 arc_op_188 arc_op_54 arc_op_189)

lemma line_sample_9:
  "evaluateBezierD lineBezier (Fin (8106479329266893 / 9007199254740992)) = DPoint (Fin (1254252496222683 / 1125899906842624)) (Fin (6627046851675685 / 1125899906842624))"
  by (simp add: evaluateBezierD_def Let_def lineBezier_def
      arc_op_190 arc_op_28 arc_op_191 arc_op_192 arc_op_29 arc_op_193 arc_op_194 arc_op_195
      arc_op_196 arc_op_197 arc_op_198 arc_op_199 arc_op_200 arc_op_201 arc_op_42 arc_op_202
      arc_op_203 arc_op_204 arc_op_205 arc_op_206 arc_op_207 arc_op_31 arc_op_208)

lemma line_sample_10:
  "evaluateBezierD lineBezier (Fin 1) = DPoint (Fin 0) (Fin 7)"
  by (simp add: evaluateBezierD_def Let_def lineBezier_def
      arc_op_209 arc_op_14 arc_op_13 arc_op_25 arc_op_17 arc_op_210 arc_op_18 arc_op_23
      arc_op_20 arc_op_21 arc_op_22 arc_op_24 arc_op_15 arc_op_211)

definition line_points :: "dpoint list" where
  "line_points =
     [DPoint (Fin 7) (Fin 0),
      DPoint (Fin (3617516400685351 / 562949953421312)) (Fin (2585066186110665 / 4503599627370496)),
      DPoint (Fin (1657324662872343 / 281474976710656)) (Fin (5008002785635993 / 4503599627370496)),
      DPoint (Fin (6037075300490149 / 1125899906842624)) (Fin (922112023704109 / 562949953421312)),
      DPoint (Fin (2715670575304409 / 562949953421312)) (Fin (1224979098644775 / 562949953421312)),
      DPoint (Fin (17 / 4)) (Fin (11 / 4)),
      DPoint (Fin (4071254063142929 / 1125899906842624)) (Fin (238127830297215 / 70368744177664)),
      DPoint (Fin (3262857930029925 / 1125899906842624)) (Fin (4618441417868443 / 1125899906842624)),
      DPoint (Fin (2332864606977917 / 1125899906842624)) (Fin (1387108685230113 / 281474976710656)),
      DPoint (Fin (1254252496222683 / 1125899906842624)) (Fin (6627046851675685 / 1125899906842624)),
      DPoint (Fin 0) (Fin 7)]"

lemma line_samples: "bezierSamples lineBezier = line_points"
  by (simp add: bezierSamples_def line_points_def upt_11
      arc_op_1 arc_op_2 arc_op_3 arc_op_4 arc_op_5 arc_op_6 arc_op_7 arc_op_8 arc_op_9 arc_op_10
      arc_op_11
      line_sample_0 line_sample_1 line_sample_2 line_sample_3 line_sample_4 line_sample_5
      line_sample_6 line_sample_7 line_sample_8 line_sample_9 line_sample_10)

lemma line_sums:
  "circleSums line_points
     = (Fin (1219793537925393 / 2199023255552), Fin (- (76237096120337 / 137438953472)), Fin (2439587075850787 / 4398046511104),
        Fin (2134638691369437 / 1099511627776), Fin (4269277382738875 / 2199023255552))"
  by (simp add: circleSums_def Let_def line_points_def
      arc_op_211 arc_op_212 arc_op_213 arc_op_214 arc_op_215 arc_op_216 arc_op_217 arc_op_218
      arc_op_219 arc_op_220 arc_op_221 arc_op_23 arc_op_222 arc_op_223 arc_op_224 arc_op_225
      arc_op_226 arc_op_227 arc_op_228 arc_op_229 arc_op_230 arc_op_231 arc_op_232 arc_op_233
      arc_op_234 arc_op_235 arc_op_236 arc_op_237 arc_op_238 arc_op_239 arc_op_240 arc_op_241
      arc_op_242 arc_op_243 arc_op_244 arc_op_245 arc_op_246 arc_op_247 arc_op_248 arc_op_249
      arc_op_250 arc_op_251 arc_op_13 arc_op_252 arc_op_253 arc_op_254 arc_op_255 arc_op_256
      arc_op_257 arc_op_258 arc_op_259 arc_op_260 arc_op_261 arc_op_262 arc_op_263 arc_op_264
      arc_op_265 arc_op_266 arc_op_267 arc_op_268 arc_op_269 arc_op_270 arc_op_271 arc_op_272
      arc_op_273 arc_op_274 arc_op_275 arc_op_276 arc_op_277 arc_op_278 arc_op_279 arc_op_280
      arc_op_281 arc_op_282 arc_op_283 arc_op_284 arc_op_285 arc_op_286 arc_op_287 arc_op_288
      arc_op_289 arc_op_290 arc_op_25 arc_op_291 arc_op_292 arc_op_293 arc_op_294 arc_op_295
      arc_op_296 arc_op_297 arc_op_298 arc_op_299 arc_op_300 arc_op_301 arc_op_302 arc_op_303
      arc_op_304 arc_op_305 arc_op_306 arc_op_307 arc_op_308 arc_op_309 arc_op_310 arc_op_311
      arc_op_312 arc_op_313 arc_op_314 arc_op_315 arc_op_316 arc_op_317 arc_op_318 arc_op_319
      arc_op_320 arc_op_321 arc_op_322 arc_op_323 arc_op_324 arc_op_325 arc_op_326 arc_op_327
      arc_op_328 arc_op_329 arc_op_330 arc_op_331 arc_op_332 arc_op_333 arc_op_334 arc_op_335
      arc_op_336 arc_op_337 arc_op_338 arc_op_339 arc_op_340 arc_op_341 arc_op_342 arc_op_343
      arc_op_344 arc_op_345 arc_op_346 arc_op_347 arc_op_348 arc_op_349 arc_op_350 arc_op_351
      arc_op_352 arc_op_353 arc_op_354 arc_op_355 arc_op_356 arc_op_357 arc_op_358 arc_op_359
      arc_op_360 arc_op_361 arc_op_362 arc_op_363 arc_op_364 arc_op_365 arc_op_366 arc_op_367
      arc_op_368 arc_op_369 arc_op_370 arc_op_371 arc_op_372 arc_op_373 arc_op_374 arc_op_375
      arc_op_376 arc_op_377 arc_op_378 arc_op_379 arc_op_380 arc_op_381 arc_op_382 arc_op_383
      arc_op_384 arc_op_385 arc_op_386 arc_op_387 arc_op_388 arc_op_389 arc_op_390 arc_op_391
      arc_op_392 arc_op_393 arc_op_394 arc_op_395 arc_op_396)

lemma line_det: "circleDet line_points = Fin (11 / 17179869184)"
  by (simp add: circleDet_def line_sums
      arc_op_397 arc_op_398 arc_op_399)

lemma line_dist_1:
  "distanceD (DPoint (Fin 7) (Fin 0)) (DPoint (Fin (6727724753798871 / 2)) (Fin 3363862376899434)) = Fin 4757219795367771"
  by (simp add: distanceD_def Let_def arc_op_409 arc_op_410 arc_op_411 arc_op_412 arc_op_413 arc_op_414)

lemma line_dist_2:
  "distanceD (DPoint (Fin (3617516400685351 / 562949953421312)) (Fin (2585066186110665 / 4503599627370496))) (DPoint (Fin (6727724753798871 / 2)) (Fin 3363862376899434)) = Fin 4757219795367771"
  by (simp add: distanceD_def Let_def arc_op_414 arc_op_415 arc_op_416 arc_op_417 arc_op_418 arc_op_419)

lemma line_dist_3:
  "distanceD (DPoint (Fin (1657324662872343 / 281474976710656)) (Fin (5008002785635993 / 4503599627370496))) (DPoint (Fin (6727724753798871 / 2)) (Fin 3363862376899434)) = Fin 4757219795367771"
  by (simp add: distanceD_def Let_def arc_op_414 arc_op_420 arc_op_421 arc_op_422 arc_op_423 arc_op_424)

lemma line_dist_4:
  "distanceD (DPoint (Fin (6037075300490149 / 1125899906842624)) (Fin (922112023704109 / 562949953421312))) (DPoint (Fin (6727724753798871 / 2)) (Fin 3363862376899434)) = Fin 4757219795367771"
  by (simp add: distanceD_def Let_def arc_op_414 arc_op_425 arc_op_426 arc_op_427 arc_op_428 arc_op_429)

lemma line_dist_5:
  "distanceD (DPoint (Fin (2715670575304409 / 562949953421312)) (Fin (1224979098644775 / 562949953421312))) (DPoint (Fin (6727724753798871 / 2)) (Fin 3363862376899434)) = Fin 4757219795367771"
  by (simp add: distanceD_def Let_def arc_op_414 arc_op_430 arc_op_431 arc_op_432 arc_op_433 arc_op_434)

lemma line_dist_6:
  "distanceD (DPoint (Fin (17 / 4)) (Fin (11 / 4))) (DPoint (Fin (6727724753798871 / 2)) (Fin 3363862376899434)) = Fin 4757219795367771"
  by (simp add: distanceD_def Let_def arc_op_435 arc_op_436 arc_op_437 arc_op_438 arc_op_439)

lemma line_dist_7:
  "distanceD (DPoint (Fin (4071254063142929 / 1125899906842624)) (Fin (238127830297215 / 70368744177664))) (DPoint (Fin (6727724753798871 / 2)) (Fin 3363862376899434)) = Fin 4757219795367771"
  by (simp add: distanceD_def Let_def arc_op_414 arc_op_432 arc_op_433 arc_op_440 arc_op_441 arc_op_442)

lemma line_dist_8:
  "distanceD (DPoint (Fin (3262857930029925 / 1125899906842624)) (Fin (4618441417868443 / 1125899906842624))) (DPoint (Fin (6727724753798871 / 2)) (Fin 3363862376899434)) = Fin 4757219795367771"
  by (simp add: distanceD_def Let_def arc_op_414 arc_op_427 arc_op_428 arc_op_443 arc_op_444 arc_op_445)

lemma line_dist_9:
  "distanceD (DPoint (Fin (2332864606977917 / 1125899906842624)) (Fin (1387108685230113 / 281474976710656))) (DPoint (Fin (6727724753798871 / 2)) (Fin 3363862376899434)) = Fin 4757219795367771"
  by (simp add: distanceD_def Let_def arc_op_414 arc_op_417 arc_op_418 arc_op_446 arc_op_447 arc_op_448)

lemma line_dist_10:
  "distanceD (DPoint (Fin (1254252496222683 / 1125899906842624)) (Fin (6627046851675685 / 1125899906842624))) (DPoint (Fin (6727724753798871 / 2)) (Fin 3363862376899434)) = Fin 4757219795367771"
  by (simp add: distanceD_def Let_def arc_op_414 arc_op_449 arc_op_450 arc_op_451 arc_op_452 arc_op_453)

lemma line_dist_11:
  "distanceD (DPoint (Fin 0) (Fin 7)) (DPoint (Fin (6727724753798871 / 2)) (Fin 3363862376899434)) = Fin 4757219795367771"
  by (simp add: distanceD_def Let_def arc_op_414 arc_op_454 arc_op_455 arc_op_456 arc_op_457 arc_op_458)

lemmas line_dists = line_dist_1 line_dist_2 line_dist_3 line_dist_4 line_dist_5 line_dist_6
  line_dist_7 line_dist_8 line_dist_9 line_dist_10 line_dist_11

lemma line_fit:
  "fitCircleToPoints line_points
     = Some (DPoint (Fin (6727724753798871 / 2)) (Fin 3363862376899434),
             Fin 4757219795367770)"
  unfolding fitCircleToPoints_def line_sums line_det
  by (simp add: Let_def line_points_def arc_op_400
      arc_op_401 arc_op_402 arc_op_403 arc_op_404 arc_op_405 arc_op_406 arc_op_407 arc_op_408
      line_dist_1 line_dist_2 line_dist_3 line_dist_4 line_dist_5 line_dist_6 line_dist_7
      line_dist_8 line_dist_9 line_dist_10 line_dist_11
      arc_op_459 arc_op_460 arc_op_461 arc_op_462 arc_op_463 arc_op_464 arc_op_465 arc_op_466
      arc_op_467 arc_op_468 arc_op_469 arc_op_470)

lemma line_mid:
  "evaluateBezierD lineBezier (Fin (1 / 2)) = DPoint (Fin (17 / 4)) (Fin (11 / 4))"
  by (simp add: evaluateBezierD_def Let_def lineBezier_def
      arc_op_118 arc_op_119 arc_op_120 arc_op_121 arc_op_122 arc_op_123 arc_op_124 arc_op_125
      arc_op_126 arc_op_127 arc_op_128 arc_op_129 arc_op_130 arc_op_131 arc_op_132 arc_op_133
      arc_op_134 arc_op_135 arc_op_136)

lemma line_arc:
  "tryConvertBezierToArc lineBezier 1
     = Some \<lparr>arcStart = bzStart lineBezier, arcEnd = bzEnd lineBezier,
              center = DPoint (Fin (6727724753798871 / 2)) (Fin 3363862376899434),
              radius = Fin 4757219795367770, clockwise = False\<rparr>"
  unfolding tryConvertBezierToArc_def line_samples Let_def line_fit line_mid
  by (simp add: line_points_def lineBezier_def
      line_dist_1 line_dist_10 line_dist_11 line_dist_2 line_dist_3 line_dist_4 line_dist_5
      line_dist_6 line_dist_7 line_dist_8 line_dist_9
      arc_op_471
      arc_op_472 arc_op_473 arc_op_474 arc_op_475 arc_op_476 arc_op_477 arc_op_478)

lemma line_converted:
  "convertToArcs [Bezier lineBezier] 1
     = [ArcSegment \<lparr>arcStart = Point 7 0, arcEnd = Point 0 7,
              center = DPoint (Fin (6727724753798871 / 2)) (Fin 3363862376899434),
              radius = Fin 4757219795367770, clockwise = False\<rparr>]"
  by (simp add: convertToArcs_def line_arc) (simp add: lineBezier_def)

lemma line_deviation:
  "list_all (\<lambda>p. case radialDeviation p
                        (DPoint (Fin (6727724753798871 / 2)) (Fin 3363862376899434))
                        (Fin 4757219795367770) of
                   Some e \<Rightarrow> 1 < e | None \<Rightarrow> False) line_points"
proof -
  have far: "1 < \<bar>sqrt q - r\<bar>" if "(r + 1)\<^sup>2 < q" "0 \<le> r" for q r :: real
  proof -
    have "sqrt ((r + 1)\<^sup>2) < sqrt q" using that(1) by (rule real_sqrt_less_mono)
    then show ?thesis using that(2) by simp
  qed
  show ?thesis
    unfolding line_points_def list_all_Cons_iff list_all_Nil_iff radialDeviation.simps
      option.case
    by (intro conjI far TrueI) (simp_all add: power2_eq_square)
qed

text \<open>
  Claim C7 says that whenever \<^verbatim>\<open>convertToArcs\<close> replaces a B\'ezier curve by an arc at
  tolerance \<open>t\<close>, each of the 11 samples satisfies \<open>| |sample - center| - radius | \<le> t\<close>,
  and that a degenerate circle fit keeps the curve. At tolerance 1 the code replaces the
  straight curve \<open>lineBezier\<close> by an arc: the determinant it computes for the collinear
  samples is not 0 but \<open>11 / 2\<^sup>3\<^sup>4\<close>, and every one of the 11 samples is more than 1 away
  from the circle of the arc (about 1.58).
\<close>

theorem C7_straight_curve_becomes_arc:
  "convertToArcs [Bezier lineBezier] 1
     = [ArcSegment \<lparr>arcStart = Point 7 0, arcEnd = Point 0 7,
              center = DPoint (Fin (6727724753798871 / 2)) (Fin 3363862376899434),
              radius = Fin 4757219795367770, clockwise = False\<rparr>]
   \<and> circleDet (bezierSamples lineBezier) = Fin (11 / 17179869184)
   \<and> list_all (\<lambda>p. case radialDeviation p
                        (DPoint (Fin (6727724753798871 / 2)) (Fin 3363862376899434))
                        (Fin 4757219795367770) of
                   Some e \<Rightarrow> 1 < e | None \<Rightarrow> False) (bezierSamples lineBezier)"
  unfolding line_samples using line_converted line_deviation line_det by simp

section \<open>The curve fit of scenario S5\<close>

text \<open>
  Scenario S5 needs the fit to be computed: the claim holds because the first, longest
  window (all five points) is fitted within the tolerance, which depends on the 320
  comparisons of \<^verbatim>\<open>optimizeControlPoints\<close>. The control points start at \<open>0.6 \<surd>2\<close> from the
  end points and move in steps of \<open>0.5\<close>, so every number involved is \<open>a + b \<surd>2\<close> with
  rational \<open>a\<close> and \<open>b\<close>, written \<open>sq2 a b\<close>, and every comparison is decided exactly on the
  rational parts.
\<close>

definition sq2 :: "real \<Rightarrow> real \<Rightarrow> real" where
  "sq2 a b = a + b * sqrt 2"

lemma sq2_neg_pos:
  assumes "0 < B"
  shows "sq2 A B < 0 \<longleftrightarrow> A < 0 \<and> 2 * (B * B) < A * A"
proof -
  have s: "B * sqrt 2 = sqrt (2 * B\<^sup>2)"
    using assms by (simp add: real_sqrt_mult)
  have pos: "0 < B * sqrt 2" using assms by simp
  show ?thesis
  proof (cases "A < 0")
    case False
    with pos show ?thesis by (simp add: sq2_def)
  next
    case True
    have "sq2 A B < 0 \<longleftrightarrow> sqrt (2 * B\<^sup>2) < - A" unfolding sq2_def s by linarith
    also have "\<dots> \<longleftrightarrow> sqrt (2 * B\<^sup>2) < sqrt ((- A)\<^sup>2)" using True by simp
    also have "\<dots> \<longleftrightarrow> 2 * B\<^sup>2 < (- A)\<^sup>2" by (rule real_sqrt_less_iff)
    finally show ?thesis using True by (simp add: power2_eq_square)
  qed
qed

lemma sq2_neg_iff:
  "sq2 A B < 0 \<longleftrightarrow>
     (if B = 0 then A < 0
      else if 0 < B then A < 0 \<and> 2 * (B * B) < A * A
      else A \<le> 0 \<or> A * A < 2 * (B * B))"
proof -
  consider "B = 0" | "0 < B" | "B < 0" by linarith
  then show ?thesis
  proof cases
    case 1
    then show ?thesis by (simp add: sq2_def)
  next
    case 2
    then show ?thesis using sq2_neg_pos [OF 2, of A] by simp
  next
    case 3
    then have nb: "0 < - B" by simp
    have "sq2 A B < 0 \<longleftrightarrow> \<not> (sq2 (- A) (- B) < 0) \<and> sq2 A B \<noteq> 0"
      by (auto simp: sq2_def)
    moreover have "sq2 A B = 0 \<longleftrightarrow> A * A = 2 * (B * B) \<and> 0 \<le> A"
    proof
      assume "sq2 A B = 0"
      then have a: "A = (- B) * sqrt 2" by (simp add: sq2_def)
      then have "A * A = (B * B) * (sqrt 2 * sqrt 2)" by (simp only: mult_ac minus_mult_minus)
      then have "A * A = 2 * (B * B)" by simp
      moreover have "0 \<le> (- B) * sqrt 2" using nb by (intro mult_nonneg_nonneg) simp_all
      then have "0 \<le> A" using a by simp
      ultimately show "A * A = 2 * (B * B) \<and> 0 \<le> A" by simp
    next
      assume h: "A * A = 2 * (B * B) \<and> 0 \<le> A"
      have 1: "(- B * sqrt 2)\<^sup>2 = A\<^sup>2" using h by (simp add: power2_eq_square)
      have 2: "0 \<le> - B * sqrt 2" using nb by (intro mult_nonneg_nonneg) simp_all
      have 3: "0 \<le> A" using h by simp
      have "- B * sqrt 2 = A" by (rule power2_eq_imp_eq [OF 1 2 3])
      then show "sq2 A B = 0" by (simp add: sq2_def)
    qed
    ultimately show ?thesis using 3 sq2_neg_pos [OF nb, of "- A"] by auto
  qed
qed


text \<open>
  The polyline of the scenario; \<open>s5E\<close> is the sum of the squared distances between its
  points and a curve from \<open>(0,0)\<close> to \<open>(4,0)\<close> with control points \<open>(x1,y1)\<close> and \<open>(x2,y2)\<close>;
  \<open>s5D\<close> and \<open>s5H\<close> are the rational and the \<open>\<surd>2\<close> part of the change of that sum when the
  control points move by \<open>(p,q)\<close> and \<open>(r,s)\<close>.
\<close>

definition S5points :: path where
  "S5points = [Point 0 0, Point 1 1, Point 2 0, Point 3 (- 1), Point 4 0]"

definition s5E :: "real \<Rightarrow> real \<Rightarrow> real \<Rightarrow> real \<Rightarrow> real" where
  "s5E x1 y1 x2 y2 =
     ((27 * x1 + 9 * x2 - 60) / 64)\<^sup>2 + ((3 * x1 + 3 * x2 - 12) / 8)\<^sup>2
     + ((9 * x1 + 27 * x2 - 84) / 64)\<^sup>2
     + ((27 * y1 + 9 * y2 - 64) / 64)\<^sup>2 + ((3 * y1 + 3 * y2) / 8)\<^sup>2
     + ((9 * y1 + 27 * y2 + 64) / 64)\<^sup>2"

definition s5D :: "real \<Rightarrow> real \<Rightarrow> real \<Rightarrow> real \<Rightarrow> real \<Rightarrow> real \<Rightarrow> real \<Rightarrow> real \<Rightarrow> real" where
  "s5D p q r s a1 a2 a3 a4 =
     ((27 * p + 9 * r) / 64) * (2 * ((27 * a1 + 9 * a3 - 60) / 64) + (27 * p + 9 * r) / 64)
     + ((3 * p + 3 * r) / 8) * (2 * ((3 * a1 + 3 * a3 - 12) / 8) + (3 * p + 3 * r) / 8)
     + ((9 * p + 27 * r) / 64) * (2 * ((9 * a1 + 27 * a3 - 84) / 64) + (9 * p + 27 * r) / 64)
     + ((27 * q + 9 * s) / 64) * (2 * ((27 * a2 + 9 * a4 - 64) / 64) + (27 * q + 9 * s) / 64)
     + ((3 * q + 3 * s) / 8) * (2 * ((3 * a2 + 3 * a4) / 8) + (3 * q + 3 * s) / 8)
     + ((9 * q + 27 * s) / 64) * (2 * ((9 * a2 + 27 * a4 + 64) / 64) + (9 * q + 27 * s) / 64)"

definition s5H :: "real \<Rightarrow> real \<Rightarrow> real \<Rightarrow> real \<Rightarrow> real \<Rightarrow> real \<Rightarrow> real \<Rightarrow> real \<Rightarrow> real" where
  "s5H p q r s b1 b2 b3 b4 =
     ((27 * p + 9 * r) / 64) * (2 * ((27 * b1 + 9 * b3) / 64))
     + ((3 * p + 3 * r) / 8) * (2 * ((3 * b1 + 3 * b3) / 8))
     + ((9 * p + 27 * r) / 64) * (2 * ((9 * b1 + 27 * b3) / 64))
     + ((27 * q + 9 * s) / 64) * (2 * ((27 * b2 + 9 * b4) / 64))
     + ((3 * q + 3 * s) / 8) * (2 * ((3 * b2 + 3 * b4) / 8))
     + ((9 * q + 27 * s) / 64) * (2 * ((9 * b2 + 27 * b4) / 64))"

text \<open>
  The optimizer's state on the rational parts: the four control coordinates as pairs
  \<open>(a, b)\<close>. \<open>shStep\<close> is one candidate of the double loop, \<open>emb\<close> maps a state back to the
  loop state of \<^verbatim>\<open>optimizeControlPoints\<close>.
\<close>

type_synonym sh = "real \<times> real \<times> real \<times> real \<times> real \<times> real \<times> real \<times> real"

definition shStep :: "real \<times> real \<Rightarrow> real \<times> real \<Rightarrow> sh \<Rightarrow> sh" where
  "shStep p1 p2 st =
     (case st of (a1, b1, a2, b2, a3, b3, a4, b4) \<Rightarrow>
        let A = s5D (fst p1) (snd p1) (fst p2) (snd p2) a1 a2 a3 a4;
            B = s5H (fst p1) (snd p1) (fst p2) (snd p2) b1 b2 b3 b4
        in if (if B = 0 then A < 0
               else if 0 < B then A < 0 \<and> 2 * (B * B) < A * A
               else A \<le> 0 \<or> A * A < 2 * (B * B))
           then (a1 + fst p1, b1, a2 + snd p1, b2, a3 + fst p2, b3, a4 + snd p2, b4)
           else st)"



lemma fold_perturbations:
  "fold f perturbations s
     = f (- 0.5, 0.5) (f (0.5, - 0.5) (f (- 0.5, - 0.5) (f (0.5, 0.5)
         (f (0, - 0.5) (f (0, 0.5) (f (- 0.5, 0) (f (0.5, 0) s)))))))"
  by (simp add: perturbations_def)

lemma fold_five: "fold (\<lambda>iter. g) [0..<5] s = g (g (g (g (g s))))"
  by (simp add: upt_rec)

lemma shadow_inner_0:
  "fold (shStep (0.5, 0)) perturbations
     (0, 3/5, 0, 3/5, 4, - (3/5), 0, - (3/5))
   = (1, 3/5, 0, 3/5, 7/2, - (3/5), - (1/2), - (3/5))"
  by (simp add: shStep_def s5D_def s5H_def perturbations_def)

lemma shadow_inner_1:
  "fold (shStep (- 0.5, 0)) perturbations
     (1, 3/5, 0, 3/5, 7/2, - (3/5), - (1/2), - (3/5))
   = (0, 3/5, 0, 3/5, 4, - (3/5), - 1, - (3/5))"
  by (simp add: shStep_def s5D_def s5H_def perturbations_def)

lemma shadow_inner_2:
  "fold (shStep (0, 0.5)) perturbations
     (0, 3/5, 0, 3/5, 4, - (3/5), - 1, - (3/5))
   = (0, 3/5, 5/2, 3/5, 4, - (3/5), - (5/2), - (3/5))"
  by (simp add: shStep_def s5D_def s5H_def perturbations_def)

lemma shadow_inner_3:
  "fold (shStep (0, - 0.5)) perturbations
     (0, 3/5, 5/2, 3/5, 4, - (3/5), - (5/2), - (3/5))
   = (0, 3/5, 5/2, 3/5, 4, - (3/5), - (5/2), - (3/5))"
  by (simp add: shStep_def s5D_def s5H_def perturbations_def)

lemma shadow_inner_4:
  "fold (shStep (0.5, 0.5)) perturbations
     (0, 3/5, 5/2, 3/5, 4, - (3/5), - (5/2), - (3/5))
   = (1/2, 3/5, 3, 3/5, 7/2, - (3/5), - 3, - (3/5))"
  by (simp add: shStep_def s5D_def s5H_def perturbations_def)

lemma shadow_inner_5:
  "fold (shStep (- 0.5, - 0.5)) perturbations
     (1/2, 3/5, 3, 3/5, 7/2, - (3/5), - 3, - (3/5))
   = (1/2, 3/5, 3, 3/5, 7/2, - (3/5), - 3, - (3/5))"
  by (simp add: shStep_def s5D_def s5H_def perturbations_def)

lemma shadow_inner_6:
  "fold (shStep (0.5, - 0.5)) perturbations
     (1/2, 3/5, 3, 3/5, 7/2, - (3/5), - 3, - (3/5))
   = (1/2, 3/5, 3, 3/5, 7/2, - (3/5), - 3, - (3/5))"
  by (simp add: shStep_def s5D_def s5H_def perturbations_def)

lemma shadow_inner_7:
  "fold (shStep (- 0.5, 0.5)) perturbations
     (1/2, 3/5, 3, 3/5, 7/2, - (3/5), - 3, - (3/5))
   = (1/2, 3/5, 3, 3/5, 7/2, - (3/5), - 3, - (3/5))"
  by (simp add: shStep_def s5D_def s5H_def perturbations_def)

lemma shadow_inner_8:
  "fold (shStep (0.5, 0)) perturbations
     (1/2, 3/5, 3, 3/5, 7/2, - (3/5), - 3, - (3/5))
   = (1/2, 3/5, 3, 3/5, 7/2, - (3/5), - 3, - (3/5))"
  by (simp add: shStep_def s5D_def s5H_def perturbations_def)

lemma shadow_inner_9:
  "fold (shStep (- 0.5, 0)) perturbations
     (1/2, 3/5, 3, 3/5, 7/2, - (3/5), - 3, - (3/5))
   = (1/2, 3/5, 3, 3/5, 7/2, - (3/5), - 3, - (3/5))"
  by (simp add: shStep_def s5D_def s5H_def perturbations_def)

lemma shadow_inner_10:
  "fold (shStep (0, 0.5)) perturbations
     (1/2, 3/5, 3, 3/5, 7/2, - (3/5), - 3, - (3/5))
   = (1/2, 3/5, 3, 3/5, 7/2, - (3/5), - 3, - (3/5))"
  by (simp add: shStep_def s5D_def s5H_def perturbations_def)

lemma shadow_inner_11:
  "fold (shStep (0, - 0.5)) perturbations
     (1/2, 3/5, 3, 3/5, 7/2, - (3/5), - 3, - (3/5))
   = (1/2, 3/5, 5/2, 3/5, 7/2, - (3/5), - (5/2), - (3/5))"
  by (simp add: shStep_def s5D_def s5H_def perturbations_def)

lemma shadow_inner_12:
  "fold (shStep (0.5, 0.5)) perturbations
     (1/2, 3/5, 5/2, 3/5, 7/2, - (3/5), - (5/2), - (3/5))
   = (1/2, 3/5, 5/2, 3/5, 7/2, - (3/5), - (5/2), - (3/5))"
  by (simp add: shStep_def s5D_def s5H_def perturbations_def)

lemma shadow_inner_13:
  "fold (shStep (- 0.5, - 0.5)) perturbations
     (1/2, 3/5, 5/2, 3/5, 7/2, - (3/5), - (5/2), - (3/5))
   = (1/2, 3/5, 5/2, 3/5, 7/2, - (3/5), - (5/2), - (3/5))"
  by (simp add: shStep_def s5D_def s5H_def perturbations_def)

lemma shadow_inner_14:
  "fold (shStep (0.5, - 0.5)) perturbations
     (1/2, 3/5, 5/2, 3/5, 7/2, - (3/5), - (5/2), - (3/5))
   = (1/2, 3/5, 5/2, 3/5, 7/2, - (3/5), - (5/2), - (3/5))"
  by (simp add: shStep_def s5D_def s5H_def perturbations_def)

lemma shadow_inner_15:
  "fold (shStep (- 0.5, 0.5)) perturbations
     (1/2, 3/5, 5/2, 3/5, 7/2, - (3/5), - (5/2), - (3/5))
   = (1/2, 3/5, 5/2, 3/5, 7/2, - (3/5), - (5/2), - (3/5))"
  by (simp add: shStep_def s5D_def s5H_def perturbations_def)

lemma shadow_inner_16:
  "fold (shStep (0.5, 0)) perturbations
     (1/2, 3/5, 5/2, 3/5, 7/2, - (3/5), - (5/2), - (3/5))
   = (1/2, 3/5, 5/2, 3/5, 7/2, - (3/5), - (5/2), - (3/5))"
  by (simp add: shStep_def s5D_def s5H_def perturbations_def)

lemma shadow_inner_17:
  "fold (shStep (- 0.5, 0)) perturbations
     (1/2, 3/5, 5/2, 3/5, 7/2, - (3/5), - (5/2), - (3/5))
   = (1/2, 3/5, 5/2, 3/5, 7/2, - (3/5), - (5/2), - (3/5))"
  by (simp add: shStep_def s5D_def s5H_def perturbations_def)

lemma shadow_inner_18:
  "fold (shStep (0, 0.5)) perturbations
     (1/2, 3/5, 5/2, 3/5, 7/2, - (3/5), - (5/2), - (3/5))
   = (1/2, 3/5, 5/2, 3/5, 7/2, - (3/5), - (5/2), - (3/5))"
  by (simp add: shStep_def s5D_def s5H_def perturbations_def)

lemma shadow_inner_19:
  "fold (shStep (0, - 0.5)) perturbations
     (1/2, 3/5, 5/2, 3/5, 7/2, - (3/5), - (5/2), - (3/5))
   = (1/2, 3/5, 5/2, 3/5, 7/2, - (3/5), - (5/2), - (3/5))"
  by (simp add: shStep_def s5D_def s5H_def perturbations_def)

lemma shadow_pass_0:
  "fold (\<lambda>p1. fold (shStep p1) perturbations) perturbations
     (0, 3/5, 0, 3/5, 4, - (3/5), 0, - (3/5))
   = (1/2, 3/5, 3, 3/5, 7/2, - (3/5), - 3, - (3/5))"
  by (subst fold_perturbations) (simp only: shadow_inner_0 shadow_inner_1 shadow_inner_2 shadow_inner_3 shadow_inner_4 shadow_inner_5 shadow_inner_6 shadow_inner_7)

lemma shadow_pass_1:
  "fold (\<lambda>p1. fold (shStep p1) perturbations) perturbations
     (1/2, 3/5, 3, 3/5, 7/2, - (3/5), - 3, - (3/5))
   = (1/2, 3/5, 5/2, 3/5, 7/2, - (3/5), - (5/2), - (3/5))"
  by (subst fold_perturbations) (simp only: shadow_inner_8 shadow_inner_9 shadow_inner_10 shadow_inner_11 shadow_inner_12 shadow_inner_13 shadow_inner_14 shadow_inner_15)

lemma shadow_pass_2:
  "fold (\<lambda>p1. fold (shStep p1) perturbations) perturbations
     (1/2, 3/5, 5/2, 3/5, 7/2, - (3/5), - (5/2), - (3/5))
   = (1/2, 3/5, 5/2, 3/5, 7/2, - (3/5), - (5/2), - (3/5))"
  by (subst fold_perturbations) (simp only: shadow_inner_16 shadow_inner_17 shadow_inner_18 shadow_inner_19 shadow_inner_12 shadow_inner_13 shadow_inner_14 shadow_inner_15)

lemma shadow_run:
  "fold (\<lambda>iter. fold (\<lambda>p1. fold (shStep p1) perturbations) perturbations) [0..<5]
     (0, 3/5, 0, 3/5, 4, - (3/5), 0, - (3/5))
   = (1/2, 3/5, 5/2, 3/5, 7/2, - (3/5), - (5/2), - (3/5))"
  by (simp only: fold_five shadow_pass_0 shadow_pass_1 shadow_pass_2)

lemma distance_sq: "distance p q * distance p q = (px q - px p)\<^sup>2 + (py q - py p)\<^sup>2"
  by (simp add: distance_def Let_def power2_eq_square)

lemma S5_error:
  "calculateCurveError S5points
     \<lparr>bzStart = Point 0 0, control1 = Point x1 y1, control2 = Point x2 y2, bzEnd = Point 4 0\<rparr>
   = sqrt (s5E x1 y1 x2 y2 / 5)"
proof -
  have "fold (\<lambda>i total.
              let t = real i / (real (length S5points) - 1);
                  curvePoint = evaluateBezier
                    \<lparr>bzStart = Point 0 0, control1 = Point x1 y1, control2 = Point x2 y2,
                     bzEnd = Point 4 0\<rparr> t;
                  err = distance (S5points ! i) curvePoint
              in total + err * err) [0..<length S5points] 0
        = s5E x1 y1 x2 y2"
    apply (simp add: S5points_def upt_rec Let_def distance_sq evaluateBezier_def s5E_def)
    apply (simp add: power2_eq_square field_simps)
    done
  then show ?thesis
    by (simp add: calculateCurveError_def Let_def S5points_def)
qed

lemma s5E_diff:
  "s5E (a1 + b1 * w + p) (a2 + b2 * w + q) (a3 + b3 * w + r) (a4 + b4 * w + s)
     - s5E (a1 + b1 * w) (a2 + b2 * w) (a3 + b3 * w) (a4 + b4 * w)
   = s5D p q r s a1 a2 a3 a4 + s5H p q r s b1 b2 b3 b4 * w"
  unfolding s5E_def s5D_def s5H_def by algebra

definition emb :: "sh \<Rightarrow> point \<times> point \<times> real" where
  "emb st =
     (case st of (a1, b1, a2, b2, a3, b3, a4, b4) \<Rightarrow>
        (Point (sq2 a1 b1) (sq2 a2 b2), Point (sq2 a3 b3) (sq2 a4 b4),
         sqrt (s5E (sq2 a1 b1) (sq2 a2 b2) (sq2 a3 b3) (sq2 a4 b4) / 5)))"

lemma sq2_add: "sq2 a b + p = sq2 (a + p) b"
  by (simp add: sq2_def)

lemma perturbStep_emb:
  "perturbStep S5points (Point 0 0) (Point 4 0) p1 p2 (emb st) = emb (shStep p1 p2 st)"
proof -
  obtain a1 b1 a2 b2 a3 b3 a4 b4 where st: "st = (a1, b1, a2, b2, a3, b3, a4, b4)"
    by (cases st) auto
  obtain p q where p1: "p1 = (p, q)" by (cases p1)
  obtain r s where p2: "p2 = (r, s)" by (cases p2)
  let ?A = "s5D p q r s a1 a2 a3 a4" and ?B = "s5H p q r s b1 b2 b3 b4"
  let ?E' = "s5E (sq2 a1 b1 + p) (sq2 a2 b2 + q) (sq2 a3 b3 + r) (sq2 a4 b4 + s)"
  let ?E = "s5E (sq2 a1 b1) (sq2 a2 b2) (sq2 a3 b3) (sq2 a4 b4)"
  have d: "?E' - ?E = sq2 ?A ?B"
    unfolding sq2_def by (rule s5E_diff)
  have "sqrt (?E' / 5) < sqrt (?E / 5) \<longleftrightarrow> ?E' - ?E < 0" by simp
  also have "\<dots> \<longleftrightarrow> (if ?B = 0 then ?A < 0
               else if 0 < ?B then ?A < 0 \<and> 2 * (?B * ?B) < ?A * ?A
               else ?A \<le> 0 \<or> ?A * ?A < 2 * (?B * ?B))"
    unfolding d by (rule sq2_neg_iff)
  finally have c: "sqrt (?E' / 5) < sqrt (?E / 5) \<longleftrightarrow> (if ?B = 0 then ?A < 0
               else if 0 < ?B then ?A < 0 \<and> 2 * (?B * ?B) < ?A * ?A
               else ?A \<le> 0 \<or> ?A * ?A < 2 * (?B * ?B))" .
  show ?thesis
    unfolding st p1 p2 perturbStep_def emb_def shStep_def
    by (simp only: prod.case Let_def fst_conv snd_conv point.sel S5_error c sq2_add [symmetric]
        split: if_splits) simp
qed

lemma fold_emb:
  "(\<And>x st. f x (emb st) = emb (g x st)) \<Longrightarrow> fold f xs (emb st) = emb (fold g xs st)"
  by (induction xs arbitrary: st) simp_all

lemma optimize_S5:
  "optimizeControlPoints S5points (Point 0 0) (Point (sq2 0 (3/5)) (sq2 0 (3/5)))
     (Point (sq2 4 (- (3/5))) (sq2 0 (- (3/5)))) (Point 4 0)
   = (Point (sq2 (1/2) (3/5)) (sq2 (5/2) (3/5)), Point (sq2 (7/2) (- (3/5))) (sq2 (- (5/2)) (- (3/5))))"
proof -
  let ?init = "(0, 3/5, 0, 3/5, 4, - (3/5), 0, - (3/5)) :: sh"
  have i: "(Point (sq2 0 (3/5)) (sq2 0 (3/5)), Point (sq2 4 (- (3/5))) (sq2 0 (- (3/5))),
            calculateCurveError S5points
              \<lparr>bzStart = Point 0 0, control1 = Point (sq2 0 (3/5)) (sq2 0 (3/5)),
               control2 = Point (sq2 4 (- (3/5))) (sq2 0 (- (3/5))), bzEnd = Point 4 0\<rparr>)
           = emb ?init"
    by (simp add: emb_def S5_error)
  have inner: "fold (perturbStep S5points (Point 0 0) (Point 4 0) p1) perturbations (emb st)
      = emb (fold (shStep p1) perturbations st)" for p1 st
    by (rule fold_emb) (rule perturbStep_emb)
  have mid: "fold (\<lambda>p1. fold (perturbStep S5points (Point 0 0) (Point 4 0) p1) perturbations)
        perturbations (emb st)
      = emb (fold (\<lambda>p1. fold (shStep p1) perturbations) perturbations st)" for st
    by (rule fold_emb) (rule inner)
  have outer: "fold (\<lambda>iter. fold (\<lambda>p1. fold (perturbStep S5points (Point 0 0) (Point 4 0) p1)
          perturbations) perturbations) [0..<5] (emb st)
      = emb (fold (\<lambda>iter. fold (\<lambda>p1. fold (shStep p1) perturbations) perturbations) [0..<5] st)"
    for st
    by (rule fold_emb) (rule mid)
  show ?thesis
    unfolding optimizeControlPoints_def Let_def i outer shadow_run
    by (simp add: emb_def)
qed


lemma sqrt2_sq: "sqrt 2 * sqrt 2 = 2"
  by simp

lemma inv_sqrt2: "1 / sqrt 2 * (4 * 0.3) = 3/5 * sqrt 2"
proof -
  have "3/5 * sqrt 2 * sqrt 2 = 6/5" by simp
  then show ?thesis by (simp add: field_simps)
qed

lemma S5_tangent_start: "calculateTangent S5points 0 = Point (1 / sqrt 2) (1 / sqrt 2)"
  by (simp add: calculateTangent_def S5points_def Let_def)

lemma S5_tangent_end: "calculateTangent S5points 4 = Point (1 / sqrt 2) (1 / sqrt 2)"
  by (simp add: calculateTangent_def S5points_def Let_def)

definition S5curve :: BezierCurve where
  "S5curve =
     \<lparr>bzStart = Point 0 0,
      control1 = Point (sq2 (1/2) (3/5)) (sq2 (5/2) (3/5)),
      control2 = Point (sq2 (7/2) (- (3/5))) (sq2 (- (5/2)) (- (3/5))),
      bzEnd = Point 4 0\<rparr>"

lemma S5_fit: "fitBezierToPoints S5points = S5curve"
proof -
  have n: "length S5points = 5" "S5points ! 0 = Point 0 0" "S5points ! (5 - 1) = Point 4 0"
    by (simp_all add: S5points_def)
  have c1: "0 + 1 / sqrt 2 * (4 * 0.3) = sq2 0 (3/5)" "4 - 1 / sqrt 2 * (4 * 0.3) = sq2 4 (- (3/5))"
    "0 - 1 / sqrt 2 * (4 * 0.3) = sq2 0 (- (3/5))"
    unfolding inv_sqrt2 by (simp_all add: sq2_def)
  have d: "distance (Point 0 0) (Point 4 0) = 4"
    by (simp add: distance_def)
  have t4: "calculateTangent S5points (5 - 1) = Point (1 / sqrt 2) (1 / sqrt 2)"
    using S5_tangent_end by simp
  have n3: "\<not> (5::nat) < 3" by simp
  show ?thesis
    unfolding fitBezierToPoints_def Let_def n
    by (simp only: n3 if_False S5_tangent_start t4 d point.sel c1 optimize_S5 fst_conv snd_conv
        S5curve_def)
qed

lemma sq2_square: "(sq2 u v)\<^sup>2 = sq2 (u * u + 2 * (v * v)) (2 * (u * v))"
proof -
  have "(u + v * sqrt 2) * (u + v * sqrt 2) = u * u + v * v * (sqrt 2 * sqrt 2) + 2 * (u * v) * sqrt 2"
    by (simp only: algebra_simps)
  then show ?thesis by (simp add: sq2_def power2_eq_square)
qed

lemma sq2_lin:
  "(k1 * sq2 a1 b1 + k2 * sq2 a2 b2 + c) / d = sq2 ((k1 * a1 + k2 * a2 + c) / d) ((k1 * b1 + k2 * b2) / d)"
  "(k1 * sq2 a1 b1 + k2 * sq2 a2 b2 - c) / d = sq2 ((k1 * a1 + k2 * a2 - c) / d) ((k1 * b1 + k2 * b2) / d)"
  "(k1 * sq2 a1 b1 + k2 * sq2 a2 b2) / d = sq2 ((k1 * a1 + k2 * a2) / d) ((k1 * b1 + k2 * b2) / d)"
  by (simp_all add: sq2_def algebra_simps add_divide_distrib diff_divide_distrib)

lemma sq2_plus: "sq2 a b + sq2 c d = sq2 (a + c) (b + d)"
  by (simp add: sq2_def algebra_simps)

lemma S5_sqerror:
  "s5E (sq2 (1/2) (3/5)) (sq2 (5/2) (3/5)) (sq2 (7/2) (- (3/5))) (sq2 (- (5/2)) (- (3/5)))
     = sq2 (13157/25600) (- (459/1280))"
  unfolding s5E_def sq2_lin sq2_square sq2_plus by simp

lemma S5_error_le: "calculateCurveError S5points S5curve \<le> 1/10"
proof -
  have "\<not> sq2 (1/20 - 13157/25600) (459/1280) < 0"
    unfolding sq2_neg_iff by simp
  then have "sq2 (13157/25600) (- (459/1280)) / 5 \<le> (1/10)\<^sup>2"
    by (simp add: sq2_def power2_eq_square)
  then have "sqrt (sq2 (13157/25600) (- (459/1280)) / 5) \<le> 1/10"
    by (intro real_le_lsqrt) simp_all
  then show ?thesis
    by (simp only: S5curve_def S5_error S5_sqerror)
qed

text \<open>The \<^verbatim>\<open>start\<close> and \<^verbatim>\<open>end\<close> fields that both shapes of a curve segment have.\<close>

definition curveStart :: "CurveSegment \<Rightarrow> point" where
  "curveStart c = (case c of Bezier b \<Rightarrow> bzStart b | ArcSegment a \<Rightarrow> arcStart a)"

definition curveEnd :: "CurveSegment \<Rightarrow> point" where
  "curveEnd c = (case c of Bezier b \<Rightarrow> bzEnd b | ArcSegment a \<Rightarrow> arcEnd a)"

lemma S5_best: "findBestCurveFit S5points 0 (1/10) = Some (S5curve, 4)"
proof -
  have l: "rev [3..<min (length S5points - 0) 20 + 1] = [5, 4, 3]"
    by (simp add: S5points_def upt_rec)
  have t: "take (0 + 5 - 1 + 1 - 0) (drop 0 S5points) = S5points"
    by (simp add: S5points_def)
  have n: "length S5points = 5" by (simp add: S5points_def)
  show ?thesis
    unfolding findBestCurveFit_def l findBestLoop.simps Let_def t
    using S5_error_le by (simp add: S5_fit n)
qed

lemma S5_fitCurves: "fitCurves S5points (1/10) = [Bezier S5curve]"
proof -
  have n: "length S5points = 5" by (simp add: S5points_def)
  have "fitLoop S5points (1/10) 4 [Bezier S5curve] = [Bezier S5curve]"
    by (subst fitLoop.simps) (simp add: n)
  then have "fitLoop S5points (1/10) 0 [] = [Bezier S5curve]"
    by (subst fitLoop.simps) (simp add: n S5_best)
  then show ?thesis by (simp add: fitCurves_def n)
qed

text \<open>
  Claim C6 (scenario S5). Fitting curves to \<open>[(0,0),(1,1),(2,0),(3,-1),(4,0)]\<close> with
  tolerance 0.1 gives a non-empty list of curve segments; the first one starts at \<open>(0,0)\<close>
  and the last one ends at \<open>(4,0)\<close>. (The list is the single curve \<open>S5curve\<close>, whose RMS
  error is about 0.037.)
\<close>

theorem C6_fit_endpoints:
  "fitCurves S5points (1/10) \<noteq> []
   \<and> curveStart (hd (fitCurves S5points (1/10))) = Point 0 0
   \<and> curveEnd (last (fitCurves S5points (1/10))) = Point 4 0"
  by (simp add: S5_fitCurves curveStart_def curveEnd_def S5curve_def)

section \<open>Runs of the advanced hatcher\<close>

lemma varyLineLength_short:
  "varyLineLength
     [Point 0 3, Point 1 3, Point 2 3, Point 3 3, Point 4 3, Point 5 3, Point 6 3, Point 7 3]
     (0.8 + 0.9 * 0.4)
   = [Point 7 3]"
  by (simp add: varyLineLength_def jsSlice_def Let_def)

text \<open>
  A concrete run: an 8 by 6 mask with every pixel set, base spacing 10 and primary angle
  \<open>-90\<close>. Layer 0 draws one vertical line of 6 points, layer 1 (angle 0, spacing 13) one
  horizontal line of 8 points.
\<close>

definition fullMask :: Mask where
  "fullMask = \<lparr>maskCols = 8, maskRows = 6, maskData = replicate 48 255\<rparr>"

lemma sqrt_100: "sqrt 100 = 10" by (rule real_sqrt_unique) auto

lemma angle_m90: "cos (- 90 * pi / 180) = 0" "sin (- 90 * pi / 180) = - 1"
proof -
  have "- 90 * pi / 180 = - (pi / 2)" by simp
  then show "cos (- 90 * pi / 180) = 0" "sin (- 90 * pi / 180) = - 1" by simp_all
qed

lemma inFull:
  "0 \<le> x \<Longrightarrow> x < 8 \<Longrightarrow> 0 \<le> y \<Longrightarrow> y < 6 \<Longrightarrow>
     isPointInMask (Point (of_int x) (of_int y)) fullMask"
proof -
  assume a: "0 \<le> x" "x < 8" "0 \<le> y" "y < 6"
  then have "nat y * 8 + nat x < 48" by linarith
  then show ?thesis using a by (simp add: isPointInMask_def fullMask_def)
qed


lemma hatchSample_full:
  "hatchSample fullMask 8 6 x y (pth, b, pths) =
     (if 0 \<le> x \<and> x < 8 \<and> 0 \<le> y \<and> y < 6
      then (pth @ [Point (of_int x) (of_int y)], True, pths) else (pth, b, pths))"
  by (simp add: hatchSample_def inFull)

lemma round_m1: "round (- 1 :: real) = - 1"
  by (simp add: round_def)

lemma upt_21: "[0..<21]
    = [0, 1, 2, 3, 4, 5, 6, 7, 8, 9, 10, 11, 12, 13, 14, 15, 16, 17, 18, 19, 20]"
  by (simp add: upt_rec)

lemma line_v0:
  "hatchLine fullMask 8 6 10 0 (- 1) 0 [] =
     [[Point 0 5, Point 0 4, Point 0 3, Point 0 2, Point 0 1, Point 0 0]]"
  by (simp add: hatchLine_def hatchSample_full Let_def upt_21 round_m1)


lemma line_other:
  "hatchLine fullMask 8 6 10 0 (- 1) (- 10) [] = []"
  "hatchLine fullMask 8 6 10 1 0 (- 10) [] = []"
  by (simp_all add: hatchLine_def hatchSample_full Let_def upt_21 round_m1)

lemma line_h3:
  "hatchLine fullMask 8 6 10 1 0 3 [] =
     [[Point 0 3, Point 1 3, Point 2 3, Point 3 3, Point 4 3, Point 5 3, Point 6 3, Point 7 3]]"
  by (simp add: hatchLine_def hatchSample_full Let_def upt_21 round_m1)

lemma layer0: "generateParallelHatching fullMask 1 10 (- 90) 8 6 =
    Some [[Point 0 5, Point 0 4, Point 0 3, Point 0 2, Point 0 1, Point 0 0]]"
proof -
  have "hatchLoop fullMask 8 6 10 0 (- 1) 10 10 ps = Some ps" for ps
    by (subst hatchLoop.simps) simp
  then have "hatchLoop fullMask 8 6 10 0 (- 1) 10 0 [] =
      Some [[Point 0 5, Point 0 4, Point 0 3, Point 0 2, Point 0 1, Point 0 0]]"
    by (subst hatchLoop.simps) (simp add: line_v0)
  then have "hatchLoop fullMask 8 6 10 0 (- 1) 10 (- 10) [] =
      Some [[Point 0 5, Point 0 4, Point 0 3, Point 0 2, Point 0 1, Point 0 0]]"
    by (subst hatchLoop.simps) (simp add: line_other)
  then show ?thesis
    by (simp add: generateParallelHatching_def Let_def angle_m90 sqrt_100)
qed

lemma layer1: "generateParallelHatching fullMask 1 (10 * (1 + real 1 * 0.3)) (- 90 + 90) 8 6 =
    Some [[Point 0 3, Point 1 3, Point 2 3, Point 3 3, Point 4 3, Point 5 3, Point 6 3, Point 7 3]]"
proof -
  have "hatchLoop fullMask 8 6 10 1 0 13 16 ps = Some ps" for ps
    by (subst hatchLoop.simps) simp
  then have "hatchLoop fullMask 8 6 10 1 0 13 3 [] =
      Some [[Point 0 3, Point 1 3, Point 2 3, Point 3 3, Point 4 3, Point 5 3, Point 6 3, Point 7 3]]"
    by (subst hatchLoop.simps) (simp add: line_h3)
  then have "hatchLoop fullMask 8 6 10 1 0 13 (- 10) [] =
      Some [[Point 0 3, Point 1 3, Point 2 3, Point 3 3, Point 4 3, Point 5 3, Point 6 3, Point 7 3]]"
    by (subst hatchLoop.simps) (simp add: line_other)
  then show ?thesis
    by (simp add: generateParallelHatching_def Let_def sqrt_100)
qed


text \<open>A generator that returns the same value at every call, and a mask without contours.\<close>

definition constantDraws :: "real \<Rightarrow> rng" where
  "constantDraws v = (\<lambda>n. v)"

definition noContours :: "Mask \<Rightarrow> (int \<times> int) list list" where
  "noContours msk = []"

lemma constantDraws_simps [simp]:
  "constantDraws v n = v" "rngDrop k (constantDraws v) = constantDraws v"
  by (simp_all add: constantDraws_def rngDrop_def)

lemma cross_layers_full:
  "map_option fst (crossLayers fullMask 10 (- 90) 8 6 [0, 1] (constantDraws v) [])
     = Some [[Point 0 5, Point 0 4, Point 0 3, Point 0 2, Point 0 1, Point 0 0],
             varyLineLength
               [Point 0 3, Point 1 3, Point 2 3, Point 3 3, Point 4 3, Point 5 3, Point 6 3,
                Point 7 3] (0.8 + v * 0.4)]"
proof -
  have l1: "generateParallelHatching fullMask 1 13 0 8 6 =
      Some [[Point 0 3, Point 1 3, Point 2 3, Point 3 3, Point 4 3, Point 5 3, Point 6 3,
             Point 7 3]]"
    using layer1 by simp
  show ?thesis
    by (simp add: Let_def layer0 l1)
qed

lemma cross_full:
  "map_option fst (generateCrossHatching fullMask (1/2) 10 (- 90) 8 6 (constantDraws v))
     = Some [[Point 0 5, Point 0 4, Point 0 3, Point 0 2, Point 0 1, Point 0 0],
             varyLineLength
               [Point 0 3, Point 1 3, Point 2 3, Point 3 3, Point 4 3, Point 5 3, Point 6 3,
                Point 7 3] (0.8 + v * 0.4)]"
proof -
  have "[0..<nat \<lceil>(1/2 :: real) * 4\<rceil>] = [0, 1]" by (simp add: upt_rec)
  then show ?thesis
    unfolding generateCrossHatching_def Let_def by (simp only: cross_layers_full)
qed

section \<open>Determinism of the hatching stage\<close>

lemma varyLineLength_trim:
  "varyLineLength
     [Point 0 3, Point 1 3, Point 2 3, Point 3 3, Point 4 3, Point 5 3, Point 6 3, Point 7 3]
     (0.8 + 0 * 0.4)
   = [Point 1 3, Point 2 3, Point 3 3, Point 4 3, Point 5 3, Point 6 3]"
  by (simp add: varyLineLength_def jsSlice_def Let_def)

text \<open>
  Claim C3 says that two invocations of \<^verbatim>\<open>generateHatching\<close> with identical arguments and
  identical seed return identical path lists. The function has no seed: on the run above,
  with identical arguments, cross hatching returns different lists when \<^verbatim>\<open>Math.random()\<close>
  returns 0 and when it returns 0.9.
\<close>

theorem C3_same_arguments_different_output:
  "map_option fst (generateHatching noContours fullMask (1/2) CROSS 10 (- 90) 8 6 (constantDraws 0))
   \<noteq> map_option fst
       (generateHatching noContours fullMask (1/2) CROSS 10 (- 90) 8 6 (constantDraws (9/10)))"
proof -
  have a: "map_option fst (generateHatching noContours fullMask (1/2) CROSS 10 (- 90) 8 6
        (constantDraws 0))
      = Some [[Point 0 5, Point 0 4, Point 0 3, Point 0 2, Point 0 1, Point 0 0],
              [Point 1 3, Point 2 3, Point 3 3, Point 4 3, Point 5 3, Point 6 3]]"
    unfolding generateHatching_def HatchingStyle.case cross_full varyLineLength_trim ..
  have b: "map_option fst (generateHatching noContours fullMask (1/2) CROSS 10 (- 90) 8 6
        (constantDraws (9/10)))
      = Some [[Point 0 5, Point 0 4, Point 0 3, Point 0 2, Point 0 1, Point 0 0], [Point 7 3]]"
    unfolding generateHatching_def HatchingStyle.case cross_full using varyLineLength_short
    by simp
  show ?thesis unfolding a b by simp
qed

lemma crossLayers_single:
  "map_option fst (crossLayers msk bs ang w h [0] r acc)
     = map_option (\<lambda>ps. acc @ ps) (generateParallelHatching msk 1 bs ang w h)"
  by (simp add: Let_def split: option.splits)

text \<open>
  Claim C3 as amended. For the Parallel and Contour styles, and for Cross hatching with
  intensity at most 0.25 (one layer at most), two invocations with identical arguments
  return identical path lists whatever \<^verbatim>\<open>Math.random()\<close> returns: these styles draw nothing.
\<close>

theorem C3_hatching_determinism:
  assumes "hstyle = PARALLEL \<or> hstyle = CONTOUR \<or> (hstyle = CROSS \<and> intensity \<le> 1/4)"
  shows "map_option fst (generateHatching fc msk intensity hstyle bs ang w h r1)
       = map_option fst (generateHatching fc msk intensity hstyle bs ang w h r2)"
proof -
  consider "hstyle = PARALLEL" | "hstyle = CONTOUR" | "hstyle = CROSS" "intensity \<le> 1/4"
    using assms by blast
  then show ?thesis
  proof cases
    case 1
    then show ?thesis by (simp add: generateHatching_def option.map_comp comp_def)
  next
    case 2
    then show ?thesis by (simp add: generateHatching_def)
  next
    case 3
    have "\<lceil>intensity * 4\<rceil> \<le> 1" using 3(2) by (simp add: ceiling_le_iff)
    then have "nat \<lceil>intensity * 4\<rceil> = 0 \<or> nat \<lceil>intensity * 4\<rceil> = 1" by linarith
    then have "[0..<nat \<lceil>intensity * 4\<rceil>] = [] \<or> [0..<nat \<lceil>intensity * 4\<rceil>] = [0]"
      by auto
    moreover have "map_option fst (crossLayers msk bs ang w h ls r1 [])
        = map_option fst (crossLayers msk bs ang w h ls r2 [])" if "ls = [] \<or> ls = [0]" for ls
      using that
    proof
      assume "ls = []"
      then show ?thesis by simp
    next
      assume "ls = [0]"
      then show ?thesis by (simp only: crossLayers_single)
    qed
    ultimately show ?thesis
      unfolding 3(1) generateHatching_def HatchingStyle.case generateCrossHatching_def Let_def
      by simp
  qed
qed

theorem C3_hatching_determinism_witness:
  "(PARALLEL = PARALLEL \<or> PARALLEL = CONTOUR \<or> (PARALLEL = CROSS \<and> (1::real) \<le> 1/4))
   \<and> map_option fst (generateHatching noContours fullMask 1 PARALLEL 10 (- 90) 8 6 (constantDraws 0))
       = Some [[Point 0 5, Point 0 4, Point 0 3, Point 0 2, Point 0 1, Point 0 0]]
   \<and> map_option fst
         (generateHatching noContours fullMask 1 PARALLEL 10 (- 90) 8 6 (constantDraws (9/10)))
       = Some [[Point 0 5, Point 0 4, Point 0 3, Point 0 2, Point 0 1, Point 0 0]]"
proof -
  have h: "PARALLEL = PARALLEL \<or> PARALLEL = CONTOUR \<or> (PARALLEL = CROSS \<and> (1::real) \<le> 1/4)"
    by simp
  have a: "map_option fst
        (generateHatching noContours fullMask 1 PARALLEL 10 (- 90) 8 6 (constantDraws 0))
      = Some [[Point 0 5, Point 0 4, Point 0 3, Point 0 2, Point 0 1, Point 0 0]]"
    by (simp add: generateHatching_def layer0)
  from C3_hatching_determinism [OF h, of noContours fullMask 10 "- 90" 8 6 "constantDraws 0"
      "constantDraws (9/10)"] a h
  show ?thesis by simp
qed


text \<open>Stippling depends on the draws as well: the third value drawn is the size of the dot.\<close>

definition drawsThen :: "real list \<Rightarrow> real \<Rightarrow> rng" where
  "drawsThen xs v = (\<lambda>n. if n < length xs then xs ! n else v)"

lemma stippling_example:
  "map_option fst (generateStippling fullMask 0 10 8 6 (drawsThen [0, 0, d] 0))
     = Some [[Point 0 0, Point (1/2 + d) 0]]"
proof -
  let ?r = "drawsThen [0, 0, d] 0"
  have r: "?r 0 = 0" "?r (Suc 0) = 0" "rngDrop 2 ?r 0 = d"
    by (simp_all add: drawsThen_def rngDrop_def)
  have c: "0 < 5 / sqrt 2" by simp
  have gw: "\<not> \<lceil>real 8 / (5 / sqrt 2)\<rceil> \<le> 0"
    by (simp add: ceiling_le_iff not_le)
  have loop: "poissonLoop 8 6 5 20 (5 / sqrt 2) gw gh 0 [Point 0 0] [Point 0 0] g rr
      = Some ([Point 0 0], rr)" for gw gh g rr
    by (subst poissonLoop.simps) simp
  have p: "poissonDiskSampling 8 6 5 20 0 ?r = Some ([Point 0 0], rngDrop 2 ?r)"
    using gw by (simp add: poissonDiskSampling_def Let_def r loop)
  have "isPointInMask (Point 0 0) fullMask"
    by (simp add: isPointInMask_def fullMask_def)
  then show ?thesis
    by (simp add: generateStippling_def Let_def p r)
qed

lemma stippling_draws_matter:
  "map_option fst (generateStippling fullMask 0 10 8 6 (drawsThen [0, 0, 0] 0))
   \<noteq> map_option fst (generateStippling fullMask 0 10 8 6 (drawsThen [0, 0, 1/2] 0))"
  by (simp add: stippling_example)

section \<open>Cross hatching and the length of its polylines\<close>

text \<open>
  Claim C9 says that every polyline emitted by the cross-hatching generator has at least
  2 points. The code does not keep that: a factor above 1 makes \<^verbatim>\<open>newLength\<close> exceed the
  length of the run, the start index becomes negative and \<^verbatim>\<open>slice\<close> counts it from the end
  of the array. On the run above, with \<^verbatim>\<open>Math.random()\<close> returning 0.9 (factor 1.16), layer 1
  emits a polyline of one point.
\<close>

theorem C9_cross_hatching_emits_one_point_path:
  "map_option fst (generateCrossHatching fullMask (1/2) 10 (- 90) 8 6 (constantDraws (9/10)))
     = Some [[Point 0 5, Point 0 4, Point 0 3, Point 0 2, Point 0 1, Point 0 0], [Point 7 3]]"
  unfolding cross_full using varyLineLength_short by simp

section \<open>The masks and intensities of Hatching mode\<close>

text \<open>
  A hatcher that emits nothing and writes down the mask data and the intensity of each
  call, in order.
\<close>

definition recordCall :: "nat list \<Rightarrow> real \<Rightarrow> (nat list \<times> real) list
    \<Rightarrow> (path list \<times> (nat list \<times> real) list) option" where
  "recordCall mdata intensity calls = Some ([], calls @ [(mdata, intensity)])"

lemma hatchLevels_recordCall:
  "hatchLevels recordCall gray numColors levels calls []
     = Some ([], calls @ map (\<lambda>level. (levelMaskData gray numColors level,
                                         levelIntensity numColors level)) levels)"
  by (induction levels arbitrary: calls) (simp_all add: recordCall_def)

lemma levelMaskData_nth:
  assumes "i < length gray"
  shows "levelMaskData gray numColors level ! i =
     (if real (quantizePixel (255 / real numColors) (gray ! i))
           > (real level + 1/2) * (255 / real numColors) then 0 else 255)"
proof -
  have g: "a * s + s / 2 = (a + 1/2) * s" for a s :: real
    by (simp add: algebra_simps)
  have e: "real level * (255 / real numColors) + 255 / real numColors / 2
      = (real level + 1/2) * (255 / real numColors)"
    by (rule g)
  show ?thesis
    unfolding levelMaskData_def thresholdBinaryInv_def Let_def e
    using assms by (simp only: nth_map length_map)
qed

text \<open>
  Claim C2 says that the mask of level \<open>L\<close> selects exactly the pixels whose quantized value
  is at least \<open>(L + 0.5) step\<close>. With two colours and one pixel of grey value 200 the
  quantized value is 127, above the threshold 63.75 of level 0, and the mask handed to the
  hatcher has 0 at that pixel: the pixel is not selected.
\<close>

theorem C2_level_mask_not_at_least:
  "hatchLevels recordCall [200] 2 [0..<2 - 1] [] [] = Some ([], [([0], 1)])
   \<and> real (quantizePixel (255 / real 2) ([200] ! 0)) \<ge> (real 0 + 1/2) * (255 / real 2)"
  by (simp only: hatchLevels_recordCall)
    (simp add: levelMaskData_def thresholdBinaryInv_def quantizePixel_def toUint8_def
      levelIntensity_def Let_def)

text \<open>
  Claim C2 as amended. In Hatching mode the hatcher is called once for each level
  \<open>L = 0, \<dots>, numColors - 2\<close>, in this order, with normalized intensity
  \<open>1 - L / (numColors - 1)\<close> and a binary mask (values 0 and 255) of the size of the image
  that selects exactly the pixels whose quantized grey value is at most \<open>(L + 0.5) step\<close>,
  where \<open>step = 255 / numColors\<close>: the threshold is applied inverted.
\<close>

theorem C2_hatching_levels:
  assumes "L < numColors - 1"
  shows "\<exists>calls.
     hatchLevels recordCall gray numColors [0..<numColors - 1] [] [] = Some ([], calls)
     \<and> length calls = numColors - 1
     \<and> snd (calls ! L) = 1 - real L / (real numColors - 1)
     \<and> length (fst (calls ! L)) = length gray
     \<and> (\<forall>i<length gray.
           (fst (calls ! L) ! i = 0 \<or> fst (calls ! L) ! i = 255)
           \<and> (fst (calls ! L) ! i > 0 \<longleftrightarrow>
                real (quantizePixel (255 / real numColors) (gray ! i))
                  \<le> (real L + 1/2) * (255 / real numColors)))"
proof -
  let ?calls = "map (\<lambda>level. (levelMaskData gray numColors level,
                               levelIntensity numColors level)) [0..<numColors - 1]"
  have c: "?calls ! L = (levelMaskData gray numColors L, levelIntensity numColors L)"
    using assms by simp
  have 1: "hatchLevels recordCall gray numColors [0..<numColors - 1] [] [] = Some ([], ?calls)"
    by (simp add: hatchLevels_recordCall)
  have 2: "length ?calls = numColors - 1" by simp
  have 3: "snd (?calls ! L) = 1 - real L / (real numColors - 1)"
    unfolding c by (simp add: levelIntensity_def)
  have 4: "length (fst (?calls ! L)) = length gray"
    unfolding c by (simp add: levelMaskData_def thresholdBinaryInv_def Let_def)
  have 5: "\<forall>i<length gray.
           (fst (?calls ! L) ! i = 0 \<or> fst (?calls ! L) ! i = 255)
           \<and> (fst (?calls ! L) ! i > 0 \<longleftrightarrow>
                real (quantizePixel (255 / real numColors) (gray ! i))
                  \<le> (real L + 1/2) * (255 / real numColors))"
    unfolding c by (simp add: levelMaskData_nth)
  show ?thesis
    by (rule exI [of _ ?calls]) (intro conjI 1 2 3 4 5)
qed

lemma hatching_levels_example:
  "hatchLevels recordCall [200, 50] 2 [0..<2 - 1] [] [] = Some ([], [([0, 255], 1)])"
  by (simp only: hatchLevels_recordCall)
    (simp add: levelMaskData_def thresholdBinaryInv_def quantizePixel_def toUint8_def
      levelIntensity_def Let_def)

theorem C2_hatching_levels_witness:
  "(0::nat) < 2 - 1
   \<and> hatchLevels recordCall [200, 50] 2 [0..<2 - 1] [] [] = Some ([], [([0, 255], 1)])
   \<and> snd ([([0, 255 :: nat], 1 :: real)] ! 0) = 1 - real 0 / (real 2 - 1)
   \<and> (([0, 255 :: nat] ! 0 > 0) \<longleftrightarrow>
        real (quantizePixel (255 / real 2) ([200, 50] ! 0)) \<le> (real 0 + 1/2) * (255 / real 2))
   \<and> (([0, 255 :: nat] ! 1 > 0) \<longleftrightarrow>
        real (quantizePixel (255 / real 2) ([200, 50] ! 1)) \<le> (real 0 + 1/2) * (255 / real 2))"
proof -
  have h: "(0::nat) < 2 - 1" by simp
  from C2_hatching_levels [OF h, of "[200, 50]"]
  obtain calls where
    c: "hatchLevels recordCall [200, 50] 2 [0..<2 - 1] [] [] = Some ([], calls)"
    and i: "snd (calls ! 0) = 1 - real 0 / (real 2 - 1)"
    and m: "\<forall>i<length [200, 50 :: nat].
           (fst (calls ! 0) ! i = 0 \<or> fst (calls ! 0) ! i = 255)
           \<and> (fst (calls ! 0) ! i > 0 \<longleftrightarrow>
                real (quantizePixel (255 / real 2) ([200, 50] ! i))
                  \<le> (real 0 + 1/2) * (255 / real 2))"
    by blast
  have calls: "calls = [([0, 255], 1)]"
    using c unfolding hatching_levels_example by simp
  have w3: "snd ([([0, 255 :: nat], 1 :: real)] ! 0) = 1 - real 0 / (real 2 - 1)"
    using i unfolding calls .
  have w4: "([0, 255 :: nat] ! 0 > 0) \<longleftrightarrow>
        real (quantizePixel (255 / real 2) ([200, 50] ! 0)) \<le> (real 0 + 1/2) * (255 / real 2)"
    using m [rule_format, of 0] unfolding calls by simp
  have w5: "([0, 255 :: nat] ! 1 > 0) \<longleftrightarrow>
        real (quantizePixel (255 / real 2) ([200, 50] ! 1)) \<le> (real 0 + 1/2) * (255 / real 2)"
    using m [rule_format, of 1] unfolding calls by simp
  show ?thesis
    by (intro conjI h hatching_levels_example w3 w4 w5)
qed


end
